theory Spec2Isabelle
  imports Main "HOL-Library.Word"
begin

unbundle bit_operations_syntax

section \<open>JavaScript strings and numbers\<close>

text \<open>
  A JavaScript string is a sequence of UTF-16 code units. A string literal of the source
  (all of them are ASCII) is written \<open>js ''...''\<close>.
\<close>

type_synonym jsstring = "16 word list"

definition js :: "string \<Rightarrow> jsstring" where
  "js s = map of_char s"

text \<open>\<open>Array.prototype.join\<close> on an array of strings.\<close>

fun join :: "jsstring list \<Rightarrow> jsstring \<Rightarrow> jsstring" where
  "join [] sep = []"
| "join [x] sep = x"
| "join (x # y # ys) sep = x @ sep @ join (y # ys) sep"

text \<open>A template literal is the concatenation of its pieces, in order.\<close>

definition template :: "jsstring list \<Rightarrow> jsstring" where
  "template pieces = concat pieces"

text \<open>
  The props \<open>width\<close> and \<open>height\<close> are JavaScript numbers; the type of numbers is a
  parameter \<open>'n\<close> of the model, and so is the conversion \<open>ToString\<close> that a template
  literal applies to an interpolated number. For evaluation at concrete inputs,
  \<open>Number_toString\<close> is that conversion on integers (below \<open>10^21\<close> in absolute value
  it is the decimal numeral, with a minus sign for negative numbers).
\<close>

fun digits :: "nat \<Rightarrow> string" where
  "digits n = (if n < 10 then [char_of (48 + n)] else digits (n div 10) @ [char_of (48 + n mod 10)])"

declare digits.simps [simp del]

definition Number_toString :: "int \<Rightarrow> jsstring" where
  "Number_toString i = (if i < 0 then js ''-'' @ js (digits (nat (- i))) else js (digits (nat i)))"


section \<open>Generating the SVG markup\<close>

subsection \<open>The hook of the revision that encodes with js-base64\<close>

definition defaultHeight :: "'n::numeral" where
  "defaultHeight = 150"

definition defaultWidth :: "'n::numeral" where
  "defaultWidth = 150"

definition namespaces :: "jsstring list" where
  \<open>namespaces =
     [js ''xmlns="http://www.w3.org/1999/xhtml"'',
      js ''xmlns:svg="http://www.w3.org/2000/svg"'']\<close>

text \<open>
  The second parameter is the array \<open>[width, height]\<close>; when the caller omits it
  (\<open>None\<close>) the default \<open>[defaultWidth, defaultHeight]\<close> is used.
\<close>

definition useSvgForeignObject ::
  "('n \<Rightarrow> jsstring) \<Rightarrow> jsstring \<Rightarrow> ('n::numeral \<times> 'n) option \<Rightarrow> jsstring" where
  \<open>useSvgForeignObject ToString htmlMarkup dimensions =
     (case (case dimensions of None \<Rightarrow> (defaultWidth, defaultHeight) | Some d \<Rightarrow> d) of
        (width, height) \<Rightarrow>
          join
            [template [js ''<svg:svg '', join namespaces (js '' ''), js '' height="'',
                       ToString height, js ''" width="'', ToString width, js ''">''],
             template [js ''<svg:foreignObject height="'', ToString height,
                       js ''" width="'', ToString width, js ''">''],
             htmlMarkup,
             js ''</svg:foreignObject>'',
             js ''</svg:svg>'']
            (js ''''))\<close>

subsection \<open>The hook of the revision that encodes with btoa\<close>

definition useSVGForeignObject ::
  "('n \<Rightarrow> jsstring) \<Rightarrow> jsstring \<Rightarrow> ('n::numeral \<times> 'n) option \<Rightarrow> jsstring" where
  \<open>useSVGForeignObject ToString htmlMarkup dimensions =
     (case (case dimensions of None \<Rightarrow> (150, 150) | Some d \<Rightarrow> d) of
        (width, height) \<Rightarrow>
          join
            [template [js ''<svg:svg '', join namespaces (js '' ''), js '' height="'',
                       ToString height, js ''" width="'', ToString width, js ''">''],
             template [js ''<svg:foreignObject height="'', ToString height,
                       js ''" width="'', ToString width, js ''">''],
             htmlMarkup,
             js ''</svg:foreignObject>'',
             js ''</svg:svg>'']
            (js ''''))\<close>

subsection \<open>The inline construction of the object-URL revision with dimension props\<close>

definition svgMarkup_objurl :: "('n \<Rightarrow> jsstring) \<Rightarrow> jsstring \<Rightarrow> 'n \<Rightarrow> 'n \<Rightarrow> jsstring" where
  \<open>svgMarkup_objurl ToString htmlMarkup width height =
     join
       [template [js ''<svg:svg '', join namespaces (js '' ''), js '' height="'',
                  ToString height, js ''" width="'', ToString width, js ''">''],
        template [js ''<svg:foreignObject height="'', ToString height,
                  js ''" width="'', ToString width, js ''">''],
        htmlMarkup,
        js ''</svg:foreignObject>'',
        js ''</svg:svg>'']
       (js '''')\<close>

subsection \<open>The inline construction of the earliest revision\<close>

definition svgMarkup_fixed500 :: "jsstring \<Rightarrow> jsstring" where
  \<open>svgMarkup_fixed500 htmlMarkup =
     join
       [template [js ''<svg:svg '', join namespaces (js '' ''), js '' height="500" width="500">''],
        js ''<svg:foreignObject height="500" width="500">'',
        htmlMarkup,
        js ''</svg:foreignObject>'',
        js ''</svg:svg>'']
       (js '''')\<close>


section \<open>Base64 encoding\<close>

text \<open>
  Neither \<open>btoa\<close> nor \<open>Base64.encode\<close> is code of the repository: the first
  belongs to the browser, the second to the js-base64 package. They are modelled after
  their public descriptions, so that the two revisions that build a data URL can be
  evaluated.
\<close>

datatype error = InvalidCharacterError | TypeError

definition b64chs :: string where
  "b64chs = ''ABCDEFGHIJKLMNOPQRSTUVWXYZabcdefghijklmnopqrstuvwxyz0123456789+/''"

text \<open>
  Base64 of a byte sequence: three bytes give four characters of the alphabet, and the
  last group of one or two bytes is padded with \<open>=\<close>.
\<close>

fun base64 :: "8 word list \<Rightarrow> string" where
  "base64 [] = []"
| "base64 [a] =
     (let n = unat a * 65536
      in [b64chs ! (n div 262144), b64chs ! (n div 4096 mod 64), CHR ''='', CHR ''=''])"
| "base64 [a, b] =
     (let n = unat a * 65536 + unat b * 256
      in [b64chs ! (n div 262144), b64chs ! (n div 4096 mod 64), b64chs ! (n div 64 mod 64),
          CHR ''=''])"
| "base64 (a # b # c # bytes) =
     (let n = unat a * 65536 + unat b * 256 + unat c
      in [b64chs ! (n div 262144), b64chs ! (n div 4096 mod 64), b64chs ! (n div 64 mod 64),
          b64chs ! (n mod 64)] @ base64 bytes)"

text \<open>
  \<open>btoa(data)\<close> of the HTML Standard: an \<open>InvalidCharacterError\<close> exception when the
  string has a code unit above U+00FF; otherwise the Base64 encoding of the bytes whose
  values are the code units of the string.
\<close>

definition btoa :: "jsstring \<Rightarrow> error + jsstring" where
  "btoa data =
     (if list_ex (\<lambda>c. 0xFF < c) data then Inl InvalidCharacterError
      else Inr (js (base64 (map ucast data))))"

text \<open>
  UTF-8 of a string of UTF-16 code units, as \<open>TextEncoder\<close> produces it: a surrogate
  pair is one code point of four bytes, and a surrogate that has no partner is replaced
  by U+FFFD (the bytes EF BF BD).
\<close>

fun utf8 :: "jsstring \<Rightarrow> 8 word list" where
  "utf8 [] = []"
| "utf8 [c] =
     (let n = unat c in
      if n < 0x80 then [of_nat n]
      else if n < 0x800 then [of_nat (0xC0 + n div 64), of_nat (0x80 + n mod 64)]
      else if 0xD800 \<le> n \<and> n \<le> 0xDFFF then [0xEF, 0xBF, 0xBD]
      else [of_nat (0xE0 + n div 4096), of_nat (0x80 + n div 64 mod 64), of_nat (0x80 + n mod 64)])"
| "utf8 (c # d # cs) =
     (let n = unat c; m = unat d in
      if n < 0x80 then of_nat n # utf8 (d # cs)
      else if n < 0x800 then of_nat (0xC0 + n div 64) # of_nat (0x80 + n mod 64) # utf8 (d # cs)
      else if 0xD800 \<le> n \<and> n \<le> 0xDBFF \<and> 0xDC00 \<le> m \<and> m \<le> 0xDFFF then
        (let cp = 0x10000 + (n - 0xD800) * 0x400 + (m - 0xDC00)
         in [of_nat (0xF0 + cp div 262144), of_nat (0x80 + cp div 4096 mod 64),
             of_nat (0x80 + cp div 64 mod 64), of_nat (0x80 + cp mod 64)] @ utf8 cs)
      else if 0xD800 \<le> n \<and> n \<le> 0xDFFF then [0xEF, 0xBF, 0xBD] @ utf8 (d # cs)
      else of_nat (0xE0 + n div 4096) # of_nat (0x80 + n div 64 mod 64) # of_nat (0x80 + n mod 64)
             # utf8 (d # cs))"

text \<open>
  \<open>Base64.encode(src)\<close> of js-base64: the string is converted to UTF-8, the bytes are
  written as a string of code units (one per byte), and that string goes through
  \<open>btoa\<close>.
\<close>

definition Base64_encode :: "jsstring \<Rightarrow> error + jsstring" where
  "Base64_encode src = btoa (map ucast (utf8 src))"

text \<open>A string whose code units are all at most U+00FF.\<close>

definition latin1 :: "jsstring \<Rightarrow> bool" where
  "latin1 s = (\<not> list_ex (\<lambda>c. 0xFF < c) s)"


section \<open>The host: canvas, images, object URLs\<close>

text \<open>
  The component talks to the browser and to two libraries. Their state is a record that
  every call takes and returns; every call is also appended to a log, so that the order
  of the calls can be read off.

  The type parameters: \<open>'v\<close> are the values of the \<open>children\<close> prop (references to
  virtual nodes), \<open>'n\<close> the JavaScript numbers, \<open>'a\<close> the values of the props that are
  forwarded to the canvas element.
\<close>

datatype 'n canvas_op =
    ClearRect 'n 'n 'n 'n
  | FillStyle jsstring
  | FillRect 'n 'n 'n 'n
  | DrawImage nat 'n 'n

datatype context2d = Context2D

datatype canvas_element = Canvas

text \<open>
  The functions that the component hands to the browser or to the framework are closures.
  A closure is represented by a constructor that names the function and holds the
  variables it captures: \<open>context\<close>, \<open>image\<close>, \<open>imageSrc\<close>, \<open>width\<close>, \<open>height\<close>, in this
  order, those of them that the function uses.
\<close>

datatype 'n handler =
    Onload_fixed500 "context2d option" nat jsstring
  | Cleanup_fixed500 "context2d option" jsstring
  | Onload_objurl "context2d option" nat jsstring 'n 'n
  | Cleanup_objurl "context2d option" jsstring 'n 'n
  | Onload_btoa "context2d option" nat 'n 'n
  | Cleanup_btoa "context2d option" 'n 'n
  | Onload_jsb64 "context2d option" nat 'n 'n
  | Cleanup_jsb64 "context2d option" 'n 'n

datatype load_state = Unloaded | Pending | Loaded | Broken

record 'n image_element =
  src :: "jsstring option"
  onload :: "'n handler option"
  onerror :: "'n handler option"
  load_state :: load_state

datatype ('v, 'n) call =
    Call_render 'v
  | Call_new_Image nat
  | Call_new_Blob jsstring jsstring
  | Call_createObjectURL jsstring
  | Call_revokeObjectURL jsstring
  | Call_btoa jsstring
  | Call_Base64_encode jsstring
  | Call_getContext
  | Set_onload nat
  | Set_src nat jsstring
  | Call_canvas "'n canvas_op"

datatype ('n, 'a) attribute = Num 'n | Other 'a

text \<open>
  The state: the log of calls; what \<open>canvasRef.current\<close> holds; the attributes of the
  canvas element; whether its \<open>getContext('2d')\<close> gives a context; its bitmap, as the
  drawing operations applied since it was last reset; the image elements, by identity;
  the object URLs that are live, each with the blob (text and type) it refers to; a
  counter for fresh identities.
\<close>

record ('v, 'n, 'a) world =
  calls :: "('v, 'n) call list"
  canvasRef :: "canvas_element option"
  attributes :: "string \<Rightarrow> ('n, 'a) attribute option"
  supports2d :: bool
  bitmap :: "'n canvas_op list"
  images :: "nat \<Rightarrow> 'n image_element option"
  objectURLs :: "(jsstring \<times> jsstring \<times> jsstring) list"
  fresh :: nat

text \<open>
  What the host computes for the component without state: \<open>render\<close> of
  preact-render-to-string, and the string conversion of numbers.
\<close>

record ('v, 'n) host =
  render :: "'v \<Rightarrow> jsstring"
  to_string :: "'n \<Rightarrow> jsstring"

definition log :: "('v, 'n) call \<Rightarrow> ('v, 'n, 'a) world \<Rightarrow> ('v, 'n, 'a) world" where
  "log c w = w\<lparr>calls := calls w @ [c]\<rparr>"

definition call_render ::
  "('v, 'n) host \<Rightarrow> 'v \<Rightarrow> ('v, 'n, 'a) world \<Rightarrow> jsstring \<times> ('v, 'n, 'a) world" where
  "call_render H children w = (render H children, log (Call_render children) w)"

definition new_Image :: "('v, 'n, 'a) world \<Rightarrow> nat \<times> ('v, 'n, 'a) world" where
  "new_Image w =
     (fresh w,
      log (Call_new_Image (fresh w))
        (w\<lparr>images := (images w)(fresh w \<mapsto>
               \<lparr>src = None, onload = None, onerror = None, load_state = Unloaded\<rparr>),
           fresh := Suc (fresh w)\<rparr>))"

definition new_Blob ::
  "jsstring \<Rightarrow> jsstring \<Rightarrow> ('v, 'n, 'a) world \<Rightarrow> (jsstring \<times> jsstring) \<times> ('v, 'n, 'a) world" where
  "new_Blob text type w = ((text, type), log (Call_new_Blob text type) w)"

text \<open>An object URL is a fresh string; the URL store maps it to the blob.\<close>

definition createObjectURL ::
  "jsstring \<times> jsstring \<Rightarrow> ('v, 'n, 'a) world \<Rightarrow> jsstring \<times> ('v, 'n, 'a) world" where
  "createObjectURL blob w =
     (let url = js ''blob:'' @ js (digits (fresh w))
      in (url, log (Call_createObjectURL url)
                 (w\<lparr>objectURLs := (url, blob) # objectURLs w, fresh := Suc (fresh w)\<rparr>)))"

definition revokeObjectURL :: "jsstring \<Rightarrow> ('v, 'n, 'a) world \<Rightarrow> ('v, 'n, 'a) world" where
  "revokeObjectURL url w =
     log (Call_revokeObjectURL url)
       (w\<lparr>objectURLs := filter (\<lambda>entry. fst entry \<noteq> url) (objectURLs w)\<rparr>)"

definition getContext ::
  "canvas_element \<Rightarrow> ('v, 'n, 'a) world \<Rightarrow> context2d option \<times> ('v, 'n, 'a) world" where
  "getContext canvas w = ((if supports2d w then Some Context2D else None), log Call_getContext w)"

definition set_onload :: "nat \<Rightarrow> 'n handler \<Rightarrow> ('v, 'n, 'a) world \<Rightarrow> ('v, 'n, 'a) world" where
  "set_onload i h w =
     log (Set_onload i)
       (w\<lparr>images := (images w)(i := map_option (\<lambda>el. el\<lparr>onload := Some h\<rparr>) (images w i))\<rparr>)"

text \<open>Assigning \<open>src\<close> starts one load of the image.\<close>

definition set_src :: "nat \<Rightarrow> jsstring \<Rightarrow> ('v, 'n, 'a) world \<Rightarrow> ('v, 'n, 'a) world" where
  "set_src i s w =
     log (Set_src i s)
       (w\<lparr>images := (images w)(i := map_option (\<lambda>el. el\<lparr>src := Some s, load_state := Pending\<rparr>)
                                        (images w i))\<rparr>)"

text \<open>
  A method call or property assignment on the 2D context. On \<open>null\<close> it throws a
  \<open>TypeError\<close>; otherwise the operation is applied to the bitmap.
\<close>

definition canvas_call ::
  "context2d option \<Rightarrow> 'n canvas_op \<Rightarrow> ('v, 'n, 'a) world \<Rightarrow> (error + unit) \<times> ('v, 'n, 'a) world" where
  "canvas_call context op w =
     (case context of
        None \<Rightarrow> (Inl TypeError, w)
      | Some c \<Rightarrow> (Inr (), log (Call_canvas op) (w\<lparr>bitmap := bitmap w @ [op]\<rparr>)))"

definition call_btoa ::
  "jsstring \<Rightarrow> ('v, 'n, 'a) world \<Rightarrow> (error + jsstring) \<times> ('v, 'n, 'a) world" where
  "call_btoa data w = (btoa data, log (Call_btoa data) w)"

definition call_Base64_encode ::
  "jsstring \<Rightarrow> ('v, 'n, 'a) world \<Rightarrow> (error + jsstring) \<times> ('v, 'n, 'a) world" where
  "call_Base64_encode data w = (Base64_encode data, log (Call_Base64_encode data) w)"

text \<open>
  Sequencing: when the first computation throws, the rest is skipped and the exception
  is the result, with the state reached so far.
\<close>

definition and_then ::
  "('e + 'x) \<times> 's \<Rightarrow> ('x \<Rightarrow> 's \<Rightarrow> ('e + 'y) \<times> 's) \<Rightarrow> ('e + 'y) \<times> 's" where
  "and_then r k = (case r of (Inl e, s) \<Rightarrow> (Inl e, s) | (Inr x, s) \<Rightarrow> k x s)"


section \<open>The component, in its four revisions\<close>

text \<open>
  The revisions are referred to as \<open>fixed500\<close> (the earliest: no dimension props, object
  URL), \<open>objurl\<close> (dimension props, object URL), \<open>btoa\<close> (data URL encoded with
  \<open>btoa\<close>) and \<open>jsb64\<close> (data URL encoded with js-base64). The functions of each are
  translated one by one; the nested functions take the variables they capture as
  parameters. The variable \<open>image\<close> of the source is written \<open>img\<close>.
\<close>

record ('v, 'n, 'a) props =
  p_children :: 'v
  p_width :: "'n option"
  p_height :: "'n option"
  p_rest :: "string \<Rightarrow> 'a option"

text \<open>
  The rest of the props after \<open>children\<close>, \<open>width\<close> and \<open>height\<close> have been taken out by
  the destructuring pattern.
\<close>

definition rest_props :: "('v, 'n, 'a) props \<Rightarrow> string \<Rightarrow> 'a option" where
  "rest_props p =
     (\<lambda>key. if key = ''children'' \<or> key = ''width'' \<or> key = ''height'' then None
            else p_rest p key)"

text \<open>
  A prop that is destructured with a default value: the default applies when the prop
  is omitted.
\<close>

definition with_default :: "'x \<Rightarrow> 'x option \<Rightarrow> 'x" where
  "with_default d prop = (case prop of None \<Rightarrow> d | Some x \<Rightarrow> x)"

text \<open>
  What one call of the component function yields: the props of the canvas element it
  returns, the effect it passes to \<open>useEffect\<close>, and the dependency of that effect.
\<close>

record ('v, 'n, 'a) rendered =
  element :: "string \<Rightarrow> ('n, 'a) attribute option"
  effect :: "('v, 'n, 'a) world \<Rightarrow> (error + 'n handler option) \<times> ('v, 'n, 'a) world"
  deps :: 'v

subsection \<open>Revision fixed500\<close>

definition setCanvasBgColor_fixed500 ::
  "context2d option \<Rightarrow> jsstring \<Rightarrow> ('v, 'n::{zero,numeral}, 'a) world
     \<Rightarrow> (error + unit) \<times> ('v, 'n, 'a) world" where
  "setCanvasBgColor_fixed500 context color w =
     (if context \<noteq> None then
        and_then (canvas_call context (FillStyle color) w)
          (\<lambda>_. canvas_call context (FillRect 0 0 500 500))
      else (Inr (), w))"

definition clearCanvas_fixed500 ::
  "context2d option \<Rightarrow> ('v, 'n::{zero,numeral}, 'a) world \<Rightarrow> (error + unit) \<times> ('v, 'n, 'a) world" where
  "clearCanvas_fixed500 context w =
     (if context \<noteq> None then
        and_then (canvas_call context (ClearRect 0 0 500 500) w)
          (\<lambda>_. setCanvasBgColor_fixed500 context (js ''white''))
      else (Inr (), w))"

definition onload_fixed500 ::
  "context2d option \<Rightarrow> nat \<Rightarrow> jsstring \<Rightarrow> ('v, 'n::{zero,numeral}, 'a) world
     \<Rightarrow> (error + unit) \<times> ('v, 'n, 'a) world" where
  "onload_fixed500 context img imageSrc w =
     (if context \<noteq> None then
        and_then (clearCanvas_fixed500 context w) (\<lambda>_ w1.
        and_then (canvas_call context (DrawImage img 0 0) w1) (\<lambda>_ w2.
        (Inr (), revokeObjectURL imageSrc w2)))
      else (Inr (), w))"

definition cleanup_fixed500 ::
  "context2d option \<Rightarrow> jsstring \<Rightarrow> ('v, 'n::{zero,numeral}, 'a) world
     \<Rightarrow> (error + unit) \<times> ('v, 'n, 'a) world" where
  "cleanup_fixed500 context imageSrc w =
     and_then (clearCanvas_fixed500 context w) (\<lambda>_ w1.
     (Inr (), revokeObjectURL imageSrc w1))"

definition effect_fixed500 ::
  "('v, 'n) host \<Rightarrow> 'v \<Rightarrow> ('v, 'n, 'a) world \<Rightarrow> (error + 'n handler option) \<times> ('v, 'n, 'a) world" where
  "effect_fixed500 H children w0 =
     (case canvasRef w0 of
        None \<Rightarrow> (Inr None, w0)
      | Some canvas \<Rightarrow>
          (let (htmlMarkup, w1) = call_render H children w0;
               svgMarkup = svgMarkup_fixed500 htmlMarkup;
               (img, w2) = new_Image w1;
               (imageBlob, w3) = new_Blob svgMarkup (js ''image/svg+xml;charset=utf-8'') w2;
               (imageSrc, w4) = createObjectURL imageBlob w3;
               (context, w5) = getContext canvas w4;
               w6 = set_onload img (Onload_fixed500 context img imageSrc) w5;
               w7 = set_src img imageSrc w6
           in (Inr (Some (Cleanup_fixed500 context imageSrc)), w7)))"

definition RenderOnCanvas_fixed500 ::
  "('v, 'n) host \<Rightarrow> ('v, 'n, 'a) props \<Rightarrow> ('v, 'n, 'a) rendered" where
  "RenderOnCanvas_fixed500 H p =
     (let children = p_children p
      in \<lparr>element = (\<lambda>key. None), effect = effect_fixed500 H children, deps = children\<rparr>)"

subsection \<open>Revision objurl\<close>

definition setCanvasBgColor_objurl ::
  "context2d option \<Rightarrow> 'n \<Rightarrow> 'n \<Rightarrow> jsstring \<Rightarrow> ('v, 'n::{zero,numeral}, 'a) world
     \<Rightarrow> (error + unit) \<times> ('v, 'n, 'a) world" where
  "setCanvasBgColor_objurl context width height color w =
     (if context \<noteq> None then
        and_then (canvas_call context (FillStyle color) w)
          (\<lambda>_. canvas_call context (FillRect 0 0 width height))
      else (Inr (), w))"

definition clearCanvas_objurl ::
  "context2d option \<Rightarrow> 'n \<Rightarrow> 'n \<Rightarrow> ('v, 'n::{zero,numeral}, 'a) world
     \<Rightarrow> (error + unit) \<times> ('v, 'n, 'a) world" where
  "clearCanvas_objurl context width height w =
     (if context \<noteq> None then
        and_then (canvas_call context (ClearRect 0 0 width height) w)
          (\<lambda>_. setCanvasBgColor_objurl context width height (js ''white''))
      else (Inr (), w))"

definition onload_objurl ::
  "context2d option \<Rightarrow> nat \<Rightarrow> jsstring \<Rightarrow> 'n \<Rightarrow> 'n \<Rightarrow> ('v, 'n::{zero,numeral}, 'a) world
     \<Rightarrow> (error + unit) \<times> ('v, 'n, 'a) world" where
  "onload_objurl context img imageSrc width height w =
     (if context \<noteq> None then
        and_then (clearCanvas_objurl context width height w) (\<lambda>_ w1.
        and_then (canvas_call context (DrawImage img 0 0) w1) (\<lambda>_ w2.
        (Inr (), revokeObjectURL imageSrc w2)))
      else (Inr (), w))"

definition cleanup_objurl ::
  "context2d option \<Rightarrow> jsstring \<Rightarrow> 'n \<Rightarrow> 'n \<Rightarrow> ('v, 'n::{zero,numeral}, 'a) world
     \<Rightarrow> (error + unit) \<times> ('v, 'n, 'a) world" where
  "cleanup_objurl context imageSrc width height w =
     and_then (clearCanvas_objurl context width height w) (\<lambda>_ w1.
     (Inr (), revokeObjectURL imageSrc w1))"

definition effect_objurl ::
  "('v, 'n) host \<Rightarrow> 'v \<Rightarrow> 'n \<Rightarrow> 'n \<Rightarrow> ('v, 'n, 'a) world
     \<Rightarrow> (error + 'n handler option) \<times> ('v, 'n, 'a) world" where
  "effect_objurl H children width height w0 =
     (case canvasRef w0 of
        None \<Rightarrow> (Inr None, w0)
      | Some canvas \<Rightarrow>
          (let (htmlMarkup, w1) = call_render H children w0;
               svgMarkup = svgMarkup_objurl (to_string H) htmlMarkup width height;
               (img, w2) = new_Image w1;
               (imageBlob, w3) = new_Blob svgMarkup (js ''image/svg+xml;charset=utf-8'') w2;
               (imageSrc, w4) = createObjectURL imageBlob w3;
               (context, w5) = getContext canvas w4;
               w6 = set_onload img (Onload_objurl context img imageSrc width height) w5;
               w7 = set_src img imageSrc w6
           in (Inr (Some (Cleanup_objurl context imageSrc width height)), w7)))"

definition RenderOnCanvas_objurl ::
  "('v, 'n::{zero,numeral}) host \<Rightarrow> ('v, 'n, 'a) props \<Rightarrow> ('v, 'n, 'a) rendered" where
  "RenderOnCanvas_objurl H p =
     (let children = p_children p;
          width = with_default 150 (p_width p);
          height = with_default 150 (p_height p);
          props = rest_props p
      in \<lparr>element = (\<lambda>key. map_option Other (props key)),
          effect = effect_objurl H children width height,
          deps = children\<rparr>)"

subsection \<open>Revision btoa\<close>

definition setCanvasBgColor_btoa ::
  "context2d option \<Rightarrow> 'n \<Rightarrow> 'n \<Rightarrow> jsstring \<Rightarrow> ('v, 'n::{zero,numeral}, 'a) world
     \<Rightarrow> (error + unit) \<times> ('v, 'n, 'a) world" where
  "setCanvasBgColor_btoa context width height color w =
     (if context \<noteq> None then
        and_then (canvas_call context (FillStyle color) w)
          (\<lambda>_. canvas_call context (FillRect 0 0 width height))
      else (Inr (), w))"

definition clearCanvas_btoa ::
  "context2d option \<Rightarrow> 'n \<Rightarrow> 'n \<Rightarrow> ('v, 'n::{zero,numeral}, 'a) world
     \<Rightarrow> (error + unit) \<times> ('v, 'n, 'a) world" where
  "clearCanvas_btoa context width height w =
     (if context \<noteq> None then
        and_then (canvas_call context (ClearRect 0 0 width height) w)
          (\<lambda>_. setCanvasBgColor_btoa context width height (js ''white''))
      else (Inr (), w))"

definition onload_btoa ::
  "context2d option \<Rightarrow> nat \<Rightarrow> 'n \<Rightarrow> 'n \<Rightarrow> ('v, 'n::{zero,numeral}, 'a) world
     \<Rightarrow> (error + unit) \<times> ('v, 'n, 'a) world" where
  "onload_btoa context img width height w =
     (if context \<noteq> None then
        and_then (clearCanvas_btoa context width height w) (\<lambda>_ w1.
        canvas_call context (DrawImage img 0 0) w1)
      else (Inr (), w))"

definition cleanup_btoa ::
  "context2d option \<Rightarrow> 'n \<Rightarrow> 'n \<Rightarrow> ('v, 'n::{zero,numeral}, 'a) world
     \<Rightarrow> (error + unit) \<times> ('v, 'n, 'a) world" where
  "cleanup_btoa context width height w = clearCanvas_btoa context width height w"

definition effect_btoa ::
  "('v, 'n::{zero,numeral}) host \<Rightarrow> 'v \<Rightarrow> 'n \<Rightarrow> 'n \<Rightarrow> ('v, 'n, 'a) world
     \<Rightarrow> (error + 'n handler option) \<times> ('v, 'n, 'a) world" where
  "effect_btoa H children width height w0 =
     (case canvasRef w0 of
        None \<Rightarrow> (Inr None, w0)
      | Some canvas \<Rightarrow>
          (let (htmlMarkup, w1) = call_render H children w0;
               svgMarkup = useSVGForeignObject (to_string H) htmlMarkup (Some (width, height));
               (img, w2) = new_Image w1
           in and_then (call_btoa svgMarkup w2) (\<lambda>base64SvgMarkup w3.
                (let imageSrc = template [js ''data:image/svg+xml;base64,'', base64SvgMarkup];
                     (context, w4) = getContext canvas w3;
                     w5 = set_onload img (Onload_btoa context img width height) w4;
                     w6 = set_src img imageSrc w5
                 in (Inr (Some (Cleanup_btoa context width height)), w6)))))"

definition RenderOnCanvas_btoa ::
  "('v, 'n::{zero,numeral}) host \<Rightarrow> ('v, 'n, 'a) props \<Rightarrow> ('v, 'n, 'a) rendered" where
  "RenderOnCanvas_btoa H p =
     (let children = p_children p;
          width = with_default 150 (p_width p);
          height = with_default 150 (p_height p);
          props = rest_props p
      in \<lparr>element = (\<lambda>key. map_option Other (props key)),
          effect = effect_btoa H children width height,
          deps = children\<rparr>)"

subsection \<open>Revision jsb64\<close>

definition useSvgAsImageSrc ::
  "jsstring \<Rightarrow> ('v, 'n, 'a) world \<Rightarrow> (error + nat) \<times> ('v, 'n, 'a) world" where
  "useSvgAsImageSrc svgMarkup w0 =
     (let (img, w1) = new_Image w0
      in and_then (call_Base64_encode svgMarkup w1) (\<lambda>base64SvgMarkup w2.
           (let imageSrc = template [js ''data:image/svg+xml;base64,'', base64SvgMarkup];
                w3 = set_src img imageSrc w2
            in (Inr img, w3))))"

record 'n CanvasOptions =
  co_context :: "context2d option"
  co_height :: 'n
  co_width :: 'n

definition setCanvasBgColor ::
  "'n CanvasOptions \<Rightarrow> jsstring \<Rightarrow> ('v, 'n::{zero,numeral}, 'a) world
     \<Rightarrow> (error + unit) \<times> ('v, 'n, 'a) world" where
  "setCanvasBgColor options color w =
     (if co_context options \<noteq> None then
        and_then (canvas_call (co_context options) (FillStyle color) w)
          (\<lambda>_. canvas_call (co_context options) (FillRect 0 0 (co_width options) (co_height options)))
      else (Inr (), w))"

definition clearCanvas ::
  "'n CanvasOptions \<Rightarrow> ('v, 'n::{zero,numeral}, 'a) world \<Rightarrow> (error + unit) \<times> ('v, 'n, 'a) world" where
  "clearCanvas options w =
     (if co_context options \<noteq> None then
        and_then
          (canvas_call (co_context options) (ClearRect 0 0 (co_width options) (co_height options)) w)
          (\<lambda>_. setCanvasBgColor
                  \<lparr>co_context = co_context options, co_height = co_height options,
                   co_width = co_width options\<rparr>
                  (js ''white''))
      else (Inr (), w))"

definition onload_jsb64 ::
  "context2d option \<Rightarrow> nat \<Rightarrow> 'n \<Rightarrow> 'n \<Rightarrow> ('v, 'n::{zero,numeral}, 'a) world
     \<Rightarrow> (error + unit) \<times> ('v, 'n, 'a) world" where
  "onload_jsb64 context img width height w =
     (if context \<noteq> None then
        and_then (clearCanvas \<lparr>co_context = context, co_height = height, co_width = width\<rparr> w)
          (\<lambda>_ w1. canvas_call context (DrawImage img 0 0) w1)
      else (Inr (), w))"

definition cleanup_jsb64 ::
  "context2d option \<Rightarrow> 'n \<Rightarrow> 'n \<Rightarrow> ('v, 'n::{zero,numeral}, 'a) world
     \<Rightarrow> (error + unit) \<times> ('v, 'n, 'a) world" where
  "cleanup_jsb64 context width height w =
     (if context \<noteq> None then
        clearCanvas \<lparr>co_context = context, co_height = height, co_width = width\<rparr> w
      else (Inr (), w))"

definition effect_jsb64 ::
  "('v, 'n::{zero,numeral}) host \<Rightarrow> 'v \<Rightarrow> 'n \<Rightarrow> 'n \<Rightarrow> ('v, 'n, 'a) world
     \<Rightarrow> (error + 'n handler option) \<times> ('v, 'n, 'a) world" where
  "effect_jsb64 H children width height w0 =
     (case canvasRef w0 of
        None \<Rightarrow> (Inr None, w0)
      | Some canvas \<Rightarrow>
          (let (htmlMarkup, w1) = call_render H children w0;
               svgMarkup = useSvgForeignObject (to_string H) htmlMarkup (Some (width, height))
           in and_then (useSvgAsImageSrc svgMarkup w1) (\<lambda>img w2.
                (let (context, w3) = getContext canvas w2;
                     w4 = set_onload img (Onload_jsb64 context img width height) w3
                 in (Inr (Some (Cleanup_jsb64 context width height)), w4)))))"

definition RenderOnCanvas_jsb64 ::
  "('v, 'n::{zero,numeral}) host \<Rightarrow> ('v, 'n, 'a) props \<Rightarrow> ('v, 'n, 'a) rendered" where
  "RenderOnCanvas_jsb64 H p =
     (let children = p_children p;
          width = with_default defaultWidth (p_width p);
          height = with_default defaultHeight (p_height p);
          props = rest_props p
      in \<lparr>element = (\<lambda>key. map_option Other (props key))
                      (''height'' \<mapsto> Num height, ''width'' \<mapsto> Num width),
          effect = effect_jsb64 H children width height,
          deps = children\<rparr>)"

subsection \<open>Running a closure\<close>

fun run_handler ::
  "'n handler \<Rightarrow> ('v, 'n::{zero,numeral}, 'a) world \<Rightarrow> (error + unit) \<times> ('v, 'n, 'a) world" where
  "run_handler (Onload_fixed500 context img imageSrc) w = onload_fixed500 context img imageSrc w"
| "run_handler (Cleanup_fixed500 context imageSrc) w = cleanup_fixed500 context imageSrc w"
| "run_handler (Onload_objurl context img imageSrc width height) w =
     onload_objurl context img imageSrc width height w"
| "run_handler (Cleanup_objurl context imageSrc width height) w =
     cleanup_objurl context imageSrc width height w"
| "run_handler (Onload_btoa context img width height) w = onload_btoa context img width height w"
| "run_handler (Cleanup_btoa context width height) w = cleanup_btoa context width height w"
| "run_handler (Onload_jsb64 context img width height) w = onload_jsb64 context img width height w"
| "run_handler (Cleanup_jsb64 context width height) w = cleanup_jsb64 context width height w"

datatype revision = Fixed500 | ObjUrl | Btoa | JsBase64

fun RenderOnCanvas ::
  "revision \<Rightarrow> ('v, 'n::{zero,numeral}) host \<Rightarrow> ('v, 'n, 'a) props \<Rightarrow> ('v, 'n, 'a) rendered" where
  "RenderOnCanvas Fixed500 H p = RenderOnCanvas_fixed500 H p"
| "RenderOnCanvas ObjUrl H p = RenderOnCanvas_objurl H p"
| "RenderOnCanvas Btoa H p = RenderOnCanvas_btoa H p"
| "RenderOnCanvas JsBase64 H p = RenderOnCanvas_jsb64 H p"

declare RenderOnCanvas.simps [simp del]


section \<open>The framework and the browser around the component\<close>

text \<open>
  The canvas element is created or patched with the props of the returned element, and
  the ref points to it. Assigning the \<open>width\<close> or \<open>height\<close> attribute of a canvas resets
  its bitmap; an attribute is assigned when its value differs from the one of the
  previous rendering.
\<close>

definition patch_canvas ::
  "(string \<Rightarrow> ('n, 'a) attribute option) \<Rightarrow> ('v, 'n, 'a) world \<Rightarrow> ('v, 'n, 'a) world" where
  "patch_canvas new w =
     (let old = attributes w;
          w1 = w\<lparr>attributes := new, canvasRef := Some Canvas\<rparr>
      in if new ''width'' \<noteq> old ''width'' \<or> new ''height'' \<noteq> old ''height''
         then w1\<lparr>bitmap := []\<rparr> else w1)"

text \<open>
  The state of the \<open>useEffect\<close> hook of one component instance: the dependency of the
  last effect that ran, and the cleanup function that this effect returned.
\<close>

record ('v, 'n) effect_hook =
  hook_args :: "'v option"
  hook_cleanup :: "'n handler option"

definition invokeCleanup ::
  "('v, 'n) effect_hook \<Rightarrow> ('v, 'n::{zero,numeral}, 'a) world \<Rightarrow> (error + unit) \<times> ('v, 'n, 'a) world" where
  "invokeCleanup h w =
     (case hook_cleanup h of None \<Rightarrow> (Inr (), w) | Some c \<Rightarrow> run_handler c w)"

text \<open>
  Committing a rendering: the canvas is patched; when the dependency differs from the
  one of the last effect (or there was none), the old cleanup runs and then the new
  effect.
\<close>

definition commit ::
  "('v, 'n::{zero,numeral}, 'a) rendered \<Rightarrow> ('v, 'n) effect_hook \<Rightarrow> ('v, 'n, 'a) world
     \<Rightarrow> (error + ('v, 'n) effect_hook) \<times> ('v, 'n, 'a) world" where
  "commit r h w =
     (let w1 = patch_canvas (element r) w
      in if hook_args h = Some (deps r) then (Inr h, w1)
         else and_then (invokeCleanup h w1) (\<lambda>_ w2.
              and_then (effect r w2) (\<lambda>c w3.
              (Inr \<lparr>hook_args = Some (deps r), hook_cleanup = c\<rparr>, w3))))"

definition mount ::
  "('v, 'n::{zero,numeral}, 'a) rendered \<Rightarrow> ('v, 'n, 'a) world
     \<Rightarrow> (error + ('v, 'n) effect_hook) \<times> ('v, 'n, 'a) world" where
  "mount r w = commit r \<lparr>hook_args = None, hook_cleanup = None\<rparr> w"

definition unmount ::
  "('v, 'n) effect_hook \<Rightarrow> ('v, 'n::{zero,numeral}, 'a) world \<Rightarrow> (error + unit) \<times> ('v, 'n, 'a) world" where
  "unmount h w =
     and_then (invokeCleanup h w) (\<lambda>_ w1. (Inr (), w1\<lparr>canvasRef := None\<rparr>))"

text \<open>
  The browser finishes a pending load of an image: the image becomes loaded and its
  \<open>onload\<close> handler, if any, runs; or the load fails, the image becomes broken and its
  \<open>onerror\<close> handler, if any, runs.
\<close>

definition image_loaded ::
  "nat \<Rightarrow> ('v, 'n::{zero,numeral}, 'a) world \<Rightarrow> (error + unit) \<times> ('v, 'n, 'a) world" where
  "image_loaded i w =
     (case images w i of
        None \<Rightarrow> (Inr (), w)
      | Some el \<Rightarrow>
          if load_state el \<noteq> Pending then (Inr (), w)
          else (let w1 = w\<lparr>images := (images w)(i \<mapsto> el\<lparr>load_state := Loaded\<rparr>)\<rparr>
                in case onload el of None \<Rightarrow> (Inr (), w1) | Some h \<Rightarrow> run_handler h w1))"

definition image_failed ::
  "nat \<Rightarrow> ('v, 'n::{zero,numeral}, 'a) world \<Rightarrow> (error + unit) \<times> ('v, 'n, 'a) world" where
  "image_failed i w =
     (case images w i of
        None \<Rightarrow> (Inr (), w)
      | Some el \<Rightarrow>
          if load_state el \<noteq> Pending then (Inr (), w)
          else (let w1 = w\<lparr>images := (images w)(i \<mapsto> el\<lparr>load_state := Broken\<rparr>)\<rparr>
                in case onerror el of None \<Rightarrow> (Inr (), w1) | Some h \<Rightarrow> run_handler h w1))"

text \<open>The state before anything is mounted.\<close>

definition initial_world :: "bool \<Rightarrow> ('v, 'n, 'a) world" where
  "initial_world has2d =
     \<lparr>calls = [], canvasRef = None, attributes = (\<lambda>key. None), supports2d = has2d, bitmap = [],
      images = (\<lambda>i. None), objectURLs = [], fresh = 0\<rparr>"


section \<open>Reading the log\<close>

text \<open>The calls that were made between two states.\<close>

definition calls_since ::
  "('v, 'n, 'a) world \<Rightarrow> ('v, 'n, 'a) world \<Rightarrow> ('v, 'n) call list" where
  "calls_since w0 w1 = drop (length (calls w0)) (calls w1)"

text \<open>The operations on the 2D context among some calls, in order.\<close>

fun canvas_ops :: "('v, 'n) call list \<Rightarrow> 'n canvas_op list" where
  "canvas_ops [] = []"
| "canvas_ops (Call_canvas op # cs) = op # canvas_ops cs"
| "canvas_ops (c # cs) = canvas_ops cs"

text \<open>The rectangles \<open>(x, y, w, h)\<close> of the \<open>clearRect\<close> and \<open>fillRect\<close> operations.\<close>

fun rectangles :: "'n canvas_op list \<Rightarrow> ('n \<times> 'n \<times> 'n \<times> 'n) list" where
  "rectangles [] = []"
| "rectangles (ClearRect x y w h # ops) = (x, y, w, h) # rectangles ops"
| "rectangles (FillRect x y w h # ops) = (x, y, w, h) # rectangles ops"
| "rectangles (op # ops) = rectangles ops"

text \<open>
  The SVG markup that was handed over to become an image source: the text of a new blob,
  or the argument of one of the two Base64 encoders.
\<close>

fun svg_arguments :: "('v, 'n) call list \<Rightarrow> jsstring list" where
  "svg_arguments [] = []"
| "svg_arguments (Call_new_Blob text type # cs) = text # svg_arguments cs"
| "svg_arguments (Call_btoa data # cs) = data # svg_arguments cs"
| "svg_arguments (Call_Base64_encode data # cs) = data # svg_arguments cs"
| "svg_arguments (c # cs) = svg_arguments cs"

text \<open>The assignments to \<open>src\<close> of the image \<open>i\<close>.\<close>

fun src_assignments :: "nat \<Rightarrow> ('v, 'n) call list \<Rightarrow> jsstring list" where
  "src_assignments i [] = []"
| "src_assignments i (Set_src j s # cs) =
     (if j = i then s # src_assignments i cs else src_assignments i cs)"
| "src_assignments i (c # cs) = src_assignments i cs"

text \<open>The object URLs that were created, and those that were revoked.\<close>

fun created_urls :: "('v, 'n) call list \<Rightarrow> jsstring list" where
  "created_urls [] = []"
| "created_urls (Call_createObjectURL url # cs) = url # created_urls cs"
| "created_urls (c # cs) = created_urls cs"

fun revoked_urls :: "('v, 'n) call list \<Rightarrow> jsstring list" where
  "revoked_urls [] = []"
| "revoked_urls (Call_revokeObjectURL url # cs) = url # revoked_urls cs"
| "revoked_urls (c # cs) = revoked_urls cs"

text \<open>The object URLs that are live in a state.\<close>

definition live_urls :: "('v, 'n, 'a) world \<Rightarrow> jsstring list" where
  "live_urls w = map fst (objectURLs w)"


section \<open>Reading a closure\<close>

text \<open>
  The context that a closure has captured; the width and height that it uses (the
  captured ones, or the literal 500 of the earliest revision); and, for an \<open>onload\<close>
  handler, the image that it draws.
\<close>

fun captured_context :: "'n handler \<Rightarrow> context2d option" where
  "captured_context (Onload_fixed500 context img imageSrc) = context"
| "captured_context (Cleanup_fixed500 context imageSrc) = context"
| "captured_context (Onload_objurl context img imageSrc width height) = context"
| "captured_context (Cleanup_objurl context imageSrc width height) = context"
| "captured_context (Onload_btoa context img width height) = context"
| "captured_context (Cleanup_btoa context width height) = context"
| "captured_context (Onload_jsb64 context img width height) = context"
| "captured_context (Cleanup_jsb64 context width height) = context"

fun used_size :: "'n::numeral handler \<Rightarrow> 'n \<times> 'n" where
  "used_size (Onload_fixed500 context img imageSrc) = (500, 500)"
| "used_size (Cleanup_fixed500 context imageSrc) = (500, 500)"
| "used_size (Onload_objurl context img imageSrc width height) = (width, height)"
| "used_size (Cleanup_objurl context imageSrc width height) = (width, height)"
| "used_size (Onload_btoa context img width height) = (width, height)"
| "used_size (Cleanup_btoa context width height) = (width, height)"
| "used_size (Onload_jsb64 context img width height) = (width, height)"
| "used_size (Cleanup_jsb64 context width height) = (width, height)"

fun drawn_image :: "'n handler \<Rightarrow> nat option" where
  "drawn_image (Onload_fixed500 context img imageSrc) = Some img"
| "drawn_image (Onload_objurl context img imageSrc width height) = Some img"
| "drawn_image (Onload_btoa context img width height) = Some img"
| "drawn_image (Onload_jsb64 context img width height) = Some img"
| "drawn_image h = None"

text \<open>The object URL that a closure of an object-URL revision has captured.\<close>

fun captured_url :: "'n handler \<Rightarrow> jsstring option" where
  "captured_url (Onload_fixed500 context img imageSrc) = Some imageSrc"
| "captured_url (Cleanup_fixed500 context imageSrc) = Some imageSrc"
| "captured_url (Onload_objurl context img imageSrc width height) = Some imageSrc"
| "captured_url (Cleanup_objurl context imageSrc width height) = Some imageSrc"
| "captured_url h = None"

text \<open>
  The drawing that the specification asks of a closure that has a context: clear the
  rectangle \<open>(0, 0, width, height)\<close>, fill it white and, in an \<open>onload\<close> handler,
  draw the image at the origin.
\<close>

definition spec_drawing :: "'n::{zero,numeral} handler \<Rightarrow> 'n canvas_op list" where
  "spec_drawing h =
     (case used_size h of
        (width, height) \<Rightarrow>
          [ClearRect 0 0 width height, FillStyle (js ''white''), FillRect 0 0 width height]
          @ (case drawn_image h of None \<Rightarrow> [] | Some img \<Rightarrow> [DrawImage img 0 0]))"

text \<open>
  The SVG document as the specification describes it, from the HTML markup and the
  strings of the width and the height.
\<close>

definition svg_document :: "jsstring \<Rightarrow> jsstring \<Rightarrow> jsstring \<Rightarrow> jsstring" where
  \<open>svg_document h w ht =
     js ''<svg:svg xmlns="http://www.w3.org/1999/xhtml" xmlns:svg="http://www.w3.org/2000/svg" height="''
       @ ht @ js ''" width="'' @ w @ js ''">''
     @ js ''<svg:foreignObject height="'' @ ht @ js ''" width="'' @ w @ js ''">''
     @ h
     @ js ''</svg:foreignObject>''
     @ js ''</svg:svg>''\<close>


section \<open>The life of one effect run\<close>

text \<open>
  After an effect has run, three things can happen to it: the browser reports that the
  image has loaded, the browser reports that the load has failed, and the framework
  calls the cleanup function (once: on unmount, or before the next effect when
  \<open>children\<close> has changed). \<open>play\<close> applies a sequence of such events, in any order, to
  the state after the effect; the flag tells whether the cleanup has run.
\<close>

datatype event = Load | Fail | Clean

fun step_event ::
  "nat \<Rightarrow> 'n handler option \<Rightarrow> event \<Rightarrow> ('v, 'n::{zero,numeral}, 'a) world \<times> bool
     \<Rightarrow> ('v, 'n, 'a) world \<times> bool" where
  "step_event i c Load (w, cleaned) = (snd (image_loaded i w), cleaned)"
| "step_event i c Fail (w, cleaned) = (snd (image_failed i w), cleaned)"
| "step_event i c Clean (w, cleaned) =
     (if cleaned then (w, cleaned)
      else (snd (invokeCleanup \<lparr>hook_args = None, hook_cleanup = c\<rparr> w), True))"

fun play ::
  "nat \<Rightarrow> 'n handler option \<Rightarrow> event list \<Rightarrow> ('v, 'n::{zero,numeral}, 'a) world \<times> bool
     \<Rightarrow> ('v, 'n, 'a) world \<times> bool" where
  "play i c [] s = s"
| "play i c (e # es) s = play i c es (step_event i c e s)"

text \<open>
  The state machine of the specification, for one effect run: the phases idle,
  image-loading and drawn, and whether the cleanup has run. Its transitions are the
  assignment of \<open>src\<close>, the \<open>onload\<close> handler firing with a context, and the cleanup.
\<close>

datatype phase = Idle | ImageLoading | Drawn

inductive spec_step :: "phase \<times> bool \<Rightarrow> phase \<times> bool \<Rightarrow> bool" where
  src_assignment: "spec_step (Idle, c) (ImageLoading, c)"
| onload_with_context: "spec_step (ImageLoading, c) (Drawn, c)"
| cleanup: "spec_step (p, False) (p, True)"

text \<open>
  The phase of the run whose image is \<open>i\<close>, read from the calls made since the run
  started: drawn once the image has been drawn on the canvas, image-loading once its
  \<open>src\<close> has been assigned, idle before.
\<close>

definition phase_of :: "nat \<Rightarrow> ('v, 'n::{zero,numeral}) call list \<Rightarrow> phase" where
  "phase_of i cs =
     (if DrawImage i 0 0 \<in> set (canvas_ops cs) then Drawn
      else if src_assignments i cs \<noteq> [] then ImageLoading
      else Idle)"

definition abstract_state ::
  "('v, 'n::{zero,numeral}, 'a) world \<Rightarrow> nat \<Rightarrow> ('v, 'n, 'a) world \<times> bool \<Rightarrow> phase \<times> bool" where
  "abstract_state w0 i s = (phase_of i (calls_since w0 (fst s)), snd s)"

text \<open>
  What the specification says of the events after the effect of a run with image \<open>i\<close>,
  cleanup \<open>cl\<close> and image source \<open>source\<close> that started in \<open>w0\<close> and left \<open>w1\<close>: in
  every state \<open>s\<close> that a sequence of events reaches, every event \<open>e\<close> is a transition
  of the state machine or leaves the abstract state as it is; the log holds the one
  assignment to \<open>src\<close> and the image has no \<open>onerror\<close> handler; a failed load adds no
  call and changes neither the bitmap nor the abstract state; and without a context a
  load does not change the abstract state.
\<close>

definition events_follow_spec ::
  "('v, 'n::{zero,numeral}, 'a) world \<Rightarrow> nat \<Rightarrow> 'n handler \<Rightarrow> jsstring \<Rightarrow> bool
     \<Rightarrow> ('v, 'n, 'a) world \<Rightarrow> bool" where
  "events_follow_spec w0 i cl source has_context w1 =
     (\<forall>es e.
        (let s = play i (Some cl) es (w1, False);
             s' = step_event i (Some cl) e s
         in (abstract_state w0 i s' = abstract_state w0 i s
               \<or> spec_step (abstract_state w0 i s) (abstract_state w0 i s'))
            \<and> src_assignments i (calls_since w0 (fst s)) = [source]
            \<and> map_option onerror (images (fst s) i) = Some None
            \<and> (e = Fail \<longrightarrow>
                  calls (fst s') = calls (fst s) \<and> bitmap (fst s') = bitmap (fst s)
                  \<and> abstract_state w0 i s' = abstract_state w0 i s)
            \<and> (e = Load \<and> \<not> has_context \<longrightarrow>
                  abstract_state w0 i s' = abstract_state w0 i s)))"

text \<open>Whether a closure is an \<open>onload\<close> handler that draws the image \<open>i\<close>.\<close>

fun onload_of :: "nat \<Rightarrow> 'n handler \<Rightarrow> bool" where
  "onload_of i (Onload_fixed500 context img imageSrc) = (img = i)"
| "onload_of i (Onload_objurl context img imageSrc width height) = (img = i)"
| "onload_of i (Onload_btoa context img width height) = (img = i)"
| "onload_of i (Onload_jsb64 context img width height) = (img = i)"
| "onload_of i h = False"

fun is_cleanup :: "'n handler \<Rightarrow> bool" where
  "is_cleanup (Cleanup_fixed500 context imageSrc) = True"
| "is_cleanup (Cleanup_objurl context imageSrc width height) = True"
| "is_cleanup (Cleanup_btoa context width height) = True"
| "is_cleanup (Cleanup_jsb64 context width height) = True"
| "is_cleanup h = False"


section \<open>Virtual nodes for the examples\<close>

text \<open>
  The examples need children to render. A small part of preact-render-to-string is
  enough for them: text, with the four characters that it escapes, and elements without
  attributes.
\<close>

datatype vnode = Text jsstring | Element string "vnode list"

fun encodeEntities :: "jsstring \<Rightarrow> jsstring" where
  "encodeEntities [] = []"
| "encodeEntities (ch # s) =
     (if ch = of_char CHR ''<'' then js ''&lt;''
      else if ch = of_char CHR ''>'' then js ''&gt;''
      else if ch = of_char CHR 0x22 then js ''&quot;''
      else if ch = of_char CHR ''&'' then js ''&amp;''
      else [ch]) @ encodeEntities s"

fun renderToString :: "vnode \<Rightarrow> jsstring" where
  "renderToString (Text t) = encodeEntities t"
| "renderToString (Element tag kids) =
     js ''<'' @ js tag @ js ''>'' @ concat (map renderToString kids) @ js ''</'' @ js tag @ js ''>''"

definition example_host :: "(vnode, int) host" where
  "example_host = \<lparr>render = renderToString, to_string = Number_toString\<rparr>"

text \<open>A paragraph with the text \<open>hi\<close>, and a paragraph with the euro sign (U+20AC).\<close>

definition hi :: vnode where
  "hi = Element ''p'' [Text (js ''hi'')]"

definition euro :: vnode where
  "euro = Element ''p'' [Text [0x20AC]]"


section \<open>The bootstrap\<close>

text \<open>
  \<open>main.tsx\<close> imports modules dynamically and renders into the element with id
  \<open>app\<close>. The environment says which mode the bundler has set and, for each module,
  whether its import resolves or throws, and what it throws. The log lists the imports
  and the renderings in order.

  An import can throw any value. The \<open>catch\<close> block reads \<open>error.message\<close> of the value
  it has caught: on \<open>null\<close> and on \<open>undefined\<close> this read throws a \<open>TypeError\<close>; on every
  other value it gives the value of the property, which is \<open>undefined\<close> when the value
  has no such property (a thrown string, for instance). Of a thrown value the model keeps
  this much: whether it is \<open>null\<close> or \<open>undefined\<close>, and otherwise what its \<open>message\<close>
  property holds, a value of type \<open>'m\<close>.
\<close>

datatype module = Module_react | Module_app | Module_index_css | Module_preact_devtools

datatype 'm thrown = Null_or_undefined | Value 'm

text \<open>
  An exception that leaves the bootstrap: a value that an import has thrown, or an
  exception that the evaluation of an expression has raised.
\<close>

datatype 'm exception = Thrown "'m thrown" | Raised error

datatype 'm ui = App | ErrorFallback 'm

datatype 'm boot_call = Import module | Render "'m ui" string

record 'm env =
  env_DEV :: bool
  env_PROD :: bool
  import_outcome :: "module \<Rightarrow> 'm thrown option"

definition import_module ::
  "'m env \<Rightarrow> module \<Rightarrow> 'm boot_call list \<Rightarrow> ('m thrown + unit) \<times> 'm boot_call list" where
  "import_module E m l =
     ((case import_outcome E m of None \<Rightarrow> Inr () | Some e \<Rightarrow> Inl e), l @ [Import m])"

definition callPreact ::
  "'m env \<Rightarrow> 'm boot_call list \<Rightarrow> ('m thrown + unit) \<times> 'm boot_call list" where
  "callPreact E l0 =
     and_then (import_module E Module_react l0) (\<lambda>_ l1.
     and_then (import_module E Module_app l1) (\<lambda>_ l2.
     and_then (import_module E Module_index_css l2) (\<lambda>_ l3.
     (Inr (), l3 @ [Render App ''app'']))))"

text \<open>A value thrown where no \<open>catch\<close> block handles it leaves the bootstrap.\<close>

definition unhandled ::
  "('m thrown + unit) \<times> 'm boot_call list \<Rightarrow> ('m exception + unit) \<times> 'm boot_call list" where
  "unhandled r = (case r of (Inl e, l) \<Rightarrow> (Inl (Thrown e), l) | (Inr u, l) \<Rightarrow> (Inr u, l))"

text \<open>
  In the \<open>try\<close> block \<open>callPreact()\<close> is called without \<open>await\<close>: an error inside it
  rejects the promise it returns and does not reach the \<open>catch\<close> block. Only the import
  of the devtools can. In the \<open>catch\<close> block the renderer is imported first; then the
  arguments of \<open>render\<close> are evaluated, \<open>error.message\<close> among them.
\<close>

definition main :: "'m env \<Rightarrow> ('m exception + unit) \<times> 'm boot_call list" where
  "main E =
     (if env_DEV E then
        (case import_module E Module_preact_devtools [] of
           (Inr u, l1) \<Rightarrow> unhandled (callPreact E l1)
         | (Inl error, l1) \<Rightarrow>
             (case import_module E Module_react l1 of
                (Inl e, l2) \<Rightarrow> (Inl (Thrown e), l2)
              | (Inr u, l2) \<Rightarrow>
                  (case error of
                     Null_or_undefined \<Rightarrow> (Inl (Raised TypeError), l2)
                   | Value message \<Rightarrow>
                       (Inr (), l2 @ [Render (ErrorFallback message) ''app'']))))
      else if env_PROD E then unhandled (callPreact E [])
      else (Inr (), []))"

text \<open>A state in which an empty canvas with a 2D context is mounted and nothing else exists.\<close>

definition example_props :: "(vnode, int, unit) props" where
  "example_props = \<lparr>p_children = hi, p_width = None, p_height = None, p_rest = (\<lambda>key. None)\<rparr>"

definition example_props_300 :: "(vnode, int, unit) props" where
  "example_props_300 =
     \<lparr>p_children = hi, p_width = Some 300, p_height = None, p_rest = (\<lambda>key. None)\<rparr>"

definition euro_props :: "(vnode, int, unit) props" where
  "euro_props = \<lparr>p_children = euro, p_width = None, p_height = None, p_rest = (\<lambda>key. None)\<rparr>"

definition example_world :: "(vnode, int, unit) world" where
  "example_world = patch_canvas (\<lambda>key. None) (initial_world True)"

text \<open>
  The state after the component has been mounted in a browser that gives a 2D context,
  and its image (the first, with identity 0) has loaded.
\<close>

definition mounted_and_loaded ::
  "revision \<Rightarrow> (vnode, int, unit) props \<Rightarrow> (vnode, int, unit) world" where
  "mounted_and_loaded rv p =
     snd (image_loaded 0 (snd (mount (RenderOnCanvas rv example_host p) (initial_world True))))"

text \<open>
  Environments for the examples: every import resolves; the import of the devtools
  throws an error with a message; it throws \<open>null\<close>; every import throws; the import of
  \<open>./app\<close> throws, in dev mode and in production mode.
\<close>

definition failed_to_fetch :: "jsstring thrown" where
  "failed_to_fetch = Value (js ''Failed to fetch'')"

definition dev_env :: "jsstring env" where
  "dev_env = \<lparr>env_DEV = True, env_PROD = False, import_outcome = (\<lambda>m. None)\<rparr>"

definition dev_env_without_devtools :: "jsstring env" where
  "dev_env_without_devtools =
     \<lparr>env_DEV = True, env_PROD = False,
      import_outcome = (\<lambda>m. if m = Module_preact_devtools then Some failed_to_fetch else None)\<rparr>"

definition dev_env_devtools_throw_null :: "jsstring env" where
  "dev_env_devtools_throw_null =
     \<lparr>env_DEV = True, env_PROD = False,
      import_outcome = (\<lambda>m. if m = Module_preact_devtools then Some Null_or_undefined else None)\<rparr>"

definition dev_env_offline :: "jsstring env" where
  "dev_env_offline =
     \<lparr>env_DEV = True, env_PROD = False, import_outcome = (\<lambda>m. Some failed_to_fetch)\<rparr>"

definition dev_env_without_app :: "jsstring env" where
  "dev_env_without_app =
     \<lparr>env_DEV = True, env_PROD = False,
      import_outcome = (\<lambda>m. if m = Module_app then Some failed_to_fetch else None)\<rparr>"

definition prod_env :: "jsstring env" where
  "prod_env = \<lparr>env_DEV = False, env_PROD = True, import_outcome = (\<lambda>m. None)\<rparr>"

definition prod_env_without_app :: "jsstring env" where
  "prod_env_without_app =
     \<lparr>env_DEV = False, env_PROD = True,
      import_outcome = (\<lambda>m. if m = Module_app then Some failed_to_fetch else None)\<rparr>"

text \<open>
  What holds of a run in every state that \<open>play\<close> reaches after its effect: the image
  still has the \<open>onload\<close> handler of the run and no \<open>onerror\<close> handler; the log has only
  grown, with the one assignment to \<open>src\<close>; and the image has not been drawn unless it
  has loaded.
\<close>

definition run_invariant ::
  "('v, 'n::{zero,numeral}, 'a) world \<Rightarrow> nat \<Rightarrow> 'n handler \<Rightarrow> jsstring
     \<Rightarrow> ('v, 'n, 'a) world \<times> bool \<Rightarrow> bool" where
  "run_invariant w0 i h source s =
     (\<exists>el more.
        images (fst s) i = Some el \<and> onload el = Some h \<and> onerror el = None
        \<and> calls (fst s) = calls w0 @ more
        \<and> src_assignments i more = [source]
        \<and> (DrawImage i 0 0 \<in> set (canvas_ops more) \<longrightarrow> load_state el = Loaded))"

section \<open>Properties of the SVG markup\<close>

lemma js_append: "js (a @ b) = js a @ js b"
  by (simp add: js_def)

lemma js_Nil: "js [] = []"
  by (simp add: js_def)

lemma svg_open_tag:
  \<open>template [js ''<svg:svg '', join namespaces (js '' ''), js '' height="'',
              th, js ''" width="'', tw, js ''">'']
   = js ''<svg:svg xmlns="http://www.w3.org/1999/xhtml" xmlns:svg="http://www.w3.org/2000/svg" height="''
     @ th @ js ''" width="'' @ tw @ js ''">''\<close>
  by (simp add: template_def namespaces_def js_def)

lemma useSvgForeignObject_document:
  "useSvgForeignObject ToString h (Some (w, ht)) = svg_document h (ToString w) (ToString ht)"
  unfolding useSvgForeignObject_def svg_document_def
  by (simp add: svg_open_tag js_Nil) (simp add: template_def)

lemma useSVGForeignObject_document:
  "useSVGForeignObject ToString h (Some (w, ht)) = svg_document h (ToString w) (ToString ht)"
  unfolding useSVGForeignObject_def svg_document_def
  by (simp add: svg_open_tag js_Nil) (simp add: template_def)

lemma svgMarkup_objurl_document:
  "svgMarkup_objurl ToString h w ht = svg_document h (ToString w) (ToString ht)"
  unfolding svgMarkup_objurl_def svg_document_def
  by (simp add: svg_open_tag js_Nil) (simp add: template_def)

lemma svgMarkup_fixed500_document:
  "svgMarkup_fixed500 h = svg_document h (js ''500'') (js ''500'')"
  unfolding svgMarkup_fixed500_def svg_document_def
  by (simp add: template_def namespaces_def js_def)

text \<open>
  C1. For every HTML markup \<open>h\<close>, width \<open>w\<close> and height \<open>ht\<close>, both hooks return exactly
  the opening \<open>svg:svg\<close> tag (default namespace XHTML, prefix \<open>svg\<close> bound to the SVG
  namespace, then height and width), the opening \<open>svg:foreignObject\<close> tag with the same
  height and width, the HTML markup unmodified, and the two closing tags.
\<close>

theorem svg_foreignObject_markup:
  \<open>useSvgForeignObject ToString h (Some (w, ht)) =
     js ''<svg:svg xmlns="http://www.w3.org/1999/xhtml" xmlns:svg="http://www.w3.org/2000/svg" height="''
       @ ToString ht @ js ''" width="'' @ ToString w @ js ''">''
     @ js ''<svg:foreignObject height="'' @ ToString ht @ js ''" width="'' @ ToString w @ js ''">''
     @ h
     @ js ''</svg:foreignObject>''
     @ js ''</svg:svg>''
   \<and>
   useSVGForeignObject ToString h (Some (w, ht)) =
     js ''<svg:svg xmlns="http://www.w3.org/1999/xhtml" xmlns:svg="http://www.w3.org/2000/svg" height="''
       @ ToString ht @ js ''" width="'' @ ToString w @ js ''">''
     @ js ''<svg:foreignObject height="'' @ ToString ht @ js ''" width="'' @ ToString w @ js ''">''
     @ h
     @ js ''</svg:foreignObject>''
     @ js ''</svg:svg>''\<close>
  unfolding useSvgForeignObject_def useSVGForeignObject_def
  by (simp add: svg_open_tag js_Nil) (simp add: template_def)

lemma Number_toString_500: "Number_toString 500 = js ''500''"
  by code_simp

lemma svgMarkup_fixed500_eq:
  assumes "ToString width = js ''500''" and "ToString height = js ''500''"
  shows "svgMarkup_fixed500 htmlMarkup = svgMarkup_objurl ToString htmlMarkup width height"
  unfolding svgMarkup_fixed500_def svgMarkup_objurl_def
  by (simp add: assms template_def js_def)

text \<open>
  C2. The SVG generation is the same in all four revisions: the hook of the js-base64
  revision, the hook of the btoa revision and the inline construction of the object-URL
  revision return the same string for every HTML markup, width and height, and the
  inline construction of the earliest revision returns that string when width and
  height are both the number 500 (whose string conversion is \<open>500\<close>).
\<close>

theorem svg_generation_same_in_all_revisions:
  assumes "ToString 500 = js ''500''"
  shows "useSvgForeignObject ToString h (Some (w, ht)) = useSVGForeignObject ToString h (Some (w, ht))
       \<and> useSVGForeignObject ToString h (Some (w, ht)) = svgMarkup_objurl ToString h w ht
       \<and> svgMarkup_fixed500 h = useSvgForeignObject ToString h (Some (500, 500))
       \<and> svgMarkup_fixed500 h = useSVGForeignObject ToString h (Some (500, 500))
       \<and> svgMarkup_fixed500 h = svgMarkup_objurl ToString h 500 500"
proof -
  have hooks: "useSvgForeignObject ToString h (Some d) = useSVGForeignObject ToString h (Some d)" for d
    by (simp add: useSvgForeignObject_def useSVGForeignObject_def)
  have inline: "useSVGForeignObject ToString h (Some (a, b)) = svgMarkup_objurl ToString h a b" for a b
    by (simp add: useSVGForeignObject_def svgMarkup_objurl_def)
  have early: "svgMarkup_fixed500 h = svgMarkup_objurl ToString h 500 500"
    by (rule svgMarkup_fixed500_eq) (rule assms)+
  show ?thesis
    using hooks inline early by simp
qed

theorem svg_generation_same_witness:
  "Number_toString 500 = js ''500''
   \<and> useSvgForeignObject Number_toString (js ''<p>hi</p>'') (Some (300, 150))
       = useSVGForeignObject Number_toString (js ''<p>hi</p>'') (Some (300, 150))
   \<and> useSVGForeignObject Number_toString (js ''<p>hi</p>'') (Some (300, 150))
       = svgMarkup_objurl Number_toString (js ''<p>hi</p>'') 300 150
   \<and> svgMarkup_fixed500 (js ''<p>hi</p>'')
       = useSvgForeignObject Number_toString (js ''<p>hi</p>'') (Some (500, 500))"
  using svg_generation_same_in_all_revisions [of Number_toString "js ''<p>hi</p>''" 300 150]
    Number_toString_500
  by simp


section \<open>Properties of the host functions\<close>

lemma and_then_Inr [simp]: "and_then (Inr x, s) k = k x s"
  by (simp add: and_then_def)

lemma and_then_Inl [simp]: "and_then (Inl e, s) k = (Inl e, s)"
  by (simp add: and_then_def)

lemma and_then_returned: "fst r = Inr x \<Longrightarrow> and_then r k = k x (snd r)"
  by (cases r) (simp add: and_then_def)

lemma canvas_call_Some [simp]:
  "canvas_call (Some c) op w = (Inr (), log (Call_canvas op) (w\<lparr>bitmap := bitmap w @ [op]\<rparr>))"
  by (simp add: canvas_call_def)

lemma canvas_call_None [simp]: "canvas_call None op w = (Inl TypeError, w)"
  by (simp add: canvas_call_def)

lemma calls_since_append [simp]: "calls_since w (w'\<lparr>calls := calls w @ cs\<rparr>) = cs"
  by (simp add: calls_since_def)

lemma calls_since_same [simp]: "calls_since w w = []"
  by (simp add: calls_since_def)

subsection \<open>Base64\<close>

lemma ucast_byte_back: "(ucast (ucast (b :: 8 word) :: 16 word) :: 8 word) = b"
  by (rule ucast_up_ucast_id) (simp add: is_up)

lemma unat_ucast_byte: "unat (ucast (b :: 8 word) :: 16 word) = unat b"
proof -
  have "unat b < 256"
    using unsigned_less [of b, where 'a = nat] by simp
  then have "take_bit 16 (unat b) = unat b"
    by (intro take_bit_nat_eq_self) simp
  then show ?thesis
    by (simp add: unsigned_ucast_eq)
qed

lemma byte_not_above_FF: "\<not> 0xFF < (ucast (b :: 8 word) :: 16 word)"
proof -
  have "unat b < 256"
    using unsigned_less [of b, where 'a = nat] by simp
  then show ?thesis
    by (simp add: word_less_nat_alt unat_ucast_byte)
qed

lemma btoa_throws: "list_ex (\<lambda>c. 0xFF < c) data \<Longrightarrow> btoa data = Inl InvalidCharacterError"
  by (simp add: btoa_def)

lemma btoa_returns:
  "\<not> list_ex (\<lambda>c. 0xFF < c) data \<Longrightarrow> btoa data = Inr (js (base64 (map ucast data)))"
  by (simp add: btoa_def)

lemma Base64_encode_returns: "Base64_encode s = Inr (js (base64 (utf8 s)))"
proof -
  have "\<not> list_ex (\<lambda>c. 0xFF < c) (map ucast (utf8 s) :: jsstring)"
    by (simp add: list_ex_iff byte_not_above_FF)
  moreover have "map ucast (map ucast (utf8 s) :: jsstring) = utf8 s"
    by (simp add: ucast_byte_back comp_def)
  ultimately show ?thesis
    by (simp add: Base64_encode_def btoa_returns)
qed

lemma latin1_append [simp]: "latin1 (a @ b) \<longleftrightarrow> latin1 a \<and> latin1 b"
  by (auto simp add: latin1_def list_ex_iff)

lemma latin1_Nil [simp]: "latin1 []"
  by (simp add: latin1_def)

lemma of_char_not_above_FF: "\<not> 0xFF < (of_char c :: 16 word)"
proof -
  have "(of_char c :: 16 word) = ucast (of_char c :: 8 word)"
    by (simp add: of_char_def unsigned_of_nat take_bit_nat_eq_self)
  then show ?thesis
    by (simp add: byte_not_above_FF)
qed

lemma latin1_js [simp]: "latin1 (js s)"
  by (simp add: latin1_def js_def list_ex_iff of_char_not_above_FF)

lemma btoa_latin1: "latin1 data \<Longrightarrow> btoa data = Inr (js (base64 (map ucast data)))"
  by (simp add: latin1_def btoa_returns)

lemma btoa_not_latin1: "\<not> latin1 data \<Longrightarrow> btoa data = Inl InvalidCharacterError"
  by (simp add: latin1_def btoa_throws)

lemma calls_sinceI: "calls w1 = calls w0 @ cs \<Longrightarrow> calls_since w0 w1 = cs"
  by (simp add: calls_since_def)

subsection \<open>Which markup is Latin-1\<close>

lemma latin1_useSVGForeignObject:
  "latin1 (useSVGForeignObject ts h (Some (w, ht))) \<longleftrightarrow> latin1 h \<and> latin1 (ts w) \<and> latin1 (ts ht)"
  by (auto simp add: useSVGForeignObject_def template_def namespaces_def)


section \<open>What the closures of each revision do\<close>

subsection \<open>Revision fixed500\<close>

lemma clearCanvas_fixed500_Some:
  "clearCanvas_fixed500 (Some c) w =
     (Inr (), w\<lparr>calls := calls w @ [Call_canvas (ClearRect 0 0 500 500), Call_canvas (FillStyle (js ''white'')), Call_canvas (FillRect 0 0 500 500)],
          bitmap := bitmap w @ [ClearRect 0 0 500 500, FillStyle (js ''white''), FillRect 0 0 500 500]\<rparr>)"
  by (simp add: clearCanvas_fixed500_def setCanvasBgColor_fixed500_def log_def)

lemma clearCanvas_fixed500_None: "clearCanvas_fixed500 None w = (Inr (), w)"
  by (simp add: clearCanvas_fixed500_def)

lemma onload_fixed500_Some:
  "onload_fixed500 (Some c) img imageSrc w =
     (Inr (), w\<lparr>calls := calls w @ [Call_canvas (ClearRect 0 0 500 500), Call_canvas (FillStyle (js ''white'')), Call_canvas (FillRect 0 0 500 500), Call_canvas (DrawImage img 0 0), Call_revokeObjectURL imageSrc],
          bitmap := bitmap w @ [ClearRect 0 0 500 500, FillStyle (js ''white''), FillRect 0 0 500 500, DrawImage img 0 0],
          objectURLs := filter (\<lambda>entry. fst entry \<noteq> imageSrc) (objectURLs w)\<rparr>)"
  by (simp add: onload_fixed500_def clearCanvas_fixed500_def setCanvasBgColor_fixed500_def revokeObjectURL_def log_def)

lemma onload_fixed500_None: "onload_fixed500 None img imageSrc w = (Inr (), w)"
  by (simp add: onload_fixed500_def)

lemma cleanup_fixed500_Some:
  "cleanup_fixed500 (Some c) imageSrc w =
     (Inr (), w\<lparr>calls := calls w @ [Call_canvas (ClearRect 0 0 500 500), Call_canvas (FillStyle (js ''white'')), Call_canvas (FillRect 0 0 500 500), Call_revokeObjectURL imageSrc],
          bitmap := bitmap w @ [ClearRect 0 0 500 500, FillStyle (js ''white''), FillRect 0 0 500 500],
          objectURLs := filter (\<lambda>entry. fst entry \<noteq> imageSrc) (objectURLs w)\<rparr>)"
  by (simp add: cleanup_fixed500_def clearCanvas_fixed500_def setCanvasBgColor_fixed500_def revokeObjectURL_def log_def)

lemma cleanup_fixed500_None:
  "cleanup_fixed500 None imageSrc w =
     (Inr (), w\<lparr>calls := calls w @ [Call_revokeObjectURL imageSrc],
          objectURLs := filter (\<lambda>entry. fst entry \<noteq> imageSrc) (objectURLs w)\<rparr>)"
  by (simp add: cleanup_fixed500_def clearCanvas_fixed500_def setCanvasBgColor_fixed500_def revokeObjectURL_def log_def)

subsection \<open>Revision objurl\<close>

lemma clearCanvas_objurl_Some:
  "clearCanvas_objurl (Some c) width height w =
     (Inr (), w\<lparr>calls := calls w @ [Call_canvas (ClearRect 0 0 width height), Call_canvas (FillStyle (js ''white'')), Call_canvas (FillRect 0 0 width height)],
          bitmap := bitmap w @ [ClearRect 0 0 width height, FillStyle (js ''white''), FillRect 0 0 width height]\<rparr>)"
  by (simp add: clearCanvas_objurl_def setCanvasBgColor_objurl_def log_def)

lemma clearCanvas_objurl_None: "clearCanvas_objurl None width height w = (Inr (), w)"
  by (simp add: clearCanvas_objurl_def)

lemma onload_objurl_Some:
  "onload_objurl (Some c) img imageSrc width height w =
     (Inr (), w\<lparr>calls := calls w @ [Call_canvas (ClearRect 0 0 width height), Call_canvas (FillStyle (js ''white'')), Call_canvas (FillRect 0 0 width height), Call_canvas (DrawImage img 0 0), Call_revokeObjectURL imageSrc],
          bitmap := bitmap w @ [ClearRect 0 0 width height, FillStyle (js ''white''), FillRect 0 0 width height, DrawImage img 0 0],
          objectURLs := filter (\<lambda>entry. fst entry \<noteq> imageSrc) (objectURLs w)\<rparr>)"
  by (simp add: onload_objurl_def clearCanvas_objurl_def setCanvasBgColor_objurl_def revokeObjectURL_def log_def)

lemma onload_objurl_None: "onload_objurl None img imageSrc width height w = (Inr (), w)"
  by (simp add: onload_objurl_def)

lemma cleanup_objurl_Some:
  "cleanup_objurl (Some c) imageSrc width height w =
     (Inr (), w\<lparr>calls := calls w @ [Call_canvas (ClearRect 0 0 width height), Call_canvas (FillStyle (js ''white'')), Call_canvas (FillRect 0 0 width height), Call_revokeObjectURL imageSrc],
          bitmap := bitmap w @ [ClearRect 0 0 width height, FillStyle (js ''white''), FillRect 0 0 width height],
          objectURLs := filter (\<lambda>entry. fst entry \<noteq> imageSrc) (objectURLs w)\<rparr>)"
  by (simp add: cleanup_objurl_def clearCanvas_objurl_def setCanvasBgColor_objurl_def revokeObjectURL_def log_def)

lemma cleanup_objurl_None:
  "cleanup_objurl None imageSrc width height w =
     (Inr (), w\<lparr>calls := calls w @ [Call_revokeObjectURL imageSrc],
          objectURLs := filter (\<lambda>entry. fst entry \<noteq> imageSrc) (objectURLs w)\<rparr>)"
  by (simp add: cleanup_objurl_def clearCanvas_objurl_def setCanvasBgColor_objurl_def revokeObjectURL_def log_def)

subsection \<open>Revision btoa\<close>

lemma clearCanvas_btoa_Some:
  "clearCanvas_btoa (Some c) width height w =
     (Inr (), w\<lparr>calls := calls w @ [Call_canvas (ClearRect 0 0 width height), Call_canvas (FillStyle (js ''white'')), Call_canvas (FillRect 0 0 width height)],
          bitmap := bitmap w @ [ClearRect 0 0 width height, FillStyle (js ''white''), FillRect 0 0 width height]\<rparr>)"
  by (simp add: clearCanvas_btoa_def setCanvasBgColor_btoa_def log_def)

lemma clearCanvas_btoa_None: "clearCanvas_btoa None width height w = (Inr (), w)"
  by (simp add: clearCanvas_btoa_def)

lemma onload_btoa_Some:
  "onload_btoa (Some c) img width height w =
     (Inr (), w\<lparr>calls := calls w @ [Call_canvas (ClearRect 0 0 width height), Call_canvas (FillStyle (js ''white'')), Call_canvas (FillRect 0 0 width height), Call_canvas (DrawImage img 0 0)],
          bitmap := bitmap w @ [ClearRect 0 0 width height, FillStyle (js ''white''), FillRect 0 0 width height, DrawImage img 0 0]\<rparr>)"
  by (simp add: onload_btoa_def clearCanvas_btoa_def setCanvasBgColor_btoa_def revokeObjectURL_def log_def)

lemma onload_btoa_None: "onload_btoa None img width height w = (Inr (), w)"
  by (simp add: onload_btoa_def)

lemma cleanup_btoa_Some:
  "cleanup_btoa (Some c) width height w =
     (Inr (), w\<lparr>calls := calls w @ [Call_canvas (ClearRect 0 0 width height), Call_canvas (FillStyle (js ''white'')), Call_canvas (FillRect 0 0 width height)],
          bitmap := bitmap w @ [ClearRect 0 0 width height, FillStyle (js ''white''), FillRect 0 0 width height]\<rparr>)"
  by (simp add: cleanup_btoa_def clearCanvas_btoa_def setCanvasBgColor_btoa_def revokeObjectURL_def log_def)

lemma cleanup_btoa_None: "cleanup_btoa None width height w = (Inr (), w)"
  by (simp add: cleanup_btoa_def clearCanvas_btoa_def setCanvasBgColor_btoa_def revokeObjectURL_def log_def)

subsection \<open>Revision jsb64\<close>

lemma clearCanvas_Some:
  "clearCanvas \<lparr>co_context = Some c, co_height = height, co_width = width\<rparr> w =
     (Inr (), w\<lparr>calls := calls w @ [Call_canvas (ClearRect 0 0 width height), Call_canvas (FillStyle (js ''white'')), Call_canvas (FillRect 0 0 width height)],
          bitmap := bitmap w @ [ClearRect 0 0 width height, FillStyle (js ''white''), FillRect 0 0 width height]\<rparr>)"
  by (simp add: clearCanvas_def setCanvasBgColor_def log_def)

lemma clearCanvas_None:
  "clearCanvas \<lparr>co_context = None, co_height = height, co_width = width\<rparr> w = (Inr (), w)"
  by (simp add: clearCanvas_def)

lemma onload_jsb64_Some:
  "onload_jsb64 (Some c) img width height w =
     (Inr (), w\<lparr>calls := calls w @ [Call_canvas (ClearRect 0 0 width height), Call_canvas (FillStyle (js ''white'')), Call_canvas (FillRect 0 0 width height), Call_canvas (DrawImage img 0 0)],
          bitmap := bitmap w @ [ClearRect 0 0 width height, FillStyle (js ''white''), FillRect 0 0 width height, DrawImage img 0 0]\<rparr>)"
  by (simp add: onload_jsb64_def clearCanvas_def setCanvasBgColor_def revokeObjectURL_def log_def)

lemma onload_jsb64_None: "onload_jsb64 None img width height w = (Inr (), w)"
  by (simp add: onload_jsb64_def)

lemma cleanup_jsb64_Some:
  "cleanup_jsb64 (Some c) width height w =
     (Inr (), w\<lparr>calls := calls w @ [Call_canvas (ClearRect 0 0 width height), Call_canvas (FillStyle (js ''white'')), Call_canvas (FillRect 0 0 width height)],
          bitmap := bitmap w @ [ClearRect 0 0 width height, FillStyle (js ''white''), FillRect 0 0 width height]\<rparr>)"
  by (simp add: cleanup_jsb64_def clearCanvas_def setCanvasBgColor_def revokeObjectURL_def log_def)

lemma cleanup_jsb64_None: "cleanup_jsb64 None width height w = (Inr (), w)"
  by (simp add: cleanup_jsb64_def clearCanvas_def setCanvasBgColor_def revokeObjectURL_def log_def)


section \<open>What the effect of each revision does\<close>

text \<open>
  The result of each effect, for a state in which the ref holds the canvas: the closure
  it returns for the cleanup, the calls it appends to the log, and the state it leaves.
\<close>

lemma effect_fixed500_result:
  assumes "canvasRef w0 = Some canvas"
  shows "effect_fixed500 H children w0 =
     (let i = fresh w0;
          url = js ''blob:'' @ js (digits (Suc i));
          svg = svgMarkup_fixed500 (render H children);
          type = js ''image/svg+xml;charset=utf-8'';
          context = (if supports2d w0 then Some Context2D else None)
      in (Inr (Some (Cleanup_fixed500 context url)),
          w0\<lparr>calls := calls w0 @
                 [Call_render children, Call_new_Image i, Call_new_Blob svg type,
                  Call_createObjectURL url, Call_getContext, Set_onload i, Set_src i url],
             images := (images w0)(i \<mapsto>
                 \<lparr>src = Some url, onload = Some (Onload_fixed500 context i url),
                  onerror = None, load_state = Pending\<rparr>),
             objectURLs := (url, svg, type) # objectURLs w0,
             fresh := Suc (Suc i)\<rparr>))"
  using assms
  by (simp add: effect_fixed500_def call_render_def new_Image_def new_Blob_def
      createObjectURL_def getContext_def set_onload_def set_src_def log_def Let_def)

lemma effect_objurl_result:
  assumes "canvasRef w0 = Some canvas"
  shows "effect_objurl H children width height w0 =
     (let i = fresh w0;
          url = js ''blob:'' @ js (digits (Suc i));
          svg = svgMarkup_objurl (to_string H) (render H children) width height;
          type = js ''image/svg+xml;charset=utf-8'';
          context = (if supports2d w0 then Some Context2D else None)
      in (Inr (Some (Cleanup_objurl context url width height)),
          w0\<lparr>calls := calls w0 @
                 [Call_render children, Call_new_Image i, Call_new_Blob svg type,
                  Call_createObjectURL url, Call_getContext, Set_onload i, Set_src i url],
             images := (images w0)(i \<mapsto>
                 \<lparr>src = Some url, onload = Some (Onload_objurl context i url width height),
                  onerror = None, load_state = Pending\<rparr>),
             objectURLs := (url, svg, type) # objectURLs w0,
             fresh := Suc (Suc i)\<rparr>))"
  using assms
  by (simp add: effect_objurl_def call_render_def new_Image_def new_Blob_def
      createObjectURL_def getContext_def set_onload_def set_src_def log_def Let_def)

lemma effect_btoa_result:
  assumes "canvasRef w0 = Some canvas"
    and "btoa (useSVGForeignObject (to_string H) (render H children) (Some (width, height))) = Inr b"
  shows "effect_btoa H children width height w0 =
     (let i = fresh w0;
          svg = useSVGForeignObject (to_string H) (render H children) (Some (width, height));
          url = js ''data:image/svg+xml;base64,'' @ b;
          context = (if supports2d w0 then Some Context2D else None)
      in (Inr (Some (Cleanup_btoa context width height)),
          w0\<lparr>calls := calls w0 @
                 [Call_render children, Call_new_Image i, Call_btoa svg,
                  Call_getContext, Set_onload i, Set_src i url],
             images := (images w0)(i \<mapsto>
                 \<lparr>src = Some url, onload = Some (Onload_btoa context i width height),
                  onerror = None, load_state = Pending\<rparr>),
             fresh := Suc i\<rparr>))"
  using assms
  by (simp add: effect_btoa_def call_render_def new_Image_def call_btoa_def
      getContext_def set_onload_def set_src_def log_def Let_def template_def)

lemma effect_btoa_throws:
  assumes "canvasRef w0 = Some canvas"
    and "btoa (useSVGForeignObject (to_string H) (render H children) (Some (width, height))) = Inl e"
  shows "effect_btoa H children width height w0 =
     (let i = fresh w0;
          svg = useSVGForeignObject (to_string H) (render H children) (Some (width, height))
      in (Inl e,
          w0\<lparr>calls := calls w0 @ [Call_render children, Call_new_Image i, Call_btoa svg],
             images := (images w0)(i \<mapsto>
                 \<lparr>src = None, onload = None, onerror = None, load_state = Unloaded\<rparr>),
             fresh := Suc i\<rparr>))"
  using assms
  by (simp add: effect_btoa_def call_render_def new_Image_def call_btoa_def log_def Let_def)

lemma effect_jsb64_result:
  assumes "canvasRef w0 = Some canvas"
  shows "effect_jsb64 H children width height w0 =
     (let i = fresh w0;
          svg = useSvgForeignObject (to_string H) (render H children) (Some (width, height));
          url = js ''data:image/svg+xml;base64,'' @ js (base64 (utf8 svg));
          context = (if supports2d w0 then Some Context2D else None)
      in (Inr (Some (Cleanup_jsb64 context width height)),
          w0\<lparr>calls := calls w0 @
                 [Call_render children, Call_new_Image i, Call_Base64_encode svg,
                  Set_src i url, Call_getContext, Set_onload i],
             images := (images w0)(i \<mapsto>
                 \<lparr>src = Some url, onload = Some (Onload_jsb64 context i width height),
                  onerror = None, load_state = Pending\<rparr>),
             fresh := Suc i\<rparr>))"
  using assms
  by (simp add: effect_jsb64_def useSvgAsImageSrc_def call_render_def new_Image_def
      call_Base64_encode_def Base64_encode_returns getContext_def set_onload_def set_src_def
      log_def Let_def template_def)

lemma effect_without_canvas:
  assumes "canvasRef w0 = None"
  shows "effect_fixed500 H children w0 = (Inr None, w0)"
    and "effect_objurl H children width height w0 = (Inr None, w0)"
    and "effect_btoa H children width height w0 = (Inr None, w0)"
    and "effect_jsb64 H children width height w0 = (Inr None, w0)"
  using assms
  by (simp_all add: effect_fixed500_def effect_objurl_def effect_btoa_def effect_jsb64_def)

text \<open>No closure of the component throws.\<close>

lemma run_handler_returns: "fst (run_handler h w) = Inr ()"
proof (cases h)
  case (Onload_fixed500 ctx img imageSrc)
  then show ?thesis
    by (cases ctx) (simp_all add: onload_fixed500_Some onload_fixed500_None)
next
  case (Cleanup_fixed500 ctx imageSrc)
  then show ?thesis
    by (cases ctx) (simp_all add: cleanup_fixed500_Some cleanup_fixed500_None)
next
  case (Onload_objurl ctx img imageSrc width height)
  then show ?thesis
    by (cases ctx) (simp_all add: onload_objurl_Some onload_objurl_None)
next
  case (Cleanup_objurl ctx imageSrc width height)
  then show ?thesis
    by (cases ctx) (simp_all add: cleanup_objurl_Some cleanup_objurl_None)
next
  case (Onload_btoa ctx img width height)
  then show ?thesis
    by (cases ctx) (simp_all add: onload_btoa_Some onload_btoa_None)
next
  case (Cleanup_btoa ctx width height)
  then show ?thesis
    by (cases ctx) (simp_all add: cleanup_btoa_Some cleanup_btoa_None)
next
  case (Onload_jsb64 ctx img width height)
  then show ?thesis
    by (cases ctx) (simp_all add: onload_jsb64_Some onload_jsb64_None)
next
  case (Cleanup_jsb64 ctx width height)
  then show ?thesis
    by (cases ctx) (simp_all add: cleanup_jsb64_Some cleanup_jsb64_None)
qed

text \<open>The effect that each revision of the component passes to the framework.\<close>

lemma effect_of_RenderOnCanvas:
  "effect (RenderOnCanvas Fixed500 H p) = effect_fixed500 H (p_children p)"
  "effect (RenderOnCanvas ObjUrl H p) =
     effect_objurl H (p_children p) (with_default 150 (p_width p))
       (with_default 150 (p_height p))"
  "effect (RenderOnCanvas Btoa H p) =
     effect_btoa H (p_children p) (with_default 150 (p_width p))
       (with_default 150 (p_height p))"
  "effect (RenderOnCanvas JsBase64 H p) =
     effect_jsb64 H (p_children p) (with_default 150 (p_width p))
       (with_default 150 (p_height p))"
  by (simp_all add: RenderOnCanvas.simps RenderOnCanvas_fixed500_def RenderOnCanvas_objurl_def
      RenderOnCanvas_btoa_def RenderOnCanvas_jsb64_def defaultWidth_def defaultHeight_def Let_def)



section \<open>What the closures leave alone\<close>

lemma canvas_ops_append [simp]: "canvas_ops (xs @ ys) = canvas_ops xs @ canvas_ops ys"
  by (induction xs rule: canvas_ops.induct) simp_all

lemma src_assignments_append [simp]:
  "src_assignments i (xs @ ys) = src_assignments i xs @ src_assignments i ys"
  by (induction i xs rule: src_assignments.induct) simp_all

lemma canvas_ops_Call_canvas [simp]: "canvas_ops (map Call_canvas ops) = ops"
  by (induction ops) simp_all

lemma src_assignments_Call_canvas [simp]: "src_assignments i (map Call_canvas ops) = []"
  by (induction ops) simp_all

text \<open>
  A closure only appends to the log; what it appends assigns no \<open>src\<close> and creates no
  object URL, and its canvas operations are the drawing of the specification when it
  has a context and none otherwise. It leaves the image elements as they are.
\<close>

lemma run_handler_appends:
  "\<exists>extra. calls (snd (run_handler g w)) = calls w @ extra
     \<and> src_assignments j extra = []
     \<and> created_urls extra = []
     \<and> canvas_ops extra = (if captured_context g = None then [] else spec_drawing g)"
proof (cases "captured_context g")
  case None
  then show ?thesis
    by (cases g; simp add:
          onload_fixed500_None cleanup_fixed500_None onload_objurl_None cleanup_objurl_None
          onload_btoa_None cleanup_btoa_None onload_jsb64_None cleanup_jsb64_None)
next
  case (Some c)
  then show ?thesis
    by (cases g; simp add: spec_drawing_def
          onload_fixed500_Some cleanup_fixed500_Some onload_objurl_Some cleanup_objurl_Some
          onload_btoa_Some cleanup_btoa_Some onload_jsb64_Some cleanup_jsb64_Some)
qed

lemma run_handler_images [simp]: "images (snd (run_handler g w)) = images w"
proof (cases "captured_context g")
  case None
  then show ?thesis
    by (cases g; simp add:
          onload_fixed500_None cleanup_fixed500_None onload_objurl_None cleanup_objurl_None
          onload_btoa_None cleanup_btoa_None onload_jsb64_None cleanup_jsb64_None)
next
  case (Some c)
  then show ?thesis
    by (cases g; simp add:
          onload_fixed500_Some cleanup_fixed500_Some onload_objurl_Some cleanup_objurl_Some
          onload_btoa_Some cleanup_btoa_Some onload_jsb64_Some cleanup_jsb64_Some)
qed

lemma spec_drawing_of_cleanup:
  "is_cleanup g \<Longrightarrow> DrawImage i x y \<notin> set (spec_drawing g)"
  by (cases g) (simp_all add: spec_drawing_def)

lemma spec_drawing_of_onload:
  "onload_of i g \<Longrightarrow> DrawImage i 0 0 \<in> set (spec_drawing g)"
  by (cases g) (simp_all add: spec_drawing_def)

section \<open>The events after an effect\<close>

lemma image_loaded_pending:
  assumes "images w i = Some el" and "onload el = Some h" and "load_state el = Pending"
  shows "image_loaded i w = run_handler h (w\<lparr>images := (images w)(i \<mapsto> el\<lparr>load_state := Loaded\<rparr>)\<rparr>)"
  using assms by (simp add: image_loaded_def)

lemma image_loaded_not_pending:
  assumes "images w i = Some el" and "load_state el \<noteq> Pending"
  shows "image_loaded i w = (Inr (), w)"
  using assms by (simp add: image_loaded_def)

lemma image_failed_pending:
  assumes "images w i = Some el" and "onerror el = None" and "load_state el = Pending"
  shows "image_failed i w = (Inr (), w\<lparr>images := (images w)(i \<mapsto> el\<lparr>load_state := Broken\<rparr>)\<rparr>)"
  using assms by (simp add: image_failed_def)

lemma image_failed_not_pending:
  assumes "images w i = Some el" and "load_state el \<noteq> Pending"
  shows "image_failed i w = (Inr (), w)"
  using assms by (simp add: image_failed_def)

text \<open>A failed load runs no code of the component: the log and the bitmap stay as they are.\<close>

lemma image_failed_silent:
  assumes "images w i = Some el" and "onerror el = None"
  shows "fst (image_failed i w) = Inr ()"
    and "calls (snd (image_failed i w)) = calls w"
    and "bitmap (snd (image_failed i w)) = bitmap w"
    and "objectURLs (snd (image_failed i w)) = objectURLs w"
  using assms by (cases "load_state el = Pending"; simp add: image_failed_def)+

lemma run_invariant_step:
  assumes inv: "run_invariant w0 i h source s"
    and cl: "is_cleanup cl"
  shows "run_invariant w0 i h source (step_event i (Some cl) e s)"
proof -
  obtain w b where s: "s = (w, b)"
    by (cases s)
  from inv s obtain el added where el: "images w i = Some el" "onload el = Some h" "onerror el = None"
    and added: "calls w = calls w0 @ added" "src_assignments i added = [source]"
    and drawn: "DrawImage i 0 0 \<in> set (canvas_ops added) \<longrightarrow> load_state el = Loaded"
    by (auto simp add: run_invariant_def)
  show ?thesis
  proof (cases e)
    case Load
    show ?thesis
    proof (cases "load_state el = Pending")
      case True
      let ?w1 = "w\<lparr>images := (images w)(i \<mapsto> el\<lparr>load_state := Loaded\<rparr>)\<rparr>"
      obtain extra where extra: "calls (snd (run_handler h ?w1)) = calls ?w1 @ extra"
        "src_assignments i extra = []"
        using run_handler_appends [of h ?w1 i] by blast
      have "images (snd (run_handler h ?w1)) i = Some (el\<lparr>load_state := Loaded\<rparr>)"
        by simp
      with extra added el Load True s show ?thesis
        by (simp add: run_invariant_def image_loaded_pending [OF el(1,2) True])
    next
      case False
      with Load s inv el show ?thesis
        by (simp add: image_loaded_not_pending [OF el(1)])
    qed
  next
    case Fail
    show ?thesis
    proof (cases "load_state el = Pending")
      case True
      with drawn have "DrawImage i 0 0 \<notin> set (canvas_ops added)"
        by auto
      with Fail True s el added show ?thesis
        by (simp add: run_invariant_def image_failed_pending [OF el(1,3) True])
    next
      case False
      with Fail s inv el show ?thesis
        by (simp add: image_failed_not_pending [OF el(1)])
    qed
  next
    case Clean
    show ?thesis
    proof (cases b)
      case True
      with Clean s inv show ?thesis by simp
    next
      case False
      obtain extra where extra: "calls (snd (run_handler cl w)) = calls w @ extra"
        "src_assignments i extra = []"
        "canvas_ops extra = (if captured_context cl = None then [] else spec_drawing cl)"
        using run_handler_appends [of cl w i] by blast
      have "DrawImage i 0 0 \<notin> set (canvas_ops extra)"
        using extra(3) spec_drawing_of_cleanup [OF cl, of i 0 0] by simp
      with extra added el drawn Clean False s show ?thesis
        by (auto simp add: run_invariant_def invokeCleanup_def)
    qed
  qed
qed

lemma run_invariant_play:
  assumes "run_invariant w0 i h source s" and "is_cleanup cl"
  shows "run_invariant w0 i h source (play i (Some cl) es s)"
  using assms(1)
proof (induction es arbitrary: s)
  case Nil
  then show ?case by simp
next
  case (Cons e es)
  have "run_invariant w0 i h source (step_event i (Some cl) e s)"
    using Cons.prems assms(2) by (rule run_invariant_step)
  then show ?case
    using Cons.IH by simp
qed

lemma phase_of_after_src:
  assumes "src_assignments i added = [source]"
  shows "phase_of i added = (if DrawImage i 0 0 \<in> set (canvas_ops added) then Drawn else ImageLoading)"
  using assms by (simp add: phase_of_def)

text \<open>
  Every event is a transition of the state machine of the specification or leaves the
  abstract state as it is. A failed load changes nothing that the component can see,
  and only a load that finds a context draws.
\<close>

lemma step_refines_spec:
  assumes inv: "run_invariant w0 i h source s"
    and cl: "is_cleanup cl"
    and h: "onload_of i h"
  shows "abstract_state w0 i (step_event i (Some cl) e s) = abstract_state w0 i s
       \<or> spec_step (abstract_state w0 i s) (abstract_state w0 i (step_event i (Some cl) e s))"
    and "e = Fail \<Longrightarrow> calls (fst (step_event i (Some cl) e s)) = calls (fst s)
           \<and> bitmap (fst (step_event i (Some cl) e s)) = bitmap (fst s)
           \<and> abstract_state w0 i (step_event i (Some cl) e s) = abstract_state w0 i s"
    and "e = Load \<Longrightarrow> captured_context h = None
           \<Longrightarrow> abstract_state w0 i (step_event i (Some cl) e s) = abstract_state w0 i s"
proof -
  obtain w b where s: "s = (w, b)"
    by (cases s)
  from inv s obtain el added where el: "images w i = Some el" "onload el = Some h" "onerror el = None"
    and added: "calls w = calls w0 @ added" "src_assignments i added = [source]"
    and drawn: "DrawImage i 0 0 \<in> set (canvas_ops added) \<longrightarrow> load_state el = Loaded"
    by (auto simp add: run_invariant_def)
  have before: "abstract_state w0 i s
      = ((if DrawImage i 0 0 \<in> set (canvas_ops added) then Drawn else ImageLoading), b)"
    using added s by (simp add: abstract_state_def calls_since_def phase_of_after_src)
  have load: "abstract_state w0 i (step_event i (Some cl) Load s) = abstract_state w0 i s
       \<or> (captured_context h \<noteq> None
           \<and> spec_step (abstract_state w0 i s) (abstract_state w0 i (step_event i (Some cl) Load s)))"
  proof (cases "load_state el = Pending")
    case True
    let ?w1 = "w\<lparr>images := (images w)(i \<mapsto> el\<lparr>load_state := Loaded\<rparr>)\<rparr>"
    obtain extra where extra: "calls (snd (run_handler h ?w1)) = calls ?w1 @ extra"
      "src_assignments i extra = []"
      "canvas_ops extra = (if captured_context h = None then [] else spec_drawing h)"
      using run_handler_appends [of h ?w1 i] by blast
    from True drawn have not_yet: "DrawImage i 0 0 \<notin> set (canvas_ops added)"
      by auto
    have after: "abstract_state w0 i (step_event i (Some cl) Load s)
        = (phase_of i (added @ extra), b)"
      using s added extra(1)
      by (simp add: abstract_state_def calls_since_def image_loaded_pending [OF el(1,2) True])
    show ?thesis
    proof (cases "captured_context h = None")
      case True
      with extra added not_yet after before show ?thesis
        by (simp add: phase_of_def)
    next
      case False
      with extra added spec_drawing_of_onload [OF h] have "phase_of i (added @ extra) = Drawn"
        by (simp add: phase_of_def)
      with after before not_yet False show ?thesis
        by (simp add: spec_step.onload_with_context)
    qed
  next
    case False
    with s el show ?thesis
      by (simp add: image_loaded_not_pending [OF el(1)])
  qed
  have fail: "calls (fst (step_event i (Some cl) Fail s)) = calls (fst s)
           \<and> bitmap (fst (step_event i (Some cl) Fail s)) = bitmap (fst s)
           \<and> abstract_state w0 i (step_event i (Some cl) Fail s) = abstract_state w0 i s"
    using s image_failed_silent [OF el(1,3)]
    by (simp add: abstract_state_def calls_since_def)
  have clean: "abstract_state w0 i (step_event i (Some cl) Clean s) = abstract_state w0 i s
       \<or> spec_step (abstract_state w0 i s) (abstract_state w0 i (step_event i (Some cl) Clean s))"
  proof (cases b)
    case True
    with s show ?thesis by simp
  next
    case False
    obtain extra where extra: "calls (snd (run_handler cl w)) = calls w @ extra"
      "src_assignments i extra = []"
      "canvas_ops extra = (if captured_context cl = None then [] else spec_drawing cl)"
      using run_handler_appends [of cl w i] by blast
    have "DrawImage i 0 0 \<notin> set (canvas_ops extra)"
      using extra(3) spec_drawing_of_cleanup [OF cl, of i 0 0] by simp
    with extra added have "phase_of i (added @ extra) = phase_of i added"
      by (simp add: phase_of_def)
    with False s added extra(1) have "abstract_state w0 i (step_event i (Some cl) Clean s)
        = (phase_of i added, True)"
      by (simp add: abstract_state_def calls_since_def invokeCleanup_def)
    moreover have "abstract_state w0 i s = (phase_of i added, False)"
      using False s added by (simp add: abstract_state_def calls_since_def)
    ultimately show ?thesis
      by (simp add: spec_step.cleanup)
  qed
  show "abstract_state w0 i (step_event i (Some cl) e s) = abstract_state w0 i s
       \<or> spec_step (abstract_state w0 i s) (abstract_state w0 i (step_event i (Some cl) e s))"
    using load fail clean by (cases e) auto
  show "e = Fail \<Longrightarrow> calls (fst (step_event i (Some cl) e s)) = calls (fst s)
           \<and> bitmap (fst (step_event i (Some cl) e s)) = bitmap (fst s)
           \<and> abstract_state w0 i (step_event i (Some cl) e s) = abstract_state w0 i s"
    using fail by simp
  show "e = Load \<Longrightarrow> captured_context h = None
           \<Longrightarrow> abstract_state w0 i (step_event i (Some cl) e s) = abstract_state w0 i s"
    using load by auto
qed

text \<open>
  The effect of every revision leaves the state of a run that has just assigned
  \<open>src\<close>; in the btoa revision when the markup is Latin-1.
\<close>

lemma effect_starts_run:
  assumes "canvasRef w0 = Some canvas"
    and "rv = Btoa \<Longrightarrow> latin1 (svg_document (render H (p_children p))
           (to_string H (with_default 150 (p_width p)))
           (to_string H (with_default 150 (p_height p))))"
  shows "\<exists>cl h source.
      fst (effect (RenderOnCanvas rv H p) w0) = Inr (Some cl)
      \<and> is_cleanup cl \<and> onload_of (fresh w0) h
      \<and> captured_context cl = fst (getContext canvas w0)
      \<and> captured_context h = fst (getContext canvas w0)
      \<and> src_assignments (fresh w0) (calls_since w0 (snd (effect (RenderOnCanvas rv H p) w0))) = [source]
      \<and> canvas_ops (calls_since w0 (snd (effect (RenderOnCanvas rv H p) w0))) = []
      \<and> map_option onerror (images (snd (effect (RenderOnCanvas rv H p) w0)) (fresh w0)) = Some None
      \<and> map_option onload (images (snd (effect (RenderOnCanvas rv H p) w0)) (fresh w0)) = Some (Some h)
      \<and> map_option load_state (images (snd (effect (RenderOnCanvas rv H p) w0)) (fresh w0))
          = Some Pending
      \<and> run_invariant w0 (fresh w0) h source (snd (effect (RenderOnCanvas rv H p) w0), False)"
proof (cases rv)
  case Fixed500
  then show ?thesis
    using assms(1)
    by (simp add: effect_of_RenderOnCanvas effect_fixed500_result Let_def getContext_def
        run_invariant_def calls_since_def)
next
  case ObjUrl
  then show ?thesis
    using assms(1)
    by (simp add: effect_of_RenderOnCanvas effect_objurl_result Let_def getContext_def
        run_invariant_def calls_since_def)
next
  case Btoa
  with assms(2) have "latin1 (useSVGForeignObject (to_string H) (render H (p_children p))
      (Some (with_default 150 (p_width p), with_default 150 (p_height p))))"
    by (simp add: useSVGForeignObject_document)
  from btoa_latin1 [OF this] Btoa show ?thesis
    using assms(1)
    by (simp add: effect_of_RenderOnCanvas effect_btoa_result Let_def getContext_def
        run_invariant_def calls_since_def)
next
  case JsBase64
  then show ?thesis
    using assms(1)
    by (simp add: effect_of_RenderOnCanvas effect_jsb64_result Let_def getContext_def
        run_invariant_def calls_since_def)
qed

text \<open>Without a load event the image never becomes loaded.\<close>

lemma image_failed_image:
  "images (snd (image_failed i w)) i =
     map_option (\<lambda>el. if load_state el = Pending then el\<lparr>load_state := Broken\<rparr> else el)
       (images w i)"
  by (cases "images w i") (simp_all add: image_failed_def Let_def split: option.split)

lemma not_loaded_without_Load:
  assumes "images (fst s) i = Some el" and "load_state el \<noteq> Loaded" and "Load \<notin> set es"
  shows "\<exists>el'. images (fst (play i c es s)) i = Some el' \<and> load_state el' \<noteq> Loaded"
  using assms
proof (induction es arbitrary: s el)
  case Nil
  then show ?case by simp
next
  case (Cons e es)
  obtain w b where s: "s = (w, b)"
    by (cases s)
  have "\<exists>el'. images (fst (step_event i c e s)) i = Some el' \<and> load_state el' \<noteq> Loaded"
  proof (cases e)
    case Load
    with Cons.prems show ?thesis by simp
  next
    case Fail
    with Cons.prems s show ?thesis
      by (simp add: image_failed_image)
  next
    case Clean
    with Cons.prems s show ?thesis
      by (cases c) (simp_all add: invokeCleanup_def)
  qed
  then obtain el' where "images (fst (step_event i c e s)) i = Some el'" "load_state el' \<noteq> Loaded"
    by blast
  moreover have "Load \<notin> set es"
    using Cons.prems by simp
  ultimately show ?case
    using Cons.IH by simp
qed

lemma drawn_only_after_load:
  assumes inv: "run_invariant w0 i h source (w1, False)"
    and pending: "map_option load_state (images w1 i) = Some Pending"
    and cl: "is_cleanup cl"
    and drawn: "DrawImage i 0 0 \<in> set (canvas_ops (calls_since w0 (fst (play i (Some cl) es (w1, False)))))"
  shows "Load \<in> set es"
proof (rule ccontr)
  assume no_load: "Load \<notin> set es"
  from pending obtain el where el: "images w1 i = Some el" "load_state el = Pending"
    by auto
  then have "\<exists>el'. images (fst (play i (Some cl) es (w1, False))) i = Some el'
      \<and> load_state el' \<noteq> Loaded"
    using not_loaded_without_Load [of "(w1, False)" i el es "Some cl"] no_load by simp
  moreover have "run_invariant w0 i h source (play i (Some cl) es (w1, False))"
    using inv cl by (rule run_invariant_play)
  ultimately show False
    using drawn by (auto simp add: run_invariant_def calls_since_def)
qed

text \<open>When the image of a run loads, its handler draws if and only if it has a context.\<close>

lemma load_draws:
  assumes "map_option onload (images w1 i) = Some (Some h)"
    and "map_option load_state (images w1 i) = Some Pending"
  shows "canvas_ops (calls_since w1 (snd (image_loaded i w1)))
           = (if captured_context h = None then [] else spec_drawing h)"
proof -
  from assms obtain el where el: "images w1 i = Some el" "onload el = Some h" "load_state el = Pending"
    by auto
  let ?w = "w1\<lparr>images := (images w1)(i \<mapsto> el\<lparr>load_state := Loaded\<rparr>)\<rparr>"
  obtain extra where "calls (snd (run_handler h ?w)) = calls ?w @ extra"
    "canvas_ops extra = (if captured_context h = None then [] else spec_drawing h)"
    using run_handler_appends [of h ?w i] by blast
  then show ?thesis
    by (simp add: image_loaded_pending [OF el] calls_since_def)
qed

lemma effect_btoa_returned:
  assumes "canvasRef w0 = Some canvas"
    and "fst (effect_btoa H children width height w0) = Inr c"
  shows "latin1 (useSVGForeignObject (to_string H) (render H children) (Some (width, height)))"
proof (rule ccontr)
  assume "\<not> latin1 (useSVGForeignObject (to_string H) (render H children) (Some (width, height)))"
  from btoa_not_latin1 [OF this] assms show False
    by (simp add: effect_btoa_throws Let_def)
qed

lemma spec_drawing_of_onload_explicit:
  assumes "onload_of i h"
  shows "spec_drawing h =
     [ClearRect 0 0 (fst (used_size h)) (snd (used_size h)), FillStyle (js ''white''),
      FillRect 0 0 (fst (used_size h)) (snd (used_size h)), DrawImage i 0 0]"
  using assms by (cases h) (simp_all add: spec_drawing_def)


section \<open>The framework\<close>

lemma patch_canvas_simps [simp]:
  "canvasRef (patch_canvas new w) = Some Canvas"
  "attributes (patch_canvas new w) = new"
  "calls (patch_canvas new w) = calls w"
  "images (patch_canvas new w) = images w"
  "objectURLs (patch_canvas new w) = objectURLs w"
  "supports2d (patch_canvas new w) = supports2d w"
  "fresh (patch_canvas new w) = fresh w"
  by (simp_all add: patch_canvas_def Let_def)

lemma bitmap_patch_canvas:
  "bitmap (patch_canvas new w) =
     (if new ''width'' \<noteq> attributes w ''width'' \<or> new ''height'' \<noteq> attributes w ''height''
      then [] else bitmap w)"
  by (simp add: patch_canvas_def Let_def)

lemma invokeCleanup_returns: "fst (invokeCleanup h w) = Inr ()"
  by (simp add: invokeCleanup_def run_handler_returns split: option.split)

lemma invokeCleanup_Some: "invokeCleanup \<lparr>hook_args = a, hook_cleanup = Some cl\<rparr> w = run_handler cl w"
  by (simp add: invokeCleanup_def)

lemma invokeCleanup_None: "invokeCleanup \<lparr>hook_args = a, hook_cleanup = None\<rparr> w = (Inr (), w)"
  by (simp add: invokeCleanup_def)

text \<open>With the same dependency as the last effect, a commit only patches the canvas.\<close>

lemma commit_same_deps:
  assumes "hook_args h = Some (deps r)"
  shows "commit r h w = (Inr h, patch_canvas (element r) w)"
  using assms by (simp add: commit_def Let_def)

text \<open>
  With another dependency (or at the first rendering), the cleanup of the last effect
  runs, then the new effect, in a state in which the ref holds the canvas.
\<close>

lemma commit_other_deps:
  assumes "hook_args h \<noteq> Some (deps r)"
  shows "commit r h w =
     and_then (effect r (snd (invokeCleanup h (patch_canvas (element r) w))))
       (\<lambda>c w3. (Inr \<lparr>hook_args = Some (deps r), hook_cleanup = c\<rparr>, w3))"
  using assms
  by (simp add: commit_def Let_def and_then_returned [OF invokeCleanup_returns])

lemma canvasRef_run_handler [simp]: "canvasRef (snd (run_handler g w)) = canvasRef w"
proof (cases "captured_context g")
  case None
  then show ?thesis
    by (cases g; simp add:
          onload_fixed500_None cleanup_fixed500_None onload_objurl_None cleanup_objurl_None
          onload_btoa_None cleanup_btoa_None onload_jsb64_None cleanup_jsb64_None)
next
  case (Some c)
  then show ?thesis
    by (cases g; simp add:
          onload_fixed500_Some cleanup_fixed500_Some onload_objurl_Some cleanup_objurl_Some
          onload_btoa_Some cleanup_btoa_Some onload_jsb64_Some cleanup_jsb64_Some)
qed

lemma canvasRef_invokeCleanup [simp]: "canvasRef (snd (invokeCleanup h w)) = canvasRef w"
  by (simp add: invokeCleanup_def split: option.split)

lemma mount_runs_effect:
  "mount r w =
     and_then (effect r (patch_canvas (element r) w))
       (\<lambda>c w3. (Inr \<lparr>hook_args = Some (deps r), hook_cleanup = c\<rparr>, w3))"
  by (simp add: mount_def commit_other_deps invokeCleanup_None)

lemma unmount_runs_cleanup:
  "unmount \<lparr>hook_args = a, hook_cleanup = Some cl\<rparr> w
     = (Inr (), (snd (run_handler cl w))\<lparr>canvasRef := None\<rparr>)"
  by (simp add: unmount_def invokeCleanup_Some and_then_returned [OF run_handler_returns])

lemma deps_RenderOnCanvas [simp]: "deps (RenderOnCanvas rv H p) = p_children p"
  by (cases rv)
    (simp_all add: RenderOnCanvas.simps RenderOnCanvas_fixed500_def RenderOnCanvas_objurl_def
      RenderOnCanvas_btoa_def RenderOnCanvas_jsb64_def Let_def)

text \<open>
  The earlier three revisions never pass \<open>width\<close> or \<open>height\<close> to the canvas element; the
  js-base64 revision always does.
\<close>

lemma element_without_dimensions:
  assumes "rv \<noteq> JsBase64"
  shows "element (RenderOnCanvas rv H p) ''width'' = None"
    and "element (RenderOnCanvas rv H p) ''height'' = None"
  using assms
  by (cases rv; simp add: RenderOnCanvas.simps RenderOnCanvas_fixed500_def
        RenderOnCanvas_objurl_def RenderOnCanvas_btoa_def Let_def rest_props_def)+

lemma element_with_dimensions:
  "element (RenderOnCanvas JsBase64 H p) ''width'' = Some (Num (with_default 150 (p_width p)))"
  "element (RenderOnCanvas JsBase64 H p) ''height'' = Some (Num (with_default 150 (p_height p)))"
  by (simp_all add: RenderOnCanvas.simps RenderOnCanvas_jsb64_def Let_def defaultWidth_def
      defaultHeight_def)


section \<open>The data URL\<close>

lemma example_world_simps [simp]:
  "canvasRef example_world = Some Canvas"
  "fresh example_world = 0"
  "supports2d example_world = True"
  "calls example_world = []"
  "bitmap example_world = []"
  "objectURLs example_world = []"
  by (simp_all add: example_world_def patch_canvas_def initial_world_def)

lemma example_host_simps [simp]:
  "render example_host = renderToString"
  "to_string example_host = Number_toString"
  by (simp_all add: example_host_def)

lemma renderToString_hi: "renderToString hi = js ''<p>hi</p>''"
  by (simp add: hi_def js_def)

lemma latin1_Number_toString [simp]: "latin1 (Number_toString n)"
  by (simp add: Number_toString_def)

text \<open>
  C4. In the two revisions that build a data URL, the string assigned to \<open>src\<close> is
  \<open>data:image/svg+xml;base64,\<close> followed by the Base64 encoding of the SVG markup: of
  its UTF-8 bytes in the js-base64 revision, where the effect returns for every markup,
  and of its code units as bytes in the btoa revision, when none of them is above
  U+00FF; with such a code unit the effect of the btoa revision throws and assigns no
  \<open>src\<close>. The hook \<open>useSvgAsImageSrc\<close> returns the new image for every markup, with this
  data URL assigned. \<open>Base64.encode\<close> returns for every string; \<open>btoa\<close> throws for every
  string with a code unit above U+00FF, for instance for the euro sign.
\<close>

theorem data_url_is_base64_of_svg:
  assumes "canvasRef w0 = Some canvas"
  shows
    "(\<exists>c. fst (effect_jsb64 H children width height w0) = Inr c)
     \<and> src_assignments (fresh w0) (calls_since w0 (snd (effect_jsb64 H children width height w0)))
         = [js ''data:image/svg+xml;base64,''
            @ js (base64 (utf8 (useSvgForeignObject (to_string H) (render H children)
                                  (Some (width, height)))))]
     \<and> (latin1 (useSVGForeignObject (to_string H) (render H children) (Some (width, height))) \<longrightarrow>
          src_assignments (fresh w0) (calls_since w0 (snd (effect_btoa H children width height w0)))
            = [js ''data:image/svg+xml;base64,''
               @ js (base64 (map ucast (useSVGForeignObject (to_string H) (render H children)
                                          (Some (width, height)))))])
     \<and> (\<not> latin1 (useSVGForeignObject (to_string H) (render H children) (Some (width, height))) \<longrightarrow>
          fst (effect_btoa H children width height w0) = Inl InvalidCharacterError
          \<and> src_assignments (fresh w0) (calls_since w0 (snd (effect_btoa H children width height w0)))
              = [])
     \<and> fst (useSvgAsImageSrc s w) = Inr (fresh w)
     \<and> src_assignments (fresh w) (calls_since w (snd (useSvgAsImageSrc s w)))
         = [js ''data:image/svg+xml;base64,'' @ js (base64 (utf8 s))]
     \<and> Base64_encode s = Inr (js (base64 (utf8 s)))
     \<and> (\<not> latin1 s \<longrightarrow> btoa s = Inl InvalidCharacterError)
     \<and> \<not> latin1 [0x20AC]
     \<and> btoa [0x20AC] = Inl InvalidCharacterError"
proof -
  have hook: "fst (useSvgAsImageSrc s w) = Inr (fresh w)
      \<and> src_assignments (fresh w) (calls_since w (snd (useSvgAsImageSrc s w)))
         = [js ''data:image/svg+xml;base64,'' @ js (base64 (utf8 s))]"
    by (simp add: useSvgAsImageSrc_def new_Image_def call_Base64_encode_def Base64_encode_returns
        set_src_def log_def Let_def template_def calls_since_def)
  have btoa_stops: "fst (effect_btoa H children width height w0) = Inl InvalidCharacterError
          \<and> src_assignments (fresh w0) (calls_since w0 (snd (effect_btoa H children width height w0)))
              = []"
    if "\<not> latin1 (useSVGForeignObject (to_string H) (render H children) (Some (width, height)))"
    using assms btoa_not_latin1 [OF that]
    by (simp add: effect_btoa_throws Let_def calls_since_def)
  have jsb64: "src_assignments (fresh w0) (calls_since w0 (snd (effect_jsb64 H children width height w0)))
        = [js ''data:image/svg+xml;base64,''
           @ js (base64 (utf8 (useSvgForeignObject (to_string H) (render H children)
                                 (Some (width, height)))))]"
    using assms by (simp add: effect_jsb64_result Let_def calls_since_def)
  have returns: "\<exists>c. fst (effect_jsb64 H children width height w0) = Inr c"
    using assms by (simp add: effect_jsb64_result Let_def)
  have btoa_src: "src_assignments (fresh w0) (calls_since w0 (snd (effect_btoa H children width height w0)))
            = [js ''data:image/svg+xml;base64,''
               @ js (base64 (map ucast (useSVGForeignObject (to_string H) (render H children)
                                          (Some (width, height)))))]"
    if "latin1 (useSVGForeignObject (to_string H) (render H children) (Some (width, height)))"
    using assms btoa_latin1 [OF that]
    by (simp add: effect_btoa_result Let_def calls_since_def)
  have euro: "\<not> latin1 [0x20AC]"
    by (simp add: latin1_def)
  show ?thesis
    using returns jsb64 btoa_src btoa_stops hook euro btoa_not_latin1 [of s]
      btoa_not_latin1 [OF euro]
    by (simp add: Base64_encode_returns)
qed

theorem data_url_is_base64_of_svg_witness:
  "canvasRef example_world = Some Canvas
   \<and> src_assignments 0 (calls (snd (effect_jsb64 example_host euro 150 150 example_world)))
       = [js ''data:image/svg+xml;base64,''
          @ js (base64 (utf8 (useSvgForeignObject Number_toString (renderToString euro)
                                (Some (150, 150)))))]
   \<and> latin1 (useSVGForeignObject Number_toString (renderToString hi) (Some (150, 150)))
   \<and> src_assignments 0 (calls (snd (effect_btoa example_host hi 150 150 example_world)))
       = [js ''data:image/svg+xml;base64,''
          @ js (base64 (map ucast (useSVGForeignObject Number_toString (renderToString hi)
                                     (Some (150, 150)))))]
   \<and> Base64_encode [0x20AC] = Inr (js ''4oKs'')
   \<and> btoa [0x20AC] = Inl InvalidCharacterError"
proof -
  have latin: "latin1 (useSVGForeignObject Number_toString (renderToString hi) (Some (150, 150)))"
    by (simp add: latin1_useSVGForeignObject renderToString_hi)
  have enc: "js (base64 (utf8 [0x20AC])) = js ''4oKs''"
    by (simp add: b64chs_def)
  show ?thesis
    using data_url_is_base64_of_svg [of example_world Canvas example_host euro 150 150 "[0x20AC]"
        example_world]
      data_url_is_base64_of_svg [of example_world Canvas example_host hi 150 150 "[]" example_world]
      latin enc
    by (simp add: calls_since_def)
qed


section \<open>The guards on the 2D context\<close>

lemma run_handler_without_context:
  assumes "captured_context h = None"
  shows "fst (run_handler h w) = Inr ()"
    and "canvas_ops (calls_since w (snd (run_handler h w))) = []"
    and "bitmap (snd (run_handler h w)) = bitmap w"
  using assms
  by (cases h; simp add: calls_since_def
        onload_fixed500_None cleanup_fixed500_None onload_objurl_None cleanup_objurl_None
        onload_btoa_None cleanup_btoa_None onload_jsb64_None cleanup_jsb64_None)+

lemma run_handler_with_context:
  assumes "captured_context h = Some c"
  shows "fst (run_handler h w) = Inr ()"
    and "canvas_ops (calls_since w (snd (run_handler h w))) = spec_drawing h"
    and "bitmap (snd (run_handler h w)) = bitmap w @ spec_drawing h"
  using assms
  by (cases h; simp add: calls_since_def spec_drawing_def
        onload_fixed500_Some cleanup_fixed500_Some onload_objurl_Some cleanup_objurl_Some
        onload_btoa_Some cleanup_btoa_Some onload_jsb64_Some cleanup_jsb64_Some)+

lemma inner_functions_without_context:
  "setCanvasBgColor_fixed500 None color w = (Inr (), w)"
  "clearCanvas_fixed500 None w = (Inr (), w)"
  "setCanvasBgColor_objurl None width height color w = (Inr (), w)"
  "clearCanvas_objurl None width height w = (Inr (), w)"
  "setCanvasBgColor_btoa None width height color w = (Inr (), w)"
  "clearCanvas_btoa None width height w = (Inr (), w)"
  "setCanvasBgColor \<lparr>co_context = None, co_height = height, co_width = width\<rparr> color w = (Inr (), w)"
  "clearCanvas \<lparr>co_context = None, co_height = height, co_width = width\<rparr> w = (Inr (), w)"
  by (simp_all add: setCanvasBgColor_fixed500_def clearCanvas_fixed500_def
      setCanvasBgColor_objurl_def clearCanvas_objurl_def setCanvasBgColor_btoa_def
      clearCanvas_btoa_def setCanvasBgColor_def clearCanvas_def)

text \<open>
  C10. Every closure of every revision, run in any state: when the context it captured
  is null it returns without an exception, calls no canvas operation and leaves the
  bitmap as it was (and so do the inner functions \<open>setCanvasBgColor\<close> and
  \<open>clearCanvas\<close>); when it captured a context, its canvas operations are exactly: clear
  the rectangle \<open>(0, 0, width, height)\<close>, set the fill style to white, fill that
  rectangle and, in an \<open>onload\<close> handler, draw the image at the origin. So every
  \<open>drawImage\<close> comes right after the clearing and the white fill, and the cleanup leaves
  the canvas cleared and filled white. The context that the closures capture is the
  result of \<open>getContext\<close>.
\<close>

theorem canvas_operations_guarded:
  "(captured_context h = None \<longrightarrow>
      fst (run_handler h w) = Inr ()
      \<and> canvas_ops (calls_since w (snd (run_handler h w))) = []
      \<and> bitmap (snd (run_handler h w)) = bitmap w)
   \<and> (captured_context h \<noteq> None \<longrightarrow>
      fst (run_handler h w) = Inr ()
      \<and> canvas_ops (calls_since w (snd (run_handler h w))) = spec_drawing h
      \<and> bitmap (snd (run_handler h w)) = bitmap w @ spec_drawing h)
   \<and> setCanvasBgColor_fixed500 None color w = (Inr (), w)
   \<and> clearCanvas_fixed500 None w = (Inr (), w)
   \<and> setCanvasBgColor_objurl None width height color w = (Inr (), w)
   \<and> clearCanvas_objurl None width height w = (Inr (), w)
   \<and> setCanvasBgColor_btoa None width height color w = (Inr (), w)
   \<and> clearCanvas_btoa None width height w = (Inr (), w)
   \<and> setCanvasBgColor \<lparr>co_context = None, co_height = height, co_width = width\<rparr> color w = (Inr (), w)
   \<and> clearCanvas \<lparr>co_context = None, co_height = height, co_width = width\<rparr> w = (Inr (), w)
   \<and> (canvasRef w = Some canvas \<longrightarrow>
        (\<exists>cl. fst (effect_fixed500 H children w) = Inr (Some cl) \<and> is_cleanup cl
              \<and> captured_context cl = fst (getContext canvas w))
        \<and> (\<exists>cl. fst (effect_objurl H children width height w) = Inr (Some cl) \<and> is_cleanup cl
              \<and> captured_context cl = fst (getContext canvas w))
        \<and> (latin1 (useSVGForeignObject (to_string H) (render H children) (Some (width, height))) \<longrightarrow>
             (\<exists>cl. fst (effect_btoa H children width height w) = Inr (Some cl) \<and> is_cleanup cl
                \<and> captured_context cl = fst (getContext canvas w)))
        \<and> (\<exists>cl. fst (effect_jsb64 H children width height w) = Inr (Some cl) \<and> is_cleanup cl
              \<and> captured_context cl = fst (getContext canvas w)))"
proof -
  have none: "captured_context h = None \<longrightarrow>
      fst (run_handler h w) = Inr ()
      \<and> canvas_ops (calls_since w (snd (run_handler h w))) = []
      \<and> bitmap (snd (run_handler h w)) = bitmap w"
    by (simp add: run_handler_without_context)
  have some: "captured_context h \<noteq> None \<longrightarrow>
      fst (run_handler h w) = Inr ()
      \<and> canvas_ops (calls_since w (snd (run_handler h w))) = spec_drawing h
      \<and> bitmap (snd (run_handler h w)) = bitmap w @ spec_drawing h"
    by (auto simp add: run_handler_with_context)
  have btoa_cl: "\<exists>cl. fst (effect_btoa H children width height w) = Inr (Some cl) \<and> is_cleanup cl
                \<and> captured_context cl = fst (getContext canvas w)"
    if "canvasRef w = Some canvas"
      and "latin1 (useSVGForeignObject (to_string H) (render H children) (Some (width, height)))"
    using that(1) btoa_latin1 [OF that(2)]
    by (simp add: effect_btoa_result Let_def getContext_def)
  have effects: "canvasRef w = Some canvas \<longrightarrow>
        (\<exists>cl. fst (effect_fixed500 H children w) = Inr (Some cl) \<and> is_cleanup cl
              \<and> captured_context cl = fst (getContext canvas w))
        \<and> (\<exists>cl. fst (effect_objurl H children width height w) = Inr (Some cl) \<and> is_cleanup cl
              \<and> captured_context cl = fst (getContext canvas w))
        \<and> (\<exists>cl. fst (effect_jsb64 H children width height w) = Inr (Some cl) \<and> is_cleanup cl
              \<and> captured_context cl = fst (getContext canvas w))"
    by (simp add: effect_fixed500_result effect_objurl_result effect_jsb64_result Let_def
        getContext_def)
  show ?thesis
    using none some effects btoa_cl
    by (simp add: inner_functions_without_context)
qed

theorem canvas_operations_guarded_witness:
  "captured_context (Onload_btoa None 0 150 150 :: int handler) = None
   \<and> run_handler (Onload_btoa None 0 150 150) example_world = (Inr (), example_world)
   \<and> captured_context (Onload_jsb64 (Some Context2D) 0 150 150 :: int handler) \<noteq> None
   \<and> bitmap (snd (run_handler (Onload_jsb64 (Some Context2D) 0 150 150) example_world))
       = [ClearRect 0 0 150 150, FillStyle (js ''white''), FillRect 0 0 150 150, DrawImage 0 0 0]
   \<and> bitmap (snd (run_handler (Cleanup_fixed500 (Some Context2D) (js ''blob:1'')) example_world))
       = [ClearRect 0 0 500 500, FillStyle (js ''white''), FillRect 0 0 500 500]
   \<and> canvasRef example_world = Some Canvas
   \<and> latin1 (useSVGForeignObject (to_string example_host) (render example_host hi) (Some (150, 150)))
   \<and> fst (effect_btoa example_host hi 150 150 example_world)
       = Inr (Some (Cleanup_btoa (Some Context2D) 150 150))"
proof -
  have latin: "latin1 (useSVGForeignObject (to_string example_host) (render example_host hi)
      (Some (150, 150)))"
    by (simp add: latin1_useSVGForeignObject renderToString_hi)
  have returned: "fst (effect_btoa example_host hi 150 150 example_world)
       = Inr (Some (Cleanup_btoa (Some Context2D) 150 150))"
    using btoa_latin1 [OF latin] by (simp add: effect_btoa_result [where canvas = Canvas] Let_def)
  have unchanged: "run_handler (Onload_btoa None 0 150 150) example_world = (Inr (), example_world)"
    by (simp add: onload_btoa_None)
  show ?thesis
    using canvas_operations_guarded [of "Onload_btoa None 0 150 150" example_world]
      canvas_operations_guarded [of "Onload_jsb64 (Some Context2D) 0 150 150" example_world]
      canvas_operations_guarded [of "Cleanup_fixed500 (Some Context2D) (js ''blob:1'')" example_world
        _ _ _ Canvas example_host hi]
      latin returned unchanged
    by (simp add: spec_drawing_def)
qed


section \<open>The object URL\<close>

lemma live_urls_run_handler: "set (live_urls (snd (run_handler h w))) \<subseteq> set (live_urls w)"
proof (cases "captured_context h")
  case None
  then show ?thesis
    by (cases h; auto simp add: live_urls_def
          onload_fixed500_None cleanup_fixed500_None onload_objurl_None cleanup_objurl_None
          onload_btoa_None cleanup_btoa_None onload_jsb64_None cleanup_jsb64_None)
next
  case (Some c)
  then show ?thesis
    by (cases h; auto simp add: live_urls_def
          onload_fixed500_Some cleanup_fixed500_Some onload_objurl_Some cleanup_objurl_Some
          onload_btoa_Some cleanup_btoa_Some onload_jsb64_Some cleanup_jsb64_Some)
qed

lemma live_urls_images_update [simp]: "live_urls (w\<lparr>images := m\<rparr>) = live_urls w"
  by (simp add: live_urls_def)

lemma live_urls_image_loaded: "set (live_urls (snd (image_loaded i w))) \<subseteq> set (live_urls w)"
proof -
  have "set (live_urls (snd (run_handler h (w\<lparr>images := m\<rparr>)))) \<subseteq> set (live_urls w)" for h m
    using live_urls_run_handler [of h "w\<lparr>images := m\<rparr>"] by simp
  then show ?thesis
    by (simp add: image_loaded_def Let_def split: option.split)
qed

lemma live_urls_image_failed: "set (live_urls (snd (image_failed i w))) \<subseteq> set (live_urls w)"
proof -
  have "set (live_urls (snd (run_handler h (w\<lparr>images := m\<rparr>)))) \<subseteq> set (live_urls w)" for h m
    using live_urls_run_handler [of h "w\<lparr>images := m\<rparr>"] by simp
  then show ?thesis
    by (simp add: image_failed_def Let_def split: option.split)
qed

lemma live_urls_step_event:
  "set (live_urls (fst (step_event i c e (w, b)))) \<subseteq> set (live_urls w)"
proof (cases e)
  case Load
  then show ?thesis by (simp add: live_urls_image_loaded)
next
  case Fail
  then show ?thesis by (simp add: live_urls_image_failed)
next
  case Clean
  then show ?thesis
    by (cases c) (simp_all add: invokeCleanup_def live_urls_run_handler)
qed

lemma live_urls_play: "set (live_urls (fst (play i c es s))) \<subseteq> set (live_urls (fst s))"
proof (induction es arbitrary: s)
  case Nil
  then show ?case by simp
next
  case (Cons e es)
  obtain w b where s: "s = (w, b)"
    by (cases s)
  have "set (live_urls (fst (play i c es (step_event i c e s))))
      \<subseteq> set (live_urls (fst (step_event i c e s)))"
    by (rule Cons.IH)
  also have "\<dots> \<subseteq> set (live_urls (fst s))"
    using live_urls_step_event [of i c e w b] by (simp add: s)
  finally show ?case by simp
qed

lemma cleanup_revokes:
  assumes "is_cleanup cl" and "captured_url cl = Some url"
  shows "revoked_urls (calls_since w (snd (run_handler cl w))) = [url]"
    and "url \<notin> set (live_urls (snd (run_handler cl w)))"
  using assms
  by (cases cl; cases "captured_context cl";
      auto simp add: calls_since_def live_urls_def
        cleanup_fixed500_Some cleanup_fixed500_None cleanup_objurl_Some cleanup_objurl_None)+

lemma onload_draws_then_revokes:
  assumes "onload_of i h" and "captured_url h = Some url" and "captured_context h \<noteq> None"
  shows "\<exists>before. calls_since w (snd (run_handler h w))
           = before @ [Call_canvas (DrawImage i 0 0), Call_revokeObjectURL url]"
  using assms
  by (cases h; auto simp add: calls_since_def onload_fixed500_Some onload_objurl_Some)

lemma released_after_cleanup:
  assumes "is_cleanup cl" and "captured_url cl = Some url" and "Clean \<in> set es"
  shows "url \<notin> set (live_urls (fst (play i (Some cl) es (w, False))))"
  using assms(3)
proof (induction es arbitrary: w)
  case Nil
  then show ?case by simp
next
  case (Cons e es)
  show ?case
  proof (cases "e = Clean")
    case True
    have "url \<notin> set (live_urls (snd (run_handler cl w)))"
      using assms(1,2) by (rule cleanup_revokes)
    then have "url \<notin> set (live_urls (fst (play i (Some cl) es (snd (run_handler cl w), True))))"
      using live_urls_play [of i "Some cl" es "(snd (run_handler cl w), True)"] by auto
    with True show ?thesis
      by (simp add: invokeCleanup_def)
  next
    case False
    then have rest: "Clean \<in> set es"
      using Cons.prems by simp
    from False have "snd (step_event i (Some cl) e (w, False)) = False"
      by (cases e) simp_all
    then have "step_event i (Some cl) e (w, False) = (fst (step_event i (Some cl) e (w, False)), False)"
      by (metis prod.collapse)
    then show ?thesis
      using Cons.IH [OF rest, of "fst (step_event i (Some cl) e (w, False))"] by simp
  qed
qed

text \<open>
  C5. In the two object-URL revisions, an effect run (with the canvas mounted) creates
  exactly one object URL, which is then live. The \<open>onload\<close> handler it installs, when
  it has a context, ends with the drawing of the image followed by the revocation of
  that URL. The cleanup it returns revokes that URL, whatever the state it runs in, and
  the URL is not live afterwards; and in every sequence of events after the effect that
  contains the cleanup, the URL is not live at the end.
\<close>

theorem object_url_released:
  assumes "canvasRef w0 = Some canvas" and "rv = Fixed500 \<or> rv = ObjUrl"
  shows "\<exists>url cl h.
      fst (effect (RenderOnCanvas rv H p) w0) = Inr (Some cl)
      \<and> created_urls (calls_since w0 (snd (effect (RenderOnCanvas rv H p) w0))) = [url]
      \<and> live_urls (snd (effect (RenderOnCanvas rv H p) w0)) = url # live_urls w0
      \<and> map_option onload (images (snd (effect (RenderOnCanvas rv H p) w0)) (fresh w0))
          = Some (Some h)
      \<and> onload_of (fresh w0) h \<and> captured_url h = Some url
      \<and> is_cleanup cl \<and> captured_url cl = Some url
      \<and> (captured_context h \<noteq> None \<longrightarrow>
           (\<forall>w. \<exists>before. calls_since w (snd (run_handler h w))
                 = before @ [Call_canvas (DrawImage (fresh w0) 0 0), Call_revokeObjectURL url]))
      \<and> (\<forall>w. revoked_urls (calls_since w (snd (run_handler cl w))) = [url]
               \<and> url \<notin> set (live_urls (snd (run_handler cl w))))
      \<and> (\<forall>es. Clean \<in> set es \<longrightarrow>
             url \<notin> set (live_urls (fst (play (fresh w0) (Some cl) es
                                          (snd (effect (RenderOnCanvas rv H p) w0), False)))))"
proof -
  define url where "url = js ''blob:'' @ js (digits (Suc (fresh w0)))"
  define width where "width = (with_default 150 (p_width p))"
  define height where "height = (with_default 150 (p_height p))"
  define ctx where "ctx = (if supports2d w0 then Some Context2D else None)"
  define cl where "cl = (if rv = Fixed500 then Cleanup_fixed500 ctx url
                         else Cleanup_objurl ctx url width height)"
  define h where "h = (if rv = Fixed500 then Onload_fixed500 ctx (fresh w0) url
                       else Onload_objurl ctx (fresh w0) url width height)"
  define w1 where "w1 = snd (effect (RenderOnCanvas rv H p) w0)"
  have result: "fst (effect (RenderOnCanvas rv H p) w0) = Inr (Some cl)"
    using assms
    by (auto simp add: effect_of_RenderOnCanvas effect_fixed500_result effect_objurl_result
        Let_def cl_def url_def width_def height_def ctx_def)
  have created: "created_urls (calls_since w0 w1) = [url]"
    and live: "live_urls w1 = url # live_urls w0"
    and installed: "map_option onload (images w1 (fresh w0)) = Some (Some h)"
    using assms
    by (auto simp add: w1_def effect_of_RenderOnCanvas effect_fixed500_result effect_objurl_result
        Let_def calls_since_def live_urls_def h_def url_def width_def height_def ctx_def)
  have h: "onload_of (fresh w0) h" "captured_url h = Some url"
    and cl: "is_cleanup cl" "captured_url cl = Some url"
    by (simp_all add: h_def cl_def)
  have draws: "captured_context h \<noteq> None \<longrightarrow>
           (\<forall>w. \<exists>before. calls_since w (snd (run_handler h w))
                 = before @ [Call_canvas (DrawImage (fresh w0) 0 0), Call_revokeObjectURL url])"
    using onload_draws_then_revokes [OF h] by blast
  have revokes: "\<forall>w. revoked_urls (calls_since w (snd (run_handler cl w))) = [url]
               \<and> url \<notin> set (live_urls (snd (run_handler cl w)))"
    using cleanup_revokes [OF cl] by blast
  have released: "\<forall>es. Clean \<in> set es \<longrightarrow>
             url \<notin> set (live_urls (fst (play (fresh w0) (Some cl) es (w1, False))))"
    using released_after_cleanup [OF cl] by blast
  show ?thesis
    using result created live installed h cl draws revokes released
    unfolding w1_def by blast
qed

theorem object_url_released_witness:
  "canvasRef example_world = Some Canvas
   \<and> (\<exists>url cl h.
      fst (effect (RenderOnCanvas ObjUrl example_host example_props) example_world) = Inr (Some cl)
      \<and> created_urls (calls_since example_world
            (snd (effect (RenderOnCanvas ObjUrl example_host example_props) example_world))) = [url]
      \<and> live_urls (snd (effect (RenderOnCanvas ObjUrl example_host example_props) example_world))
          = url # live_urls example_world
      \<and> is_cleanup cl \<and> captured_url cl = Some url
      \<and> url \<notin> set (live_urls (fst (play (fresh example_world) (Some cl) [Load, Clean]
             (snd (effect (RenderOnCanvas ObjUrl example_host example_props) example_world), False)))))"
proof -
  have mounted: "canvasRef example_world = Some Canvas"
    by simp
  have revision: "ObjUrl = Fixed500 \<or> ObjUrl = ObjUrl"
    by simp
  have events: "Clean \<in> set [Load, Clean]"
    by simp
  show ?thesis
    using object_url_released [OF mounted revision, of example_host example_props] mounted events
    by blast
qed


section \<open>Width and height\<close>

lemma rectangles_spec_drawing:
  "rectangles (spec_drawing h)
     = [(0, 0, fst (used_size h), snd (used_size h)), (0, 0, fst (used_size h), snd (used_size h))]"
  by (cases h) (simp_all add: spec_drawing_def)

lemma rectangles_of_handler:
  "rectangles (canvas_ops (calls_since w (snd (run_handler h w))))
     = (if captured_context h = None then []
        else [(0, 0, fst (used_size h), snd (used_size h)),
              (0, 0, fst (used_size h), snd (used_size h))])"
  by (cases "captured_context h")
    (simp_all add: run_handler_without_context run_handler_with_context rectangles_spec_drawing)

lemma sized_effect_uses_dimensions:
  assumes "canvasRef w0 = Some canvas" and "rv = ObjUrl \<or> rv = Btoa \<or> rv = JsBase64"
    and width: "width = with_default 150 (p_width p)"
    and height: "height = with_default 150 (p_height p)"
  shows "svg_arguments (calls_since w0 (snd (effect (RenderOnCanvas rv H p) w0)))
           = [svg_document (render H (p_children p)) (to_string H width) (to_string H height)]"
    and "fst (effect (RenderOnCanvas rv H p) w0) = Inr (Some cl) \<Longrightarrow> used_size cl = (width, height)"
    and "map_option onload (images (snd (effect (RenderOnCanvas rv H p) w0)) (fresh w0)) = Some (Some h)
           \<Longrightarrow> used_size h = (width, height)"
proof -
  consider (objurl) "rv = ObjUrl" | (jsb64) "rv = JsBase64"
    | (btoa_ok) b where "rv = Btoa"
        "btoa (useSVGForeignObject (to_string H) (render H (p_children p)) (Some (width, height))) = Inr b"
    | (btoa_throws) e where "rv = Btoa"
        "btoa (useSVGForeignObject (to_string H) (render H (p_children p)) (Some (width, height))) = Inl e"
    using assms(2)
    by (cases "btoa (useSVGForeignObject (to_string H) (render H (p_children p)) (Some (width, height)))")
      auto
  then have "svg_arguments (calls_since w0 (snd (effect (RenderOnCanvas rv H p) w0)))
           = [svg_document (render H (p_children p)) (to_string H width) (to_string H height)]
      \<and> (fst (effect (RenderOnCanvas rv H p) w0) = Inr (Some cl) \<longrightarrow> used_size cl = (width, height))
      \<and> (map_option onload (images (snd (effect (RenderOnCanvas rv H p) w0)) (fresh w0)) = Some (Some h)
           \<longrightarrow> used_size h = (width, height))"
  proof cases
    case objurl
    then show ?thesis
      using assms(1)
      by (auto simp add: effect_of_RenderOnCanvas effect_objurl_result Let_def calls_since_def
          svgMarkup_objurl_document width height)
  next
    case jsb64
    then show ?thesis
      using assms(1)
      by (auto simp add: effect_of_RenderOnCanvas effect_jsb64_result Let_def calls_since_def
          useSvgForeignObject_document width height)
  next
    case btoa_ok
    then show ?thesis
      using assms(1)
      by (auto simp add: effect_of_RenderOnCanvas effect_btoa_result Let_def calls_since_def
          useSVGForeignObject_document width height)
  next
    case btoa_throws
    then show ?thesis
      using assms(1)
      by (auto simp add: effect_of_RenderOnCanvas effect_btoa_throws Let_def calls_since_def
          useSVGForeignObject_document width height)
  qed
  then show "svg_arguments (calls_since w0 (snd (effect (RenderOnCanvas rv H p) w0)))
           = [svg_document (render H (p_children p)) (to_string H width) (to_string H height)]"
    and "fst (effect (RenderOnCanvas rv H p) w0) = Inr (Some cl) \<Longrightarrow> used_size cl = (width, height)"
    and "map_option onload (images (snd (effect (RenderOnCanvas rv H p) w0)) (fresh w0)) = Some (Some h)
           \<Longrightarrow> used_size h = (width, height)"
    by simp_all
qed

lemma fixed500_effect_uses_500:
  assumes "canvasRef w0 = Some canvas"
  shows "svg_arguments (calls_since w0 (snd (effect (RenderOnCanvas Fixed500 H p) w0)))
           = [svg_document (render H (p_children p)) (js ''500'') (js ''500'')]"
    and "fst (effect (RenderOnCanvas Fixed500 H p) w0) = Inr (Some cl) \<Longrightarrow> used_size cl = (500, 500)"
    and "map_option onload (images (snd (effect (RenderOnCanvas Fixed500 H p) w0)) (fresh w0))
           = Some (Some h) \<Longrightarrow> used_size h = (500, 500)"
  using assms
  by (auto simp add: effect_of_RenderOnCanvas effect_fixed500_result Let_def calls_since_def
      svgMarkup_fixed500_document)

text \<open>
  C8. In the three revisions with dimension props, \<open>width\<close> and \<open>height\<close> are the props,
  or 150 for a prop that is omitted. An effect run hands over the SVG document with
  exactly these two values in the \<open>svg:svg\<close> and in the \<open>svg:foreignObject\<close> tag, and the
  closures it creates (the cleanup it returns, the \<open>onload\<close> handler it installs) use
  these two values. In the earliest revision, whatever the props, the document has 500
  and 500 and the closures use 500 and 500. Every closure, run in any state, clears and
  fills only the rectangle \<open>(0, 0, width, height)\<close> of the values it uses.
\<close>

theorem dimensions_used_consistently:
  assumes "canvasRef w0 = Some canvas"
  shows "(p_width p = None \<longrightarrow> with_default 150 (p_width p) = 150)
     \<and> (p_width p = Some x \<longrightarrow> with_default 150 (p_width p) = x)
     \<and> (p_height p = None \<longrightarrow> with_default 150 (p_height p) = 150)
     \<and> (p_height p = Some y \<longrightarrow> with_default 150 (p_height p) = y)
     \<and> (rv = ObjUrl \<or> rv = Btoa \<or> rv = JsBase64 \<longrightarrow>
          svg_arguments (calls_since w0 (snd (effect (RenderOnCanvas rv H p) w0)))
            = [svg_document (render H (p_children p))
                 (to_string H (with_default 150 (p_width p)))
                 (to_string H (with_default 150 (p_height p)))]
          \<and> (\<forall>cl. fst (effect (RenderOnCanvas rv H p) w0) = Inr (Some cl) \<longrightarrow>
                 used_size cl = (with_default 150 (p_width p), with_default 150 (p_height p)))
          \<and> (\<forall>h. map_option onload (images (snd (effect (RenderOnCanvas rv H p) w0)) (fresh w0))
                   = Some (Some h) \<longrightarrow>
                 used_size h = (with_default 150 (p_width p), with_default 150 (p_height p))))
     \<and> (rv = Fixed500 \<longrightarrow>
          svg_arguments (calls_since w0 (snd (effect (RenderOnCanvas rv H p) w0)))
            = [svg_document (render H (p_children p)) (js ''500'') (js ''500'')]
          \<and> (\<forall>cl. fst (effect (RenderOnCanvas rv H p) w0) = Inr (Some cl) \<longrightarrow>
                 used_size cl = (500, 500))
          \<and> (\<forall>h. map_option onload (images (snd (effect (RenderOnCanvas rv H p) w0)) (fresh w0))
                   = Some (Some h) \<longrightarrow>
                 used_size h = (500, 500)))
     \<and> rectangles (canvas_ops (calls_since w (snd (run_handler g w))))
         = (if captured_context g = None then []
            else [(0, 0, fst (used_size g), snd (used_size g)),
                  (0, 0, fst (used_size g), snd (used_size g))])"
proof -
  have sized: "rv = ObjUrl \<or> rv = Btoa \<or> rv = JsBase64 \<longrightarrow>
          svg_arguments (calls_since w0 (snd (effect (RenderOnCanvas rv H p) w0)))
            = [svg_document (render H (p_children p))
                 (to_string H (with_default 150 (p_width p)))
                 (to_string H (with_default 150 (p_height p)))]
          \<and> (\<forall>cl. fst (effect (RenderOnCanvas rv H p) w0) = Inr (Some cl) \<longrightarrow>
                 used_size cl = (with_default 150 (p_width p), with_default 150 (p_height p)))
          \<and> (\<forall>h. map_option onload (images (snd (effect (RenderOnCanvas rv H p) w0)) (fresh w0))
                   = Some (Some h) \<longrightarrow>
                 used_size h = (with_default 150 (p_width p), with_default 150 (p_height p)))"
    using sized_effect_uses_dimensions [OF assms _ refl refl, of rv H p] by blast
  have fixed: "rv = Fixed500 \<longrightarrow>
          svg_arguments (calls_since w0 (snd (effect (RenderOnCanvas rv H p) w0)))
            = [svg_document (render H (p_children p)) (js ''500'') (js ''500'')]
          \<and> (\<forall>cl. fst (effect (RenderOnCanvas rv H p) w0) = Inr (Some cl) \<longrightarrow>
                 used_size cl = (500, 500))
          \<and> (\<forall>h. map_option onload (images (snd (effect (RenderOnCanvas rv H p) w0)) (fresh w0))
                   = Some (Some h) \<longrightarrow>
                 used_size h = (500, 500))"
    using fixed500_effect_uses_500 [OF assms, of H p] by blast
  have defaults: "p_width p = None \<longrightarrow> with_default 150 (p_width p) = 150"
    "p_width p = Some x \<longrightarrow> with_default 150 (p_width p) = x"
    "p_height p = None \<longrightarrow> with_default 150 (p_height p) = 150"
    "p_height p = Some y \<longrightarrow> with_default 150 (p_height p) = y"
    by (simp_all add: with_default_def)
  show ?thesis
    using sized fixed defaults rectangles_of_handler [of w g] by simp
qed

theorem dimensions_used_consistently_witness:
  "canvasRef example_world = Some Canvas
   \<and> svg_arguments (calls (snd (effect (RenderOnCanvas JsBase64 example_host example_props_300)
                                   example_world)))
       = [svg_document (js ''<p>hi</p>'') (js ''300'') (js ''150'')]
   \<and> fst (effect (RenderOnCanvas JsBase64 example_host example_props_300) example_world)
       = Inr (Some (Cleanup_jsb64 (Some Context2D) 300 150))
   \<and> used_size (Cleanup_jsb64 (Some Context2D) 300 150 :: int handler) = (300, 150)
   \<and> rectangles (canvas_ops (calls (snd (run_handler (Cleanup_jsb64 (Some Context2D) 300 150)
                                            example_world))))
       = [(0, 0, 300, 150), (0, 0, 300, 150)]"
proof -
  have mounted: "canvasRef example_world = Some Canvas"
    by simp
  have numbers: "Number_toString 300 = js ''300''" "Number_toString 150 = js ''150''"
    by code_simp+
  have props: "p_children example_props_300 = hi" "p_width example_props_300 = Some 300"
    "p_height example_props_300 = None"
    by (simp_all add: example_props_300_def)
  have returned: "fst (effect (RenderOnCanvas JsBase64 example_host example_props_300) example_world)
       = Inr (Some (Cleanup_jsb64 (Some Context2D) 300 150))"
    by (simp add: effect_of_RenderOnCanvas effect_jsb64_result [OF mounted] Let_def props
        with_default_def)
  show ?thesis
    using dimensions_used_consistently [OF mounted, of example_props_300 300 0 JsBase64 example_host
        example_world "Cleanup_jsb64 (Some Context2D) 300 150"]
      mounted numbers props returned renderToString_hi
    by (simp add: calls_since_def with_default_def)
qed


section \<open>The bootstrap\<close>

lemma snd_unhandled: "snd (unhandled r) = snd r"
  by (cases r, cases "fst r") (simp_all add: unhandled_def)

lemma callPreact_all_resolve:
  assumes "import_outcome E Module_react = None" and "import_outcome E Module_app = None"
    and "import_outcome E Module_index_css = None"
  shows "callPreact E l =
     (Inr (), l @ [Import Module_react, Import Module_app, Import Module_index_css, Render App ''app''])"
  using assms by (simp add: callPreact_def import_module_def)

lemma callPreact_log:
  "\<exists>added. snd (callPreact E l) = l @ added
     \<and> Import Module_preact_devtools \<notin> set added
     \<and> (\<forall>m i. Render (ErrorFallback m) i \<notin> set added)"
  by (simp add: callPreact_def import_module_def split: option.split)

lemma callPreact_renders:
  assumes "\<forall>i. Render App i \<notin> set l"
  shows "(\<exists>i. Render App i \<in> set (snd (callPreact E l)))
     = (import_outcome E Module_react = None \<and> import_outcome E Module_app = None
        \<and> import_outcome E Module_index_css = None)"
  using assms by (auto simp add: callPreact_def import_module_def split: option.split)

text \<open>
  C7, as stated, fails in four ways. In dev mode, when the import of the devtools throws
  and the import of the renderer in the \<open>catch\<close> block throws as well, nothing is
  rendered. When the import of the devtools throws \<open>null\<close>, reading \<open>error.message\<close>
  raises a \<open>TypeError\<close> and nothing is rendered. When the devtools are imported and the
  import of \<open>./app\<close> throws, the app is not rendered; neither is it in production mode.
\<close>

theorem bootstrap_renders_nothing:
  "env_DEV dev_env_offline
   \<and> import_outcome dev_env_offline Module_preact_devtools = Some failed_to_fetch
   \<and> main dev_env_offline
       = (Inl (Thrown failed_to_fetch), [Import Module_preact_devtools, Import Module_react])
   \<and> env_DEV dev_env_devtools_throw_null
   \<and> import_outcome dev_env_devtools_throw_null Module_preact_devtools = Some Null_or_undefined
   \<and> main dev_env_devtools_throw_null
       = (Inl (Raised TypeError), [Import Module_preact_devtools, Import Module_react])
   \<and> env_DEV dev_env_without_app
   \<and> import_outcome dev_env_without_app Module_preact_devtools = None
   \<and> main dev_env_without_app
       = (Inl (Thrown failed_to_fetch),
          [Import Module_preact_devtools, Import Module_react, Import Module_app])
   \<and> \<not> env_DEV prod_env_without_app \<and> env_PROD prod_env_without_app
   \<and> main prod_env_without_app
       = (Inl (Thrown failed_to_fetch), [Import Module_react, Import Module_app])"
  by (simp add: main_def callPreact_def import_module_def unhandled_def dev_env_offline_def
      dev_env_devtools_throw_null_def dev_env_without_app_def prod_env_without_app_def)

text \<open>
  C7, amended. In dev mode the import of the devtools is the first entry of the log.
  When it resolves, the bootstrap goes on as \<open>callPreact\<close>: the app is rendered exactly
  when the three imports of \<open>callPreact\<close> resolve, then as the last entry of the log and
  into \<open>app\<close>, and no fallback is rendered whatever happens in \<open>callPreact\<close>. When the
  import of the devtools throws, the app is never rendered; the renderer is imported,
  and when this import resolves and the caught value is neither \<open>null\<close> nor \<open>undefined\<close>,
  the fallback with the \<open>message\<close> of the caught value is rendered into \<open>app\<close>. When
  the caught value is \<open>null\<close> or \<open>undefined\<close> the bootstrap ends with a \<open>TypeError\<close>, and
  when the import of the renderer throws it ends with the value thrown; in both cases
  nothing is rendered. In production mode the devtools are never imported and no
  fallback is ever rendered; the app is rendered exactly when the three imports of
  \<open>callPreact\<close> resolve, then into \<open>app\<close>.
\<close>

theorem bootstrap_order:
  "(env_DEV E \<longrightarrow> (\<exists>rest. snd (main E) = Import Module_preact_devtools # rest))
   \<and> (env_DEV E \<and> import_outcome E Module_preact_devtools = None \<longrightarrow>
      main E = unhandled (callPreact E [Import Module_preact_devtools])
      \<and> (\<forall>m i. Render (ErrorFallback m) i \<notin> set (snd (main E)))
      \<and> ((\<exists>i. Render App i \<in> set (snd (main E))) =
          (import_outcome E Module_react = None \<and> import_outcome E Module_app = None
           \<and> import_outcome E Module_index_css = None))
      \<and> (import_outcome E Module_react = None \<and> import_outcome E Module_app = None
           \<and> import_outcome E Module_index_css = None \<longrightarrow>
          main E = (Inr (), [Import Module_preact_devtools, Import Module_react, Import Module_app,
                             Import Module_index_css, Render App ''app''])))
   \<and> (env_DEV E \<and> import_outcome E Module_preact_devtools = Some e \<longrightarrow>
      (\<forall>i. Render App i \<notin> set (snd (main E)))
      \<and> (import_outcome E Module_react = None \<and> e = Value m \<longrightarrow>
          main E = (Inr (), [Import Module_preact_devtools, Import Module_react,
                             Render (ErrorFallback m) ''app'']))
      \<and> (import_outcome E Module_react = None \<and> e = Null_or_undefined \<longrightarrow>
          main E = (Inl (Raised TypeError), [Import Module_preact_devtools, Import Module_react]))
      \<and> (import_outcome E Module_react = Some e' \<longrightarrow>
          main E = (Inl (Thrown e'), [Import Module_preact_devtools, Import Module_react])))
   \<and> (\<not> env_DEV E \<and> env_PROD E \<longrightarrow>
      main E = unhandled (callPreact E [])
      \<and> Import Module_preact_devtools \<notin> set (snd (main E))
      \<and> (\<forall>m i. Render (ErrorFallback m) i \<notin> set (snd (main E)))
      \<and> ((\<exists>i. Render App i \<in> set (snd (main E))) =
          (import_outcome E Module_react = None \<and> import_outcome E Module_app = None
           \<and> import_outcome E Module_index_css = None))
      \<and> (import_outcome E Module_react = None \<and> import_outcome E Module_app = None
           \<and> import_outcome E Module_index_css = None \<longrightarrow>
          main E = (Inr (), [Import Module_react, Import Module_app, Import Module_index_css,
                             Render App ''app''])))"
proof -
  have first: "\<exists>rest. snd (main E) = Import Module_preact_devtools # rest" if "env_DEV E"
  proof (cases "import_outcome E Module_preact_devtools")
    case None
    then have "main E = unhandled (callPreact E [Import Module_preact_devtools])"
      using that by (simp add: main_def import_module_def)
    then show ?thesis
      using callPreact_log [of E "[Import Module_preact_devtools]"] by (auto simp add: snd_unhandled)
  next
    case (Some thrown)
    then show ?thesis
      using that by (simp add: main_def import_module_def split: option.split thrown.split)
  qed
  have dev_ok: "main E = unhandled (callPreact E [Import Module_preact_devtools])"
    if "env_DEV E" "import_outcome E Module_preact_devtools = None"
    using that by (simp add: main_def import_module_def)
  have dev_ok_no_fallback: "\<forall>m i. Render (ErrorFallback m) i \<notin> set (snd (main E))"
    if "env_DEV E" "import_outcome E Module_preact_devtools = None"
    using callPreact_log [of E "[Import Module_preact_devtools]"] dev_ok [OF that]
    by (auto simp add: snd_unhandled)
  have dev_ok_app: "(\<exists>i. Render App i \<in> set (snd (main E))) =
          (import_outcome E Module_react = None \<and> import_outcome E Module_app = None
           \<and> import_outcome E Module_index_css = None)"
    if "env_DEV E" "import_outcome E Module_preact_devtools = None"
    using callPreact_renders [of "[Import Module_preact_devtools]" E] dev_ok [OF that]
    by (simp add: snd_unhandled)
  have dev_ok_all: "main E = (Inr (), [Import Module_preact_devtools, Import Module_react,
        Import Module_app, Import Module_index_css, Render App ''app''])"
    if "env_DEV E" "import_outcome E Module_preact_devtools = None"
      "import_outcome E Module_react = None" "import_outcome E Module_app = None"
      "import_outcome E Module_index_css = None"
    using that by (simp add: dev_ok callPreact_all_resolve unhandled_def)
  have dev_fail: "\<forall>i. Render App i \<notin> set (snd (main E))"
    if "env_DEV E" "import_outcome E Module_preact_devtools = Some e"
    using that by (simp add: main_def import_module_def split: option.split thrown.split)
  have dev_fallback: "main E = (Inr (), [Import Module_preact_devtools, Import Module_react,
        Render (ErrorFallback m) ''app''])"
    if "env_DEV E" "import_outcome E Module_preact_devtools = Some e"
      "import_outcome E Module_react = None" "e = Value m"
    using that by (simp add: main_def import_module_def)
  have dev_null: "main E = (Inl (Raised TypeError),
        [Import Module_preact_devtools, Import Module_react])"
    if "env_DEV E" "import_outcome E Module_preact_devtools = Some e"
      "import_outcome E Module_react = None" "e = Null_or_undefined"
    using that by (simp add: main_def import_module_def)
  have dev_no_renderer: "main E = (Inl (Thrown e'),
        [Import Module_preact_devtools, Import Module_react])"
    if "env_DEV E" "import_outcome E Module_preact_devtools = Some e"
      "import_outcome E Module_react = Some e'"
    using that by (simp add: main_def import_module_def)
  have prod: "main E = unhandled (callPreact E [])" if "\<not> env_DEV E" "env_PROD E"
    using that by (simp add: main_def)
  have prod_log: "Import Module_preact_devtools \<notin> set (snd (main E))
      \<and> (\<forall>m i. Render (ErrorFallback m) i \<notin> set (snd (main E)))"
    if "\<not> env_DEV E" "env_PROD E"
    using callPreact_log [of E "[]"] prod [OF that] by (auto simp add: snd_unhandled)
  have prod_app: "(\<exists>i. Render App i \<in> set (snd (main E))) =
          (import_outcome E Module_react = None \<and> import_outcome E Module_app = None
           \<and> import_outcome E Module_index_css = None)"
    if "\<not> env_DEV E" "env_PROD E"
    using callPreact_renders [of "[]" E] prod [OF that] by (simp add: snd_unhandled)
  have prod_all: "main E = (Inr (), [Import Module_react, Import Module_app, Import Module_index_css,
        Render App ''app''])"
    if "\<not> env_DEV E" "env_PROD E" "import_outcome E Module_react = None"
      "import_outcome E Module_app = None" "import_outcome E Module_index_css = None"
    using that by (simp add: prod callPreact_all_resolve unhandled_def)
  show ?thesis
    by (intro conjI impI; (elim conjE)?;
        (rule first dev_ok dev_ok_no_fallback dev_ok_app dev_ok_all dev_fail dev_fallback
          dev_null dev_no_renderer prod prod_log [THEN conjunct1] prod_log [THEN conjunct2]
          prod_app prod_all; assumption))
qed

theorem bootstrap_order_witness:
  "env_DEV dev_env \<and> import_outcome dev_env Module_preact_devtools = None
   \<and> main dev_env = (Inr (), [Import Module_preact_devtools, Import Module_react, Import Module_app,
                               Import Module_index_css, Render App ''app''])
   \<and> env_DEV dev_env_without_devtools
   \<and> import_outcome dev_env_without_devtools Module_preact_devtools
       = Some (Value (js ''Failed to fetch''))
   \<and> main dev_env_without_devtools
       = (Inr (), [Import Module_preact_devtools, Import Module_react,
                   Render (ErrorFallback (js ''Failed to fetch'')) ''app''])
   \<and> env_DEV dev_env_devtools_throw_null
   \<and> import_outcome dev_env_devtools_throw_null Module_preact_devtools = Some Null_or_undefined
   \<and> main dev_env_devtools_throw_null
       = (Inl (Raised TypeError), [Import Module_preact_devtools, Import Module_react])
   \<and> env_DEV dev_env_offline
   \<and> import_outcome dev_env_offline Module_preact_devtools = Some failed_to_fetch
   \<and> import_outcome dev_env_offline Module_react = Some failed_to_fetch
   \<and> main dev_env_offline
       = (Inl (Thrown failed_to_fetch), [Import Module_preact_devtools, Import Module_react])
   \<and> \<not> env_DEV prod_env \<and> env_PROD prod_env
   \<and> main prod_env = (Inr (), [Import Module_react, Import Module_app, Import Module_index_css,
                                Render App ''app''])"
proof -
  have null: "env_DEV dev_env_devtools_throw_null"
    "import_outcome dev_env_devtools_throw_null Module_preact_devtools = Some Null_or_undefined"
    "import_outcome dev_env_devtools_throw_null Module_react = None"
    by (simp_all add: dev_env_devtools_throw_null_def)
  have offline: "env_DEV dev_env_offline"
    "import_outcome dev_env_offline m = Some failed_to_fetch" for m
    by (simp_all add: dev_env_offline_def)
  have dev: "env_DEV dev_env" "import_outcome dev_env m = None" for m
    by (simp_all add: dev_env_def)
  have without: "env_DEV dev_env_without_devtools"
    "import_outcome dev_env_without_devtools Module_preact_devtools
       = Some (Value (js ''Failed to fetch''))"
    "import_outcome dev_env_without_devtools Module_react = None"
    by (simp_all add: dev_env_without_devtools_def failed_to_fetch_def)
  have prod: "\<not> env_DEV prod_env" "env_PROD prod_env" "import_outcome prod_env m = None" for m
    by (simp_all add: prod_env_def)
  note ok = bootstrap_order [of dev_env, THEN conjunct2, THEN conjunct1, THEN mp,
      OF conjI [OF dev], THEN conjunct2, THEN conjunct2, THEN conjunct2, THEN mp]
  note fallback = bootstrap_order [of dev_env_without_devtools "Value (js ''Failed to fetch'')"
      "js ''Failed to fetch''", THEN conjunct2, THEN conjunct2, THEN conjunct1, THEN mp,
      OF conjI [OF without(1, 2)], THEN conjunct2, THEN conjunct1, THEN mp]
  note throws = bootstrap_order [of dev_env_devtools_throw_null Null_or_undefined,
      THEN conjunct2, THEN conjunct2, THEN conjunct1, THEN mp, OF conjI [OF null(1, 2)],
      THEN conjunct2, THEN conjunct2, THEN conjunct1, THEN mp]
  note no_renderer = bootstrap_order [of dev_env_offline failed_to_fetch _ failed_to_fetch,
      THEN conjunct2, THEN conjunct2, THEN conjunct1, THEN mp, OF conjI [OF offline],
      THEN conjunct2, THEN conjunct2, THEN conjunct2, THEN mp]
  note direct = bootstrap_order [of prod_env, THEN conjunct2, THEN conjunct2, THEN conjunct2,
      THEN mp, OF conjI [OF prod(1, 2)], THEN conjunct2, THEN conjunct2, THEN conjunct2,
      THEN conjunct2, THEN mp]
  have "main dev_env = (Inr (), [Import Module_preact_devtools, Import Module_react,
      Import Module_app, Import Module_index_css, Render App ''app''])"
    by (rule ok) (simp add: dev)
  moreover have "main dev_env_without_devtools
       = (Inr (), [Import Module_preact_devtools, Import Module_react,
                   Render (ErrorFallback (js ''Failed to fetch'')) ''app''])"
    by (rule fallback) (simp add: without)
  moreover have "main dev_env_devtools_throw_null
       = (Inl (Raised TypeError), [Import Module_preact_devtools, Import Module_react])"
    by (rule throws) (simp add: null)
  moreover have "main dev_env_offline
       = (Inl (Thrown failed_to_fetch), [Import Module_preact_devtools, Import Module_react])"
    by (rule no_renderer) (rule offline)
  moreover have "main prod_env = (Inr (), [Import Module_react, Import Module_app,
      Import Module_index_css, Render App ''app''])"
    by (rule direct) (simp add: prod)
  ultimately show ?thesis
    using dev without null offline prod by simp
qed


section \<open>The state machine of an effect run\<close>

lemma renderToString_euro: "renderToString euro = js ''<p>'' @ [0x20AC] @ js ''</p>''"
  by (simp add: euro_def js_def)

lemma not_latin1_euro: "\<not> latin1 (renderToString euro)"
  by (simp add: renderToString_euro) (simp add: latin1_def)

lemma example_props_simps [simp]:
  "p_children example_props = hi" "p_width example_props = None" "p_height example_props = None"
  "p_children euro_props = euro" "p_width euro_props = None" "p_height euro_props = None"
  by (simp_all add: example_props_def euro_props_def)

lemma effect_btoa_euro:
  "effect (RenderOnCanvas Btoa example_host euro_props) example_world =
     (Inl InvalidCharacterError,
      example_world\<lparr>calls := [Call_render euro, Call_new_Image 0,
                     Call_btoa (useSVGForeignObject Number_toString (renderToString euro)
                                  (Some (150, 150)))],
         images := (images example_world)(0 \<mapsto>
             \<lparr>src = None, onload = None, onerror = None, load_state = Unloaded\<rparr>),
         fresh := Suc 0\<rparr>)"
proof -
  have "\<not> latin1 (useSVGForeignObject Number_toString (renderToString euro) (Some (150, 150)))"
    by (simp add: latin1_useSVGForeignObject not_latin1_euro)
  from btoa_not_latin1 [OF this] show ?thesis
    by (simp add: effect_of_RenderOnCanvas with_default_def
        effect_btoa_throws [where canvas = Canvas] Let_def)
qed

text \<open>
  C6, as stated, fails in the btoa revision: for children that render to a euro sign,
  the effect throws at \<open>btoa\<close> and never assigns \<open>src\<close>, so this run attempts no load.
\<close>

theorem btoa_run_attempts_no_load:
  "canvasRef example_world = Some Canvas
   \<and> fst (effect (RenderOnCanvas Btoa example_host euro_props) example_world)
       = Inl InvalidCharacterError
   \<and> src_assignments 0 (calls (snd (effect (RenderOnCanvas Btoa example_host euro_props)
                                       example_world))) = []
   \<and> phase_of 0 (calls (snd (effect (RenderOnCanvas Btoa example_host euro_props)
                                example_world))) = Idle"
  by (simp add: effect_btoa_euro phase_of_def)

text \<open>
  C6, amended. An effect run that gets past the encoding (every run of the earliest,
  the object-URL and the js-base64 revision, and a run of the btoa revision whose SVG
  markup has no code unit above U+00FF) assigns \<open>src\<close> once and installs no \<open>onerror\<close>
  handler; this is the transition from idle to image-loading. After it, whatever events
  follow in whatever order, each event is a transition of the state machine of the
  specification (image-loading to drawn; the cleanup) or leaves the abstract state
  unchanged; the log never holds a second assignment to \<open>src\<close> and the image never has
  an \<open>onerror\<close> handler; a failed load adds no call and leaves the bitmap and the
  abstract state as they are; and a load with a null context leaves the abstract state
  as it is.
\<close>

theorem effect_run_state_machine:
  assumes "canvasRef w0 = Some canvas"
    and "rv = Btoa \<Longrightarrow> latin1 (svg_document (render H (p_children p))
           (to_string H (with_default 150 (p_width p)))
           (to_string H (with_default 150 (p_height p))))"
  shows "\<exists>cl source.
      fst (effect (RenderOnCanvas rv H p) w0) = Inr (Some cl)
      \<and> src_assignments (fresh w0) (calls_since w0 (snd (effect (RenderOnCanvas rv H p) w0))) = [source]
      \<and> map_option onerror (images (snd (effect (RenderOnCanvas rv H p) w0)) (fresh w0)) = Some None
      \<and> abstract_state w0 (fresh w0) (w0, False) = (Idle, False)
      \<and> abstract_state w0 (fresh w0) (snd (effect (RenderOnCanvas rv H p) w0), False)
          = (ImageLoading, False)
      \<and> spec_step (abstract_state w0 (fresh w0) (w0, False))
           (abstract_state w0 (fresh w0) (snd (effect (RenderOnCanvas rv H p) w0), False))
      \<and> events_follow_spec w0 (fresh w0) cl source (supports2d w0)
           (snd (effect (RenderOnCanvas rv H p) w0))"
proof -
  define i where "i = fresh w0"
  define w1 where "w1 = snd (effect (RenderOnCanvas rv H p) w0)"
  obtain cl h source where cl: "fst (effect (RenderOnCanvas rv H p) w0) = Inr (Some cl)"
    "is_cleanup cl" and h: "onload_of i h" "captured_context h = fst (getContext canvas w0)"
    and once: "src_assignments i (calls_since w0 w1) = [source]"
    and nothing_drawn: "canvas_ops (calls_since w0 w1) = []"
    and no_onerror: "map_option onerror (images w1 i) = Some None"
    and inv: "run_invariant w0 i h source (w1, False)"
    using effect_starts_run [OF assms] unfolding i_def w1_def by blast
  have idle: "abstract_state w0 i (w0, False) = (Idle, False)"
    by (simp add: abstract_state_def phase_of_def)
  have loading: "abstract_state w0 i (w1, False) = (ImageLoading, False)"
    using once nothing_drawn by (simp add: abstract_state_def phase_of_def)
  have first: "spec_step (abstract_state w0 i (w0, False)) (abstract_state w0 i (w1, False))"
    by (simp add: idle loading spec_step.src_assignment)
  have later: "events_follow_spec w0 i cl source (supports2d w0) w1"
    unfolding events_follow_spec_def Let_def
  proof (intro allI)
    fix es e
    have reached: "run_invariant w0 i h source (play i (Some cl) es (w1, False))"
      using inv cl(2) by (rule run_invariant_play)
    have no_context: "captured_context h = None" if "\<not> supports2d w0"
      using that h(2) by (simp add: getContext_def)
    have kept: "src_assignments i (calls_since w0 (fst (play i (Some cl) es (w1, False)))) = [source]
        \<and> map_option onerror (images (fst (play i (Some cl) es (w1, False))) i) = Some None"
      using reached by (auto simp add: run_invariant_def calls_since_def)
    show "(abstract_state w0 i (step_event i (Some cl) e (play i (Some cl) es (w1, False)))
            = abstract_state w0 i (play i (Some cl) es (w1, False))
            \<or> spec_step (abstract_state w0 i (play i (Some cl) es (w1, False)))
                 (abstract_state w0 i (step_event i (Some cl) e (play i (Some cl) es (w1, False)))))
      \<and> src_assignments i (calls_since w0 (fst (play i (Some cl) es (w1, False)))) = [source]
      \<and> map_option onerror (images (fst (play i (Some cl) es (w1, False))) i) = Some None
      \<and> (e = Fail \<longrightarrow>
           calls (fst (step_event i (Some cl) e (play i (Some cl) es (w1, False))))
             = calls (fst (play i (Some cl) es (w1, False)))
           \<and> bitmap (fst (step_event i (Some cl) e (play i (Some cl) es (w1, False))))
             = bitmap (fst (play i (Some cl) es (w1, False)))
           \<and> abstract_state w0 i (step_event i (Some cl) e (play i (Some cl) es (w1, False)))
             = abstract_state w0 i (play i (Some cl) es (w1, False)))
      \<and> (e = Load \<and> \<not> supports2d w0 \<longrightarrow>
           abstract_state w0 i (step_event i (Some cl) e (play i (Some cl) es (w1, False)))
             = abstract_state w0 i (play i (Some cl) es (w1, False)))"
      using step_refines_spec [OF reached cl(2) h(1), of e] kept no_context by auto
  qed
  show ?thesis
    using cl(1) once no_onerror idle loading first later
    unfolding i_def w1_def by blast
qed

lemma latin1_example_svg:
  "latin1 (svg_document (render example_host (p_children example_props))
     (to_string example_host (with_default 150 (p_width example_props)))
     (to_string example_host (with_default 150 (p_height example_props))))"
  by (simp add: svg_document_def renderToString_hi)

theorem effect_run_state_machine_witness:
  "canvasRef example_world = Some Canvas
   \<and> latin1 (svg_document (render example_host (p_children example_props))
        (to_string example_host (with_default 150 (p_width example_props)))
        (to_string example_host (with_default 150 (p_height example_props))))
   \<and> (\<exists>cl source.
        fst (effect (RenderOnCanvas Btoa example_host example_props) example_world) = Inr (Some cl)
        \<and> src_assignments (fresh example_world)
             (calls_since example_world
                (snd (effect (RenderOnCanvas Btoa example_host example_props) example_world)))
            = [source]
        \<and> abstract_state example_world (fresh example_world)
             (snd (effect (RenderOnCanvas Btoa example_host example_props) example_world), False)
            = (ImageLoading, False)
        \<and> events_follow_spec example_world (fresh example_world) cl source
             (supports2d example_world)
             (snd (effect (RenderOnCanvas Btoa example_host example_props) example_world)))"
proof -
  have mounted: "canvasRef example_world = Some Canvas"
    by simp
  obtain cl source where
    "fst (effect (RenderOnCanvas Btoa example_host example_props) example_world) = Inr (Some cl)"
    "src_assignments (fresh example_world)
       (calls_since example_world
          (snd (effect (RenderOnCanvas Btoa example_host example_props) example_world)))
      = [source]"
    "abstract_state example_world (fresh example_world)
       (snd (effect (RenderOnCanvas Btoa example_host example_props) example_world), False)
      = (ImageLoading, False)"
    "events_follow_spec example_world (fresh example_world) cl source (supports2d example_world)
       (snd (effect (RenderOnCanvas Btoa example_host example_props) example_world))"
    using effect_run_state_machine [where rv = Btoa and H = example_host and p = example_props,
        OF mounted latin1_example_svg]
    by (elim exE conjE)
  then show ?thesis
    using mounted latin1_example_svg by (intro conjI exI)
qed


section \<open>Rendering again with the same children\<close>

lemma initial_world_simps [simp]:
  "canvasRef (initial_world b) = None"
  "fresh (initial_world b) = 0"
  "supports2d (initial_world b) = b"
  "calls (initial_world b) = []"
  "bitmap (initial_world b) = []"
  "objectURLs (initial_world b) = []"
  "attributes (initial_world b) = (\<lambda>key. None)"
  "images (initial_world b) = (\<lambda>i. None)"
  by (simp_all add: initial_world_def)

lemma example_props_300_simps [simp]:
  "p_children example_props_300 = hi" "p_width example_props_300 = Some 300"
  "p_height example_props_300 = None"
  by (simp_all add: example_props_300_def)

lemma mount_jsb64_example:
  "fst (mount (RenderOnCanvas JsBase64 example_host example_props) (initial_world True))
     = Inr \<lparr>hook_args = Some hi, hook_cleanup = Some (Cleanup_jsb64 (Some Context2D) 150 150)\<rparr>"
  by (simp add: mount_runs_effect effect_of_RenderOnCanvas with_default_def
      effect_jsb64_result [where canvas = Canvas] Let_def)

lemma mounted_and_loaded_jsb64:
  "bitmap (mounted_and_loaded JsBase64 example_props)
     = [ClearRect 0 0 150 150, FillStyle (js ''white''), FillRect 0 0 150 150, DrawImage 0 0 0]"
  "attributes (mounted_and_loaded JsBase64 example_props)
     = element (RenderOnCanvas JsBase64 example_host example_props)"
  by (simp_all add: mounted_and_loaded_def mount_runs_effect effect_of_RenderOnCanvas
      with_default_def effect_jsb64_result [where canvas = Canvas] Let_def image_loaded_def
      onload_jsb64_Some bitmap_patch_canvas)

lemma latin1_hi_markup:
  "latin1 (useSVGForeignObject Number_toString (renderToString hi) (Some (150, 150)))"
  by (simp add: latin1_useSVGForeignObject renderToString_hi)

lemma mounted_and_loaded_btoa:
  "bitmap (mounted_and_loaded Btoa example_props)
     = [ClearRect 0 0 150 150, FillStyle (js ''white''), FillRect 0 0 150 150, DrawImage 0 0 0]"
  "attributes (mounted_and_loaded Btoa example_props)
     = element (RenderOnCanvas Btoa example_host example_props)"
  using btoa_latin1 [OF latin1_hi_markup]
  by (simp_all add: mounted_and_loaded_def mount_runs_effect effect_of_RenderOnCanvas
      with_default_def effect_btoa_result [where canvas = Canvas] Let_def image_loaded_def
      onload_btoa_Some bitmap_patch_canvas)

text \<open>
  C9, as stated, fails in the js-base64 revision, which passes \<open>width\<close> and \<open>height\<close> on
  to the canvas element. The component is mounted with the default width and its image
  is drawn; it is then rendered again with the same children and the width 300. The
  effect does not run again (the log is unchanged), but the bitmap is reset.
\<close>

theorem width_change_resets_bitmap:
  "fst (mount (RenderOnCanvas JsBase64 example_host example_props) (initial_world True))
     = Inr \<lparr>hook_args = Some hi, hook_cleanup = Some (Cleanup_jsb64 (Some Context2D) 150 150)\<rparr>
   \<and> p_children example_props_300 = p_children example_props
   \<and> bitmap (mounted_and_loaded JsBase64 example_props)
       = [ClearRect 0 0 150 150, FillStyle (js ''white''), FillRect 0 0 150 150, DrawImage 0 0 0]
   \<and> calls (snd (commit (RenderOnCanvas JsBase64 example_host example_props_300)
                   \<lparr>hook_args = Some hi,
                    hook_cleanup = Some (Cleanup_jsb64 (Some Context2D) 150 150)\<rparr>
                   (mounted_and_loaded JsBase64 example_props)))
       = calls (mounted_and_loaded JsBase64 example_props)
   \<and> bitmap (snd (commit (RenderOnCanvas JsBase64 example_host example_props_300)
                   \<lparr>hook_args = Some hi,
                    hook_cleanup = Some (Cleanup_jsb64 (Some Context2D) 150 150)\<rparr>
                   (mounted_and_loaded JsBase64 example_props)))
       = []"
  by (simp add: mount_jsb64_example mounted_and_loaded_jsb64 commit_same_deps bitmap_patch_canvas
      element_with_dimensions with_default_def)

text \<open>
  C9, amended. In every revision the dependency of the effect is \<open>children\<close> alone. When
  the component is rendered again with the children of the last effect, whatever the
  other props, the effect does not run again: no call is made, and the images and the
  object URLs stay as they are. The bitmap stays as it is in the three revisions that do
  not pass \<open>width\<close> and \<open>height\<close> to the canvas element, and in the js-base64 revision
  when \<open>width\<close> and \<open>height\<close> are the same as in the previous rendering.
\<close>

theorem props_change_keeps_canvas:
  assumes "hook_args h = Some (p_children p')"
    and "attributes w = element (RenderOnCanvas rv H p)"
  shows "deps (RenderOnCanvas rv H p') = p_children p'
     \<and> fst (commit (RenderOnCanvas rv H p') h w) = Inr h
     \<and> calls (snd (commit (RenderOnCanvas rv H p') h w)) = calls w
     \<and> images (snd (commit (RenderOnCanvas rv H p') h w)) = images w
     \<and> objectURLs (snd (commit (RenderOnCanvas rv H p') h w)) = objectURLs w
     \<and> (rv \<noteq> JsBase64 \<longrightarrow> bitmap (snd (commit (RenderOnCanvas rv H p') h w)) = bitmap w)
     \<and> (rv = JsBase64 \<and> with_default 150 (p_width p') = with_default 150 (p_width p)
          \<and> with_default 150 (p_height p') = with_default 150 (p_height p) \<longrightarrow>
         bitmap (snd (commit (RenderOnCanvas rv H p') h w)) = bitmap w)"
proof -
  have same: "commit (RenderOnCanvas rv H p') h w
      = (Inr h, patch_canvas (element (RenderOnCanvas rv H p')) w)"
    using assms(1) by (simp add: commit_same_deps)
  have unsized: "bitmap (patch_canvas (element (RenderOnCanvas rv H p')) w) = bitmap w"
    if "rv \<noteq> JsBase64"
    using that assms(2)
    by (simp add: bitmap_patch_canvas element_without_dimensions)
  have sized: "bitmap (patch_canvas (element (RenderOnCanvas rv H p')) w) = bitmap w"
    if "rv = JsBase64" "with_default 150 (p_width p') = with_default 150 (p_width p)"
      "with_default 150 (p_height p') = with_default 150 (p_height p)"
    using that assms(2)
    by (simp add: bitmap_patch_canvas element_with_dimensions)
  show ?thesis
    unfolding same using unsized sized by simp
qed

theorem props_change_keeps_canvas_witness:
  "hook_args \<lparr>hook_args = Some hi, hook_cleanup = Some (Cleanup_btoa (Some Context2D) 150 150)\<rparr>
     = Some (p_children example_props_300)
   \<and> attributes (mounted_and_loaded Btoa example_props)
       = element (RenderOnCanvas Btoa example_host example_props)
   \<and> bitmap (mounted_and_loaded Btoa example_props)
       = [ClearRect 0 0 150 150, FillStyle (js ''white''), FillRect 0 0 150 150, DrawImage 0 0 0]
   \<and> calls (snd (commit (RenderOnCanvas Btoa example_host example_props_300)
                   \<lparr>hook_args = Some hi,
                    hook_cleanup = Some (Cleanup_btoa (Some Context2D) 150 150)\<rparr>
                   (mounted_and_loaded Btoa example_props)))
       = calls (mounted_and_loaded Btoa example_props)
   \<and> bitmap (snd (commit (RenderOnCanvas Btoa example_host example_props_300)
                   \<lparr>hook_args = Some hi,
                    hook_cleanup = Some (Cleanup_btoa (Some Context2D) 150 150)\<rparr>
                   (mounted_and_loaded Btoa example_props)))
       = [ClearRect 0 0 150 150, FillStyle (js ''white''), FillRect 0 0 150 150, DrawImage 0 0 0]"
proof -
  have children: "hook_args \<lparr>hook_args = Some hi,
             hook_cleanup = Some (Cleanup_btoa (Some Context2D) 150 150)\<rparr>
     = Some (p_children example_props_300)"
    by simp
  show ?thesis
    using props_change_keeps_canvas [OF children mounted_and_loaded_btoa(2)]
      children mounted_and_loaded_btoa
    by simp
qed


section \<open>The order of the pipeline\<close>

lemma mount_btoa_euro:
  "mount (RenderOnCanvas Btoa example_host euro_props) (initial_world True) =
     (Inl InvalidCharacterError,
      (patch_canvas (element (RenderOnCanvas Btoa example_host euro_props)) (initial_world True))
        \<lparr>calls := [Call_render euro, Call_new_Image 0,
                   Call_btoa (useSVGForeignObject Number_toString (renderToString euro)
                                (Some (150, 150)))],
         images := (\<lambda>i. None)(0 \<mapsto>
             \<lparr>src = None, onload = None, onerror = None, load_state = Unloaded\<rparr>),
         fresh := Suc 0\<rparr>)"
proof -
  have "\<not> latin1 (useSVGForeignObject Number_toString (renderToString euro) (Some (150, 150)))"
    by (simp add: latin1_useSVGForeignObject not_latin1_euro)
  from btoa_not_latin1 [OF this] show ?thesis
    by (simp add: mount_runs_effect effect_of_RenderOnCanvas with_default_def
        effect_btoa_throws [where canvas = Canvas] Let_def)
qed

text \<open>
  C3, as stated, fails in the btoa revision: mounted with children that render to a
  euro sign, the component renders the children, wraps the markup and creates the
  image, then \<open>btoa\<close> throws. No image source is assigned and nothing is drawn later.
\<close>

theorem btoa_pipeline_stops_at_encoding:
  "fst (mount (RenderOnCanvas Btoa example_host euro_props) (initial_world True))
     = Inl InvalidCharacterError
   \<and> calls (snd (mount (RenderOnCanvas Btoa example_host euro_props) (initial_world True)))
       = [Call_render euro, Call_new_Image 0,
          Call_btoa (useSVGForeignObject Number_toString (renderToString euro) (Some (150, 150)))]
   \<and> map_option src (images (snd (mount (RenderOnCanvas Btoa example_host euro_props)
                                     (initial_world True))) 0)
       = Some None"
  by (simp add: mount_btoa_euro)

lemma run_after_effect:
  assumes mounted: "canvasRef w0 = Some canvas"
    and returned: "fst (effect (RenderOnCanvas rv H p) w0) = Inr (Some cl)"
  shows "\<forall>es. DrawImage (fresh w0) 0 0
            \<in> set (canvas_ops (calls_since w0 (fst (play (fresh w0) (Some cl) es
                      (snd (effect (RenderOnCanvas rv H p) w0), False)))))
          \<longrightarrow> Load \<in> set es"
    and "supports2d w0 \<longrightarrow>
          (\<exists>wd ht. canvas_ops (calls_since (snd (effect (RenderOnCanvas rv H p) w0))
                       (snd (image_loaded (fresh w0) (snd (effect (RenderOnCanvas rv H p) w0)))))
             = [ClearRect 0 0 wd ht, FillStyle (js ''white''), FillRect 0 0 wd ht,
                DrawImage (fresh w0) 0 0])"
    and "canvas_ops (calls_since w0 (snd (effect (RenderOnCanvas rv H p) w0))) = []"
proof -
  have latin: "latin1 (svg_document (render H (p_children p))
           (to_string H (with_default 150 (p_width p)))
           (to_string H (with_default 150 (p_height p))))" if "rv = Btoa"
    using that returned effect_btoa_returned [OF mounted, of H "p_children p"
        "with_default 150 (p_width p)" "with_default 150 (p_height p)" "Some cl"]
    by (simp add: effect_of_RenderOnCanvas useSVGForeignObject_document)
  obtain cl' h source where cl': "fst (effect (RenderOnCanvas rv H p) w0) = Inr (Some cl')"
    "is_cleanup cl'" and h: "onload_of (fresh w0) h"
    "captured_context h = fst (getContext canvas w0)"
    and undrawn: "canvas_ops (calls_since w0 (snd (effect (RenderOnCanvas rv H p) w0))) = []"
    and installed: "map_option onload (images (snd (effect (RenderOnCanvas rv H p) w0)) (fresh w0))
        = Some (Some h)"
    and pending: "map_option load_state (images (snd (effect (RenderOnCanvas rv H p) w0)) (fresh w0))
        = Some Pending"
    and inv: "run_invariant w0 (fresh w0) h source (snd (effect (RenderOnCanvas rv H p) w0), False)"
    using effect_starts_run [OF mounted latin] by blast
  from cl' returned have cl: "is_cleanup cl"
    by simp
  show "\<forall>es. DrawImage (fresh w0) 0 0
            \<in> set (canvas_ops (calls_since w0 (fst (play (fresh w0) (Some cl) es
                      (snd (effect (RenderOnCanvas rv H p) w0), False)))))
          \<longrightarrow> Load \<in> set es"
    using drawn_only_after_load [OF inv pending cl] by blast
  show "supports2d w0 \<longrightarrow>
          (\<exists>wd ht. canvas_ops (calls_since (snd (effect (RenderOnCanvas rv H p) w0))
                       (snd (image_loaded (fresh w0) (snd (effect (RenderOnCanvas rv H p) w0)))))
             = [ClearRect 0 0 wd ht, FillStyle (js ''white''), FillRect 0 0 wd ht,
                DrawImage (fresh w0) 0 0])"
    using load_draws [OF installed pending] h(2) spec_drawing_of_onload_explicit [OF h(1)]
    by (auto simp add: getContext_def)
  show "canvas_ops (calls_since w0 (snd (effect (RenderOnCanvas rv H p) w0))) = []"
    using undrawn by simp
qed

text \<open>
  C3, amended. An effect that runs with the canvas mounted makes these calls, in this
  order: it renders the children; it creates the image; it hands the SVG markup made
  from the rendered HTML to the blob (and the blob to \<open>createObjectURL\<close>) or to the
  Base64 encoder; it gets the context, installs the \<open>onload\<close> handler and assigns the
  object URL or the data URL to \<open>src\<close> of the image (the js-base64 revision assigns
  \<open>src\<close> before it gets the context). In the btoa revision this holds when the SVG
  markup has no code unit above U+00FF; otherwise the effect stops with the exception of
  \<open>btoa\<close>. The effect itself calls no canvas operation. In every sequence of events
  after it, the image is drawn only if a load event has occurred, and a load with a
  context clears the rectangle, fills it white and draws the image at the origin. The
  cleanup runs on unmount; a commit with other children runs the cleanup of the last
  effect and then the new effect, with the ref holding the canvas; a commit with the
  same children makes no call.
\<close>

theorem pipeline_order:
  assumes "canvasRef w0 = Some canvas"
  shows
    "calls_since w0 (snd (effect_fixed500 H children w0))
       = [Call_render children, Call_new_Image (fresh w0),
          Call_new_Blob (svgMarkup_fixed500 (render H children)) (js ''image/svg+xml;charset=utf-8''),
          Call_createObjectURL (js ''blob:'' @ js (digits (Suc (fresh w0)))),
          Call_getContext, Set_onload (fresh w0),
          Set_src (fresh w0) (js ''blob:'' @ js (digits (Suc (fresh w0))))]
     \<and> calls_since w0 (snd (effect_objurl H children width height w0))
       = [Call_render children, Call_new_Image (fresh w0),
          Call_new_Blob (svgMarkup_objurl (to_string H) (render H children) width height)
            (js ''image/svg+xml;charset=utf-8''),
          Call_createObjectURL (js ''blob:'' @ js (digits (Suc (fresh w0)))),
          Call_getContext, Set_onload (fresh w0),
          Set_src (fresh w0) (js ''blob:'' @ js (digits (Suc (fresh w0))))]
     \<and> (latin1 (useSVGForeignObject (to_string H) (render H children) (Some (width, height))) \<longrightarrow>
          calls_since w0 (snd (effect_btoa H children width height w0))
            = [Call_render children, Call_new_Image (fresh w0),
               Call_btoa (useSVGForeignObject (to_string H) (render H children) (Some (width, height))),
               Call_getContext, Set_onload (fresh w0),
               Set_src (fresh w0)
                 (js ''data:image/svg+xml;base64,''
                  @ js (base64 (map ucast (useSVGForeignObject (to_string H) (render H children)
                                             (Some (width, height))))))])
     \<and> (\<not> latin1 (useSVGForeignObject (to_string H) (render H children) (Some (width, height))) \<longrightarrow>
          fst (effect_btoa H children width height w0) = Inl InvalidCharacterError
          \<and> calls_since w0 (snd (effect_btoa H children width height w0))
            = [Call_render children, Call_new_Image (fresh w0),
               Call_btoa (useSVGForeignObject (to_string H) (render H children)
                            (Some (width, height)))])
     \<and> calls_since w0 (snd (effect_jsb64 H children width height w0))
       = [Call_render children, Call_new_Image (fresh w0),
          Call_Base64_encode (useSvgForeignObject (to_string H) (render H children)
                                (Some (width, height))),
          Set_src (fresh w0)
            (js ''data:image/svg+xml;base64,''
             @ js (base64 (utf8 (useSvgForeignObject (to_string H) (render H children)
                                   (Some (width, height)))))),
          Call_getContext, Set_onload (fresh w0)]
     \<and> (\<forall>cl. fst (effect (RenderOnCanvas rv H p) w0) = Inr (Some cl) \<longrightarrow>
          canvas_ops (calls_since w0 (snd (effect (RenderOnCanvas rv H p) w0))) = []
          \<and> (\<forall>es. DrawImage (fresh w0) 0 0
                  \<in> set (canvas_ops (calls_since w0 (fst (play (fresh w0) (Some cl) es
                            (snd (effect (RenderOnCanvas rv H p) w0), False)))))
                \<longrightarrow> Load \<in> set es)
          \<and> (supports2d w0 \<longrightarrow>
               (\<exists>wd ht. canvas_ops (calls_since (snd (effect (RenderOnCanvas rv H p) w0))
                            (snd (image_loaded (fresh w0) (snd (effect (RenderOnCanvas rv H p) w0)))))
                  = [ClearRect 0 0 wd ht, FillStyle (js ''white''), FillRect 0 0 wd ht,
                     DrawImage (fresh w0) 0 0]))
          \<and> unmount \<lparr>hook_args = a, hook_cleanup = Some cl\<rparr> w
              = (Inr (), (snd (run_handler cl w))\<lparr>canvasRef := None\<rparr>))
     \<and> (hook_args h \<noteq> Some (p_children p) \<longrightarrow>
          commit (RenderOnCanvas rv H p) h w
            = and_then (effect (RenderOnCanvas rv H p)
                          (snd (invokeCleanup h (patch_canvas (element (RenderOnCanvas rv H p)) w))))
                (\<lambda>c w3. (Inr \<lparr>hook_args = Some (p_children p), hook_cleanup = c\<rparr>, w3))
          \<and> canvasRef (snd (invokeCleanup h (patch_canvas (element (RenderOnCanvas rv H p)) w)))
              = Some Canvas)
     \<and> (hook_args h = Some (p_children p) \<longrightarrow>
          calls (snd (commit (RenderOnCanvas rv H p) h w)) = calls w)"
proof -
  have fixed500: "calls_since w0 (snd (effect_fixed500 H children w0))
       = [Call_render children, Call_new_Image (fresh w0),
          Call_new_Blob (svgMarkup_fixed500 (render H children)) (js ''image/svg+xml;charset=utf-8''),
          Call_createObjectURL (js ''blob:'' @ js (digits (Suc (fresh w0)))),
          Call_getContext, Set_onload (fresh w0),
          Set_src (fresh w0) (js ''blob:'' @ js (digits (Suc (fresh w0))))]"
    using assms by (simp add: effect_fixed500_result Let_def calls_since_def)
  have objurl: "calls_since w0 (snd (effect_objurl H children width height w0))
       = [Call_render children, Call_new_Image (fresh w0),
          Call_new_Blob (svgMarkup_objurl (to_string H) (render H children) width height)
            (js ''image/svg+xml;charset=utf-8''),
          Call_createObjectURL (js ''blob:'' @ js (digits (Suc (fresh w0)))),
          Call_getContext, Set_onload (fresh w0),
          Set_src (fresh w0) (js ''blob:'' @ js (digits (Suc (fresh w0))))]"
    using assms by (simp add: effect_objurl_result Let_def calls_since_def)
  have btoa_ok: "calls_since w0 (snd (effect_btoa H children width height w0))
            = [Call_render children, Call_new_Image (fresh w0),
               Call_btoa (useSVGForeignObject (to_string H) (render H children) (Some (width, height))),
               Call_getContext, Set_onload (fresh w0),
               Set_src (fresh w0)
                 (js ''data:image/svg+xml;base64,''
                  @ js (base64 (map ucast (useSVGForeignObject (to_string H) (render H children)
                                             (Some (width, height))))))]"
    if "latin1 (useSVGForeignObject (to_string H) (render H children) (Some (width, height)))"
    using assms btoa_latin1 [OF that] by (simp add: effect_btoa_result Let_def calls_since_def)
  have btoa_throws: "fst (effect_btoa H children width height w0) = Inl InvalidCharacterError
          \<and> calls_since w0 (snd (effect_btoa H children width height w0))
            = [Call_render children, Call_new_Image (fresh w0),
               Call_btoa (useSVGForeignObject (to_string H) (render H children)
                            (Some (width, height)))]"
    if "\<not> latin1 (useSVGForeignObject (to_string H) (render H children) (Some (width, height)))"
    using assms btoa_not_latin1 [OF that] by (simp add: effect_btoa_throws Let_def calls_since_def)
  have jsb64: "calls_since w0 (snd (effect_jsb64 H children width height w0))
       = [Call_render children, Call_new_Image (fresh w0),
          Call_Base64_encode (useSvgForeignObject (to_string H) (render H children)
                                (Some (width, height))),
          Set_src (fresh w0)
            (js ''data:image/svg+xml;base64,''
             @ js (base64 (utf8 (useSvgForeignObject (to_string H) (render H children)
                                   (Some (width, height)))))),
          Call_getContext, Set_onload (fresh w0)]"
    using assms by (simp add: effect_jsb64_result Let_def calls_since_def)
  have run: "canvas_ops (calls_since w0 (snd (effect (RenderOnCanvas rv H p) w0))) = []
          \<and> (\<forall>es. DrawImage (fresh w0) 0 0
                  \<in> set (canvas_ops (calls_since w0 (fst (play (fresh w0) (Some cl) es
                            (snd (effect (RenderOnCanvas rv H p) w0), False)))))
                \<longrightarrow> Load \<in> set es)
          \<and> (supports2d w0 \<longrightarrow>
               (\<exists>wd ht. canvas_ops (calls_since (snd (effect (RenderOnCanvas rv H p) w0))
                            (snd (image_loaded (fresh w0) (snd (effect (RenderOnCanvas rv H p) w0)))))
                  = [ClearRect 0 0 wd ht, FillStyle (js ''white''), FillRect 0 0 wd ht,
                     DrawImage (fresh w0) 0 0]))
          \<and> unmount \<lparr>hook_args = a, hook_cleanup = Some cl\<rparr> w
              = (Inr (), (snd (run_handler cl w))\<lparr>canvasRef := None\<rparr>)"
    if "fst (effect (RenderOnCanvas rv H p) w0) = Inr (Some cl)" for cl
    using run_after_effect [OF assms that] by (simp add: unmount_runs_cleanup)
  have other: "commit (RenderOnCanvas rv H p) h w
            = and_then (effect (RenderOnCanvas rv H p)
                          (snd (invokeCleanup h (patch_canvas (element (RenderOnCanvas rv H p)) w))))
                (\<lambda>c w3. (Inr \<lparr>hook_args = Some (p_children p), hook_cleanup = c\<rparr>, w3))
          \<and> canvasRef (snd (invokeCleanup h (patch_canvas (element (RenderOnCanvas rv H p)) w)))
              = Some Canvas"
    if "hook_args h \<noteq> Some (p_children p)"
    using that commit_other_deps [of h "RenderOnCanvas rv H p" w] by simp
  have same: "calls (snd (commit (RenderOnCanvas rv H p) h w)) = calls w"
    if "hook_args h = Some (p_children p)"
    using that by (simp add: commit_same_deps)
  show ?thesis
    using fixed500 objurl btoa_ok btoa_throws jsb64 run other same by blast
qed

theorem pipeline_order_witness:
  "canvasRef example_world = Some Canvas
   \<and> calls (snd (effect_jsb64 example_host euro 150 150 example_world))
       = [Call_render euro, Call_new_Image 0,
          Call_Base64_encode (useSvgForeignObject Number_toString (renderToString euro)
                                (Some (150, 150))),
          Set_src 0
            (js ''data:image/svg+xml;base64,''
             @ js (base64 (utf8 (useSvgForeignObject Number_toString (renderToString euro)
                                   (Some (150, 150)))))),
          Call_getContext, Set_onload 0]
   \<and> latin1 (useSVGForeignObject Number_toString (renderToString hi) (Some (150, 150)))
   \<and> calls (snd (effect_btoa example_host hi 150 150 example_world))
       = [Call_render hi, Call_new_Image 0,
          Call_btoa (useSVGForeignObject Number_toString (renderToString hi) (Some (150, 150))),
          Call_getContext, Set_onload 0,
          Set_src 0
            (js ''data:image/svg+xml;base64,''
             @ js (base64 (map ucast (useSVGForeignObject Number_toString (renderToString hi)
                                        (Some (150, 150))))))]
   \<and> \<not> latin1 (useSVGForeignObject Number_toString (renderToString euro) (Some (150, 150)))
   \<and> fst (effect_btoa example_host euro 150 150 example_world) = Inl InvalidCharacterError"
proof -
  have mounted: "canvasRef example_world = Some Canvas"
    by simp
  have not_latin: "\<not> latin1 (useSVGForeignObject Number_toString (renderToString euro)
      (Some (150, 150)))"
    by (simp add: latin1_useSVGForeignObject not_latin1_euro)
  show ?thesis
    using pipeline_order [OF mounted, of example_host euro 150 150]
      pipeline_order [OF mounted, of example_host hi 150 150]
      mounted latin1_hi_markup not_latin
    by (simp add: calls_since_def)
qed

end
